(* ===== verification/Prelude.thy ===== *)
theory Prelude
  imports Complex_Main "HOL-Library.Multiset"
begin

text \<open>
  Shared vocabulary of the development: the Python and SQLAlchemy exceptions the
  code can raise (as values of \<open>py_error\<close>), the result type \<open>'a res\<close> with its
  bind, Python's true division and its \<open>round\<close> (round half to even), the
  \<open>Query.one()\<close> / \<open>Query.one_or_none()\<close> row selectors, Python's \<open>min\<close>/\<open>max\<close>
  on lists, and the string helpers \<open>str.split\<close> and \<open>str.rfind\<close>. Python floats
  are modelled as \<open>real\<close> (exact arithmetic); Python ints as \<open>int\<close>, or \<open>nat\<close>
  for counts.
\<close>

named_theorems res_simps "equations that evaluate the result monad"

section \<open>Errors and results\<close>

datatype py_error =
    ZeroDivisionError
  | TypeError
  | IndexError
  | ValueError
  | NoResultFound
  | MultipleResultsFound
  | IntegrityError
  | NameError
  | KeyError
  | AttributeError

type_synonym 'a res = "py_error + 'a"

definition bindr :: "'a res \<Rightarrow> ('a \<Rightarrow> 'b res) \<Rightarrow> 'b res" where
  "bindr r f = (case r of Inl e \<Rightarrow> Inl e | Inr v \<Rightarrow> f v)"

lemma bindr_Inl [simp, res_simps]: "bindr (Inl e) f = Inl e"
  by (simp add: bindr_def)

lemma bindr_Inr [simp, res_simps]: "bindr (Inr v) f = f v"
  by (simp add: bindr_def)

lemma bindr_eq_Inr_iff: "bindr r f = Inr y \<longleftrightarrow> (\<exists>v. r = Inr v \<and> f v = Inr y)"
  by (cases r) simp_all

lemma bindr_eq_Inl_iff:
  "bindr r f = Inl e \<longleftrightarrow> r = Inl e \<or> (\<exists>v. r = Inr v \<and> f v = Inl e)"
  by (cases r) simp_all

lemma bindr_cong [fundef_cong]:
  "r = r' \<Longrightarrow> (\<And>v. r' = Inr v \<Longrightarrow> f v = g v) \<Longrightarrow> bindr r f = bindr r' g"
  by (cases r') simp_all

text \<open>
  A call that may also run forever (a \<open>while True\<close> loop over pages of the
  GitHub API): \<open>None\<close> is non-termination, \<open>Some (Inl e)\<close> an exception.
\<close>

definition bindo :: "'a res option \<Rightarrow> ('a \<Rightarrow> 'b res option) \<Rightarrow> 'b res option" where
  "bindo r f = (case r of None \<Rightarrow> None | Some (Inl e) \<Rightarrow> Some (Inl e) | Some (Inr v) \<Rightarrow> f v)"

lemma bindo_simps [simp, res_simps]:
  "bindo None f = None"
  "bindo (Some (Inl e)) f = Some (Inl e)"
  "bindo (Some (Inr v)) f = f v"
  by (simp_all add: bindo_def)

lemma bindo_eq_Some_Inr_iff:
  "bindo r f = Some (Inr y) \<longleftrightarrow> (\<exists>v. r = Some (Inr v) \<and> f v = Some (Inr y))"
  by (auto simp: bindo_def split: option.splits sum.splits)

lemma bindo_Some_iff: "(\<exists>y. bindo r f = Some y) \<longleftrightarrow>
    (\<exists>y. r = Some y) \<and> (\<forall>v. r = Some (Inr v) \<longrightarrow> (\<exists>y. f v = Some y))"
  by (auto simp: bindo_def split: option.splits sum.splits)

section \<open>Python arithmetic\<close>

text \<open>\<open>a / b\<close> on Python numbers: \<open>ZeroDivisionError\<close> when \<open>b = 0\<close>.\<close>

definition py_div :: "real \<Rightarrow> real \<Rightarrow> real res" where
  "py_div a b = (if b = 0 then Inl ZeroDivisionError else Inr (a / b))"

lemma py_div_nonzero [simp, res_simps]: "b \<noteq> 0 \<Longrightarrow> py_div a b = Inr (a / b)"
  by (simp add: py_div_def)

lemma py_div_zero [simp, res_simps]: "py_div a 0 = Inl ZeroDivisionError"
  by (simp add: py_div_def)

text \<open>
  Python's \<open>round(x)\<close>: the nearest integer, ties to the even one. \<open>round(x, n)\<close>
  rounds \<open>x * 10 ^ n\<close> the same way; on floats Python decides ties on the exact
  binary value, which the model idealises as the real quotient.
\<close>

definition py_round :: "real \<Rightarrow> int" where
  "py_round x = (let f = \<lfloor>x\<rfloor>; d = x - of_int f in
     if d < 1/2 then f else if 1/2 < d then f + 1 else if even f then f else f + 1)"

definition py_round_digits :: "real \<Rightarrow> nat \<Rightarrow> real" where
  "py_round_digits x n = of_int (py_round (x * 10 ^ n)) / 10 ^ n"

lemma py_round_of_int [simp]: "py_round (of_int k) = k"
  by (simp add: py_round_def)

lemma py_round_zero [simp]: "py_round 0 = 0"
  using py_round_of_int [of 0] by simp

lemma py_round_digits_zero [simp]: "py_round_digits 0 n = 0"
  by (simp add: py_round_digits_def)

lemma py_round_near: "\<bar>of_int (py_round x) - x\<bar> \<le> 1/2"
proof -
  have "0 \<le> x - of_int \<lfloor>x\<rfloor>" and "x - of_int \<lfloor>x\<rfloor> < 1"
    by linarith+
  then show ?thesis
    by (auto simp: py_round_def Let_def)
qed

lemma py_round_mono:
  assumes "x \<le> y" shows "py_round x \<le> py_round y"
proof -
  have fl: "\<lfloor>x\<rfloor> \<le> \<lfloor>y\<rfloor>" using assms by (rule floor_mono)
  have bx: "0 \<le> x - of_int \<lfloor>x\<rfloor>" "x - of_int \<lfloor>x\<rfloor> < 1"
    and hy: "0 \<le> y - of_int \<lfloor>y\<rfloor>" "y - of_int \<lfloor>y\<rfloor> < 1"
    by linarith+
  show ?thesis
  proof (cases "\<lfloor>x\<rfloor> = \<lfloor>y\<rfloor>")
    case True
    with assms show ?thesis by (auto simp: py_round_def Let_def)
  next
    case False
    with fl have "\<lfloor>x\<rfloor> + 1 \<le> \<lfloor>y\<rfloor>" by simp
    then show ?thesis using bx by (auto simp: py_round_def Let_def)
  qed
qed

lemma py_round_digits_mono:
  assumes "x \<le> y" shows "py_round_digits x n \<le> py_round_digits y n"
proof -
  have "x * 10 ^ n \<le> y * 10 ^ n" using assms by simp
  then have "py_round (x * 10 ^ n) \<le> py_round (y * 10 ^ n)" by (rule py_round_mono)
  then show ?thesis by (simp add: py_round_digits_def divide_right_mono)
qed

text \<open>
  The rounding of a ratio \<open>a / b\<close> of counts with \<open>a \<le> b\<close> is 0 or 1, and it is
  1 exactly when \<open>a\<close> is more than half of \<open>b\<close>: the tie \<open>1/2\<close> goes to the even 0.
\<close>

lemma py_round_ratio:
  assumes "a \<le> b" "0 < b"
  shows "py_round (real a / real b) = (if b < 2 * a then 1 else 0)"
proof (cases "a = b")
  case True
  with assms show ?thesis using py_round_of_int [of 1] by simp
next
  case False
  with assms have lt: "real a / real b < 1" by simp
  have ge: "0 \<le> real a / real b" by simp
  from lt ge have fl: "\<lfloor>real a / real b\<rfloor> = 0" by linarith
  have "(real a / real b < 1/2) \<longleftrightarrow> 2 * real a < real b"
    using assms by (simp add: field_simps)
  then have half: "(real a / real b < 1/2) \<longleftrightarrow> 2 * a < b" by linarith
  have "(1/2 < real a / real b) \<longleftrightarrow> real b < 2 * real a"
    using assms by (simp add: field_simps)
  then have half': "(1/2 < real a / real b) \<longleftrightarrow> b < 2 * a" by linarith
  show ?thesis using fl half half' by (auto simp: py_round_def Let_def)
qed

section \<open>Query results\<close>

text \<open>
  A query's rows are a list. \<open>Query.one_or_none()\<close> and \<open>Query.one()\<close> raise when
  there is more than one row; \<open>one()\<close> also raises when there is none.
\<close>

fun one_or_none :: "'a list \<Rightarrow> 'a option res" where
  "one_or_none [] = Inr None"
| "one_or_none [x] = Inr (Some x)"
| "one_or_none (x # y # zs) = Inl MultipleResultsFound"

fun one :: "'a list \<Rightarrow> 'a res" where
  "one [] = Inl NoResultFound"
| "one [x] = Inr x"
| "one (x # y # zs) = Inl MultipleResultsFound"

lemma one_or_none_Inr_iff:
  "one_or_none xs = Inr r \<longleftrightarrow> (xs = [] \<and> r = None) \<or> (\<exists>x. xs = [x] \<and> r = Some x)"
  by (cases xs rule: one_or_none.cases) auto

lemma one_Inr_iff: "one xs = Inr r \<longleftrightarrow> xs = [r]"
  by (cases xs rule: one.cases) auto

lemma one_or_none_multiple [simp]: "1 < length xs \<Longrightarrow> one_or_none xs = Inl MultipleResultsFound"
  by (cases xs rule: one_or_none.cases) auto

lemma one_multiple [simp]: "1 < length xs \<Longrightarrow> one xs = Inl MultipleResultsFound"
  by (cases xs rule: one.cases) auto

text \<open>Python's \<open>min\<close> and \<open>max\<close> of a list: \<open>ValueError\<close> on an empty one.\<close>

fun py_min :: "'a::linorder list \<Rightarrow> 'a res" where
  "py_min [] = Inl ValueError"
| "py_min (x # xs) = Inr (fold min xs x)"

fun py_max :: "'a::linorder list \<Rightarrow> 'a res" where
  "py_max [] = Inl ValueError"
| "py_max (x # xs) = Inr (fold max xs x)"

lemma py_min_Min: "xs \<noteq> [] \<Longrightarrow> py_min xs = Inr (Min (set xs))"
  by (cases xs) (simp_all add: Min.set_eq_fold [symmetric])

lemma py_max_Max: "xs \<noteq> [] \<Longrightarrow> py_max xs = Inr (Max (set xs))"
  by (cases xs) (simp_all add: Max.set_eq_fold [symmetric])

section \<open>Python sets as duplicate-free lists\<close>

text \<open>
  Python sets are kept as lists, so that every operation evaluates; a set built
  from a list is its \<open>remdups\<close>, and \<open>len\<close> of a filtered set is a cardinality.
\<close>

lemma length_filter_remdups:
  "length (filter P (remdups xs)) = card {x \<in> set xs. P x}"
proof -
  have "length (filter P (remdups xs)) = length (remdups (filter P xs))"
    by (simp add: remdups_filter)
  also have "\<dots> = card (set (filter P xs))"
    by (rule length_remdups_card_conv)
  finally show ?thesis by (simp add: Collect_conj_eq Int_commute)
qed

lemma remdups_remdups_append [simp]: "remdups (remdups xs @ ys) = remdups (xs @ ys)"
  by (induction xs) auto

text \<open>A join against an empty table is empty.\<close>

lemma concat_map_Nil [simp]: "concat (map (\<lambda>x. []) xs) = []"
  by (induction xs) simp_all

section \<open>Strings\<close>

text \<open>
  \<open>s.split(c)\<close> with a one-character separator: the pieces between the
  separators, an empty piece where two separators meet or at either end.
\<close>

fun split_on :: "char \<Rightarrow> string \<Rightarrow> string list" where
  "split_on c [] = [[]]"
| "split_on c (x # xs) =
     (if x = c then [] # split_on c xs
      else (case split_on c xs of w # ws \<Rightarrow> (x # w) # ws | [] \<Rightarrow> [[x]]))"

lemma split_on_not_Nil [simp]: "split_on c s \<noteq> []"
  by (induction s) (auto split: list.split)

lemma split_on_no_sep: "w \<in> set (split_on c s) \<Longrightarrow> c \<notin> set w"
proof (induction s arbitrary: w)
  case Nil
  then show ?case by simp
next
  case (Cons x xs)
  then show ?case
    by (auto split: if_splits list.splits)
qed

text \<open>\<open>s.rfind(c)\<close>: the last index of \<open>c\<close> in \<open>s\<close>, or -1.\<close>

fun rfind :: "char \<Rightarrow> string \<Rightarrow> int" where
  "rfind c [] = -1"
| "rfind c (x # xs) = (let r = rfind c xs in if 0 \<le> r then r + 1 else if x = c then 0 else -1)"

text \<open>\<open>s[k:]\<close> for \<open>k \<ge> 0\<close>; a negative start counts from the end.\<close>

definition slice_from :: "string \<Rightarrow> int \<Rightarrow> string" where
  "slice_from s k = (if 0 \<le> k then drop (nat k) s else drop (nat (max 0 (int (length s) + k))) s)"


section \<open>Printed output\<close>

text \<open>
  What \<open>print\<close> and \<open>file.write\<close> emit, as a list of chunks: the literal text,
  and the values whose rendering is Python's \<open>str\<close> of an \<open>int\<close>, a \<open>float\<close>, a
  \<open>datetime\<close> (seconds), a \<open>date\<close> or \<open>None\<close>, a \<open>str\<close> or \<open>None\<close>, and
  the \<open>languages\<close> JSON column.
\<close>

datatype out_chunk =
    Txt string
  | IntV int
  | FltV real
  | TimeV int
  | DateV "int option"
  | StrV "string option"
  | LangsV "(string \<times> nat) list"

type_synonym out_text = "out_chunk list"

end
