(* ===== verification/Schema.thy ===== *)
theory Schema
  imports Prelude
begin

text \<open>
  The persisted data (\<open>src/app/models.py\<close>): one record per SQLAlchemy class, the
  database as a record of tables (lists of rows, in insertion order), and the queries
  that the rule and trust checks of \<open>src/app/rule_check.py\<close> share. Dates are day
  numbers and \<open>DateTime\<close> columns are seconds, both as \<open>int\<close>; \<open>Float\<close> columns
  are \<open>real\<close>, nullable ones \<open>real option\<close>. The configuration read from
  \<open>rules.ini\<close> and the inputs from outside the database (today's date, the GitHub
  contribution count of a user, the commit JSON behind a URL) are records too.
\<close>

section \<open>Tables\<close>

record commits_file =
  cf_commit_id :: nat
  cf_file_id :: nat
  cf_status :: string

record developer =
  dev_id :: nat
  username :: string
  contributions :: int
  account_creation :: int
  follower_number :: int

record commit =
  commit_id :: nat
  day :: int
  timestamp :: int
  languages :: "(string \<times> nat) list"
  message :: string
  new_lines :: nat
  removed_lines :: nat
  changed_chars :: nat
  added_files :: nat
  modified_files :: nat
  removed_files :: nat
  renamed_files :: nat
  c_developer_id :: nat

record file_rec =
  file_id :: nat
  filename :: string
  previous_filename :: "string option"
  f_developer_id :: "nat option"

record commits_stats =
  cs_id :: nat
  date :: "int option"
  number_commits :: nat
  time_intervals_min :: int
  time_intervals_max :: int
  time_intervals_mean :: real
  time_intervals_var :: real
  changed_lines_min :: nat
  changed_lines_max :: nat
  changed_lines_mean :: real
  changed_lines_var :: real
  changed_chars_min :: nat
  changed_chars_max :: nat
  changed_chars_mean :: real
  changed_chars_var :: real
  comments_size_min :: nat
  comments_size_max :: nat
  comments_size_mean :: real
  comments_size_var :: real
  added_files_mean :: real
  added_files_var :: real
  modified_files_mean :: real
  modified_files_var :: real
  removed_files_mean :: real
  removed_files_var :: real
  cs_developer_id :: nat

text \<open>
  \<open>DeveloperStats\<close> and \<open>RepoStats\<close> have the same fifteen columns; they are one
  record \<open>stats\<close> extended by the key of each table, so that the outlier check,
  which Python calls on either, is one function on \<open>'a stats_scheme\<close>.
\<close>

record stats =
  new_lines_avg :: "real option"
  new_lines_std :: real
  new_lines_var :: real
  removed_lines_avg :: "real option"
  removed_lines_std :: real
  removed_lines_var :: real
  added_files_avg :: "real option"
  added_files_std :: real
  added_files_var :: real
  modified_files_avg :: "real option"
  modified_files_std :: real
  modified_files_var :: real
  removed_files_avg :: "real option"
  removed_files_std :: real
  removed_files_var :: real

record developer_stats = stats +
  ds_developer_id :: nat

record repo_stats = stats +
  rs_id :: nat

record pull =
  pull_id :: nat
  merged :: bool
  state :: string
  p_developer_id :: "nat option"

record db =
  developer_table :: "developer list"
  commits_table :: "commit list"
  file_table :: "file_rec list"
  commits_files_table :: "commits_file list"
  commits_stats_table :: "commits_stats list"
  developer_stats_table :: "developer_stats list"
  repo_stats_table :: "repo_stats list"
  pull_table :: "pull list"

section \<open>Payloads of the GitHub API\<close>

text \<open>
  The JSON of one commit as \<open>get_commit_info\<close> returns it: \<open>commit_data['files']\<close>,
  \<open>commit_data['stats']\<close>, \<open>commit_data['commit']['message']\<close> and the author date
  (seconds). A file's \<open>patch\<close> and \<open>previous_filename\<close> keys may be absent.
\<close>

record gh_file =
  gh_filename :: string
  gh_status :: string
  gh_patch :: "string option"
  gh_previous_filename :: "string option"

record gh_commit =
  gh_date :: int
  gh_message :: string
  gh_additions :: nat
  gh_deletions :: nat
  gh_total :: nat
  gh_files :: "gh_file list"

section \<open>Configuration and environment\<close>

record config =
  sensitive_files :: "string list"
  sensitive_files_threshold :: int
  not_touched_files :: real
  owned_majority_files :: real
  new_files_outlier :: real
  rule_contributions :: int
  trust_threshold :: real
  min_time_contributor :: int
  few_commits_threshold :: real
  same_day_commits :: real
  rejected_pr :: real

record env =
  today :: int
  user_contributions :: "string \<Rightarrow> int"
  commit_info :: "string \<Rightarrow> gh_commit"

text \<open>
  \<open>datetime.date()\<close> of a naive \<open>DateTime\<close> value: the day number of a time in
  seconds (days since 1970-01-01, the time taken as UTC).
\<close>

definition py_date :: "int \<Rightarrow> int" where
  "py_date secs = secs div 86400"

section \<open>Shared queries\<close>

text \<open>\<open>session.query(Developer).filter_by(username=username)\<close>.\<close>

definition devs_named :: "db \<Rightarrow> string \<Rightarrow> developer list" where
  "devs_named s u = filter (\<lambda>d. username d = u) (developer_table s)"

text \<open>
  \<open>session.query(Commits).join(Developer).filter(Developer.username == username)\<close>:
  one row per matching pair, as the SQL join gives.
\<close>

definition commits_of :: "db \<Rightarrow> string \<Rightarrow> commit list" where
  "commits_of s u = [c. c \<leftarrow> commits_table s, d \<leftarrow> devs_named s u, c_developer_id c = dev_id d]"

text \<open>\<open>first_commit\<close>: the author has no \<open>Developer\<close> row.\<close>

definition first_commit :: "db \<Rightarrow> string \<Rightarrow> bool res" where
  "first_commit s u = bindr (one_or_none (devs_named s u)) (\<lambda>dev. Inr (dev = None))"

definition unique_usernames :: "db \<Rightarrow> bool" where
  "unique_usernames s = distinct (map username (developer_table s))"

section \<open>Example data for the witnesses\<close>

definition empty_db :: db where
  "empty_db = \<lparr>developer_table = [], commits_table = [], file_table = [],
     commits_files_table = [], commits_stats_table = [], developer_stats_table = [],
     repo_stats_table = [], pull_table = []\<rparr>"

definition ex_dev :: "nat \<Rightarrow> string \<Rightarrow> developer" where
  "ex_dev i u = \<lparr>dev_id = i, username = u, contributions = 1, account_creation = 0,
     follower_number = 0\<rparr>"

definition ex_commit :: "nat \<Rightarrow> nat \<Rightarrow> nat \<Rightarrow> nat \<Rightarrow> commit" where
  "ex_commit i dv nl rl = \<lparr>commit_id = i, day = 0, timestamp = 0, languages = [], message = [],
     new_lines = nl, removed_lines = rl, changed_chars = 0, added_files = 0, modified_files = 0,
     removed_files = 0, renamed_files = 0, c_developer_id = dv\<rparr>"

definition ex_config :: config where
  "ex_config = \<lparr>sensitive_files = [''py'', ''sh''], sensitive_files_threshold = 2,
     not_touched_files = 1/2, owned_majority_files = 1/2, new_files_outlier = 3,
     rule_contributions = 100, trust_threshold = 1/2, min_time_contributor = 30,
     few_commits_threshold = 1/10, same_day_commits = 1/2, rejected_pr = 1/2\<rparr>"

definition ex_gh_commit :: gh_commit where
  "ex_gh_commit = \<lparr>gh_date = 0, gh_message = [], gh_additions = 0, gh_deletions = 0,
     gh_total = 0, gh_files = []\<rparr>"

definition ex_env :: env where
  "ex_env = \<lparr>today = 100, user_contributions = (\<lambda>_. 0), commit_info = (\<lambda>_. ex_gh_commit)\<rparr>"

section \<open>Lemmas\<close>

lemma distinct_map_filter_eq:
  "distinct (map f xs) \<Longrightarrow> length (filter (\<lambda>x. f x = u) xs) \<le> 1"
proof (induction xs)
  case Nil
  then show ?case by simp
next
  case (Cons x xs)
  then have "f x = u \<Longrightarrow> filter (\<lambda>x. f x = u) xs = []"
    by (auto simp: filter_empty_conv image_iff)
  with Cons show ?case by auto
qed

lemma devs_named_unique:
  "unique_usernames s \<Longrightarrow> length (devs_named s u) \<le> 1"
  unfolding unique_usernames_def devs_named_def by (rule distinct_map_filter_eq)

lemma first_commit_Inr:
  "unique_usernames s \<Longrightarrow> first_commit s u = Inr (devs_named s u = [])"
proof -
  assume "unique_usernames s"
  then have "length (devs_named s u) \<le> 1" by (rule devs_named_unique)
  then show ?thesis
    by (cases "devs_named s u" rule: one_or_none.cases) (auto simp: first_commit_def)
qed

lemma first_commit_Inr_iff:
  "first_commit s u = Inr b \<longleftrightarrow> length (devs_named s u) \<le> 1 \<and> b = (devs_named s u = [])"
  by (cases "devs_named s u" rule: one_or_none.cases) (auto simp: first_commit_def)

lemma commits_of_first:
  "devs_named s u = [] \<Longrightarrow> commits_of s u = []"
  by (simp add: commits_of_def)

end
