(* ===== verification/Outlier.thy ===== *)
theory Outlier
  imports Schema
begin

text \<open>
  The statistical outlier detector of \<open>src/app/rule_check.py\<close>:
  \<open>count_files_by_status\<close> counts a commit's files per status,
  \<open>outlier_stats_check\<close> compares the commit's additions, deletions and
  added/modified/removed file counts with \<open>mean \<plusminus> std\<close> of one baseline row, and
  \<open>outlier_check\<close> runs it against the author's \<open>DeveloperStats\<close> row (skipped for a
  first-time committer) and then against the single \<open>RepoStats\<close> row. A baseline
  mean that is SQL \<open>NULL\<close> (Python \<open>None\<close>) raises \<open>TypeError\<close> at the first
  arithmetic on it; \<open>Query.one()\<close> raises on zero or several rows.
\<close>

section \<open>Definitions\<close>

record file_status =
  fs_added :: nat
  fs_modified :: nat
  fs_removed :: nat

definition count_step :: "file_status \<Rightarrow> gh_file \<Rightarrow> file_status" where
  "count_step acc f =
     acc\<lparr>fs_added := fs_added acc + (if gh_status f = ''added'' then 1 else 0),
         fs_modified := fs_modified acc + (if gh_status f = ''modified'' then 1 else 0),
         fs_removed := fs_removed acc + (if gh_status f = ''removed'' then 1 else 0)\<rparr>"

definition count_files_by_status :: "gh_file list \<Rightarrow> file_status" where
  "count_files_by_status files =
     fold (\<lambda>f acc. count_step acc f) files \<lparr>fs_added = 0, fs_modified = 0, fs_removed = 0\<rparr>"

text \<open>
  One metric of \<open>outlier_stats_check\<close>:
  \<open>upper = avg + std; lower = avg - std; if upper < x or lower > x: return True\<close>.
\<close>

definition outside_band :: "real option \<Rightarrow> real \<Rightarrow> real \<Rightarrow> bool res" where
  "outside_band avg std x =
     (case avg of None \<Rightarrow> Inl TypeError | Some a \<Rightarrow> Inr (a + std < x \<or> a - std > x))"

definition outlier_stats_check :: "'a stats_scheme \<Rightarrow> gh_commit \<Rightarrow> file_status \<Rightarrow> bool res" where
  "outlier_stats_check st commit_data fs =
     bindr (outside_band (new_lines_avg st) (new_lines_std st) (real (gh_additions commit_data)))
       (\<lambda>b. if b then Inr True else
     bindr (outside_band (removed_lines_avg st) (removed_lines_std st) (real (gh_deletions commit_data)))
       (\<lambda>b. if b then Inr True else
     bindr (outside_band (added_files_avg st) (added_files_std st) (real (fs_added fs)))
       (\<lambda>b. if b then Inr True else
     bindr (outside_band (modified_files_avg st) (modified_files_std st) (real (fs_modified fs)))
       (\<lambda>b. if b then Inr True else
     bindr (outside_band (removed_files_avg st) (removed_files_std st) (real (fs_removed fs)))
       (\<lambda>b. if b then Inr True else Inr False)))))"

definition outlier_check :: "db \<Rightarrow> string \<Rightarrow> gh_commit \<Rightarrow> bool res" where
  "outlier_check s u commit_data =
     (let fs = count_files_by_status (gh_files commit_data) in
      bindr (first_commit s u) (\<lambda>first.
      bindr (if first then Inr False
             else bindr (one (map dev_id (devs_named s u))) (\<lambda>did.
                  bindr (one (filter (\<lambda>r. ds_developer_id r = did) (developer_stats_table s)))
                    (\<lambda>ds. outlier_stats_check ds commit_data fs)))
        (\<lambda>dev_out. if dev_out then Inr True
                   else bindr (one (repo_stats_table s)) (\<lambda>rs. outlier_stats_check rs commit_data fs))))"

text \<open>The glossary's outlier: strictly outside \<open>[mean - std, mean + std]\<close>.\<close>

definition outside :: "real \<Rightarrow> real \<Rightarrow> real \<Rightarrow> bool" where
  "outside m sd x \<longleftrightarrow> x < m - sd \<or> m + sd < x"

definition means_defined :: "'a stats_scheme \<Rightarrow> bool" where
  "means_defined st \<longleftrightarrow> new_lines_avg st \<noteq> None \<and> removed_lines_avg st \<noteq> None \<and>
     added_files_avg st \<noteq> None \<and> modified_files_avg st \<noteq> None \<and> removed_files_avg st \<noteq> None"

text \<open>The baseline of the outlier scenario of the spec: every mean 10, every std 2.\<close>

definition spec_baseline :: stats where
  "spec_baseline =
     \<lparr>new_lines_avg = Some 10, new_lines_std = 2, new_lines_var = 4,
      removed_lines_avg = Some 10, removed_lines_std = 2, removed_lines_var = 4,
      added_files_avg = Some 10, added_files_std = 2, added_files_var = 4,
      modified_files_avg = Some 10, modified_files_std = 2, modified_files_var = 4,
      removed_files_avg = Some 10, removed_files_std = 2, removed_files_var = 4\<rparr>"

definition spec_commit :: "nat \<Rightarrow> gh_commit" where
  "spec_commit n = \<lparr>gh_date = 0, gh_message = [], gh_additions = n, gh_deletions = 11,
     gh_total = n + 11, gh_files = []\<rparr>"

definition ex_repo_stats :: repo_stats where
  "ex_repo_stats =
     \<lparr>new_lines_avg = Some 10, new_lines_std = 2, new_lines_var = 4,
      removed_lines_avg = Some 10, removed_lines_std = 2, removed_lines_var = 4,
      added_files_avg = Some 10, added_files_std = 2, added_files_var = 4,
      modified_files_avg = Some 10, modified_files_std = 2, modified_files_var = 4,
      removed_files_avg = Some 10, removed_files_std = 2, removed_files_var = 4, rs_id = 1\<rparr>"

section \<open>Lemmas\<close>

lemma outside_band_Some [simp]: "outside_band (Some a) sd x = Inr (outside a sd x)"
  by (auto simp: outside_band_def outside_def)

lemma outside_band_None [simp]: "outside_band None sd x = Inl TypeError"
  by (simp add: outside_band_def)

lemma count_files_by_status_fold:
  "fold (\<lambda>f acc. count_step acc f) files acc =
     \<lparr>fs_added = fs_added acc + length (filter (\<lambda>f. gh_status f = ''added'') files),
      fs_modified = fs_modified acc + length (filter (\<lambda>f. gh_status f = ''modified'') files),
      fs_removed = fs_removed acc + length (filter (\<lambda>f. gh_status f = ''removed'') files)\<rparr>"
  by (induction files arbitrary: acc) (simp_all add: count_step_def)

section \<open>Properties\<close>

text \<open>
  \<open>count_files_by_status\<close> returns, for each of \<open>added\<close>, \<open>modified\<close> and
  \<open>removed\<close>, the number of the commit's files with that status.
\<close>

theorem count_files_by_status_counts:
  "count_files_by_status files =
     \<lparr>fs_added = length (filter (\<lambda>f. gh_status f = ''added'') files),
      fs_modified = length (filter (\<lambda>f. gh_status f = ''modified'') files),
      fs_removed = length (filter (\<lambda>f. gh_status f = ''removed'') files)\<rparr>"
  by (simp add: count_files_by_status_def count_files_by_status_fold)

text \<open>
  C3: when every mean of the baseline row is defined, \<open>outlier_stats_check\<close> returns
  whether at least one of the five metrics lies strictly outside
  \<open>[mean - std, mean + std]\<close>; it never raises.
\<close>

theorem outlier_stats_check_iff:
  assumes "means_defined st"
  shows "outlier_stats_check st cd fs =
    Inr (outside (the (new_lines_avg st)) (new_lines_std st) (real (gh_additions cd)) \<or>
         outside (the (removed_lines_avg st)) (removed_lines_std st) (real (gh_deletions cd)) \<or>
         outside (the (added_files_avg st)) (added_files_std st) (real (fs_added fs)) \<or>
         outside (the (modified_files_avg st)) (modified_files_std st) (real (fs_modified fs)) \<or>
         outside (the (removed_files_avg st)) (removed_files_std st) (real (fs_removed fs)))"
  using assms by (auto simp: means_defined_def outlier_stats_check_def)

theorem outlier_stats_check_iff_witness:
  "means_defined spec_baseline \<and>
   outlier_stats_check spec_baseline (spec_commit 13) \<lparr>fs_added = 10, fs_modified = 8, fs_removed = 12\<rparr> = Inr True \<and>
   outlier_stats_check spec_baseline (spec_commit 12) \<lparr>fs_added = 10, fs_modified = 8, fs_removed = 12\<rparr> = Inr False"
proof -
  let ?fs = "\<lparr>fs_added = 10, fs_modified = 8, fs_removed = 12\<rparr>"
  have d: "means_defined spec_baseline" by (simp add: means_defined_def spec_baseline_def)
  show ?thesis
    using outlier_stats_check_iff [OF d, of "spec_commit 13" ?fs]
      outlier_stats_check_iff [OF d, of "spec_commit 12" ?fs]
    by (simp add: means_defined_def spec_baseline_def spec_commit_def outside_def)
qed

text \<open>
  C4: \<open>outlier_check\<close> flags a commit when the author's own baseline or the
  repository baseline flags it; for a first-time committer only the repository
  baseline is consulted. (One \<open>Developer\<close>, one \<open>DeveloperStats\<close> and one
  \<open>RepoStats\<close> row are what \<open>Query.one()\<close> needs.)
\<close>

theorem outlier_check_compose:
  assumes rs: "repo_stats_table s = [rs]"
    and repo: "outlier_stats_check rs cd (count_files_by_status (gh_files cd)) = Inr b2"
  shows "(devs_named s u = [] \<longrightarrow> outlier_check s u cd = Inr b2) \<and>
         (devs_named s u = [d] \<longrightarrow>
          filter (\<lambda>r. ds_developer_id r = dev_id d) (developer_stats_table s) = [ds] \<longrightarrow>
          outlier_stats_check ds cd (count_files_by_status (gh_files cd)) = Inr b1 \<longrightarrow>
          outlier_check s u cd = Inr (b1 \<or> b2))"
  using assms by (auto simp: outlier_check_def first_commit_def Let_def)

theorem outlier_check_compose_witness:
  "repo_stats_table (empty_db\<lparr>repo_stats_table := [ex_repo_stats]\<rparr>) = [ex_repo_stats] \<and>
   outlier_stats_check ex_repo_stats ex_gh_commit (count_files_by_status (gh_files ex_gh_commit)) = Inr True \<and>
   devs_named (empty_db\<lparr>repo_stats_table := [ex_repo_stats]\<rparr>) ''bob'' = [] \<and>
   outlier_check (empty_db\<lparr>repo_stats_table := [ex_repo_stats]\<rparr>) ''bob'' ex_gh_commit = Inr True"
proof -
  let ?s = "empty_db\<lparr>repo_stats_table := [ex_repo_stats]\<rparr>"
  have h1: "repo_stats_table ?s = [ex_repo_stats]" by simp
  have h2: "outlier_stats_check ex_repo_stats ex_gh_commit (count_files_by_status (gh_files ex_gh_commit)) = Inr True"
    by (simp add: outlier_stats_check_def ex_repo_stats_def ex_gh_commit_def count_files_by_status_def
        outside_def)
  have h3: "devs_named ?s ''bob'' = []" by (simp add: devs_named_def empty_db_def)
  show ?thesis using outlier_check_compose [OF h1 h2, of "''bob''"] h1 h2 h3 by simp
qed

end
