(* ===== verification/Trust.thy ===== *)
theory Trust
  imports Schema
begin

text \<open>
  The trust evaluator of \<open>src/app/rule_check.py\<close> (\<open>is_trusted\<close> and its six
  predicates \<open>is_contributor\<close>, \<open>recent_account\<close>, \<open>commits_threshold\<close>,
  \<open>first_commit\<close>, \<open>commits_per_day\<close>, \<open>rejected_pulls\<close>). The verdict is
  \<open>round(k / 6, 1) >= Trust_Threshold\<close> for the number \<open>k\<close> of predicates that
  hold. \<open>recent_account\<close> returns \<open>None\<close> for an author without a \<open>Developer\<close>
  row, and \<open>not None\<close> is \<open>True\<close> in Python: the option and \<open>py_not_opt\<close>
  keep that.
\<close>

section \<open>Definitions\<close>

definition is_contributor :: "env \<Rightarrow> string \<Rightarrow> bool" where
  "is_contributor e u \<longleftrightarrow> user_contributions e u \<noteq> 0"

definition recent_account :: "config \<Rightarrow> env \<Rightarrow> db \<Rightarrow> string \<Rightarrow> bool option res" where
  "recent_account cfg e s u =
     bindr (one_or_none (devs_named s u)) (\<lambda>dev.
       case dev of
         None \<Rightarrow> Inr None
       | Some d \<Rightarrow> Inr (Some (today e - py_date (account_creation d) \<le> min_time_contributor cfg)))"

definition py_not_opt :: "bool option \<Rightarrow> bool" where
  "py_not_opt v = (case v of None \<Rightarrow> True | Some b \<Rightarrow> \<not> b)"

definition commits_threshold :: "config \<Rightarrow> db \<Rightarrow> string \<Rightarrow> bool res" where
  "commits_threshold cfg s u =
     bindr (py_div (real (length (commits_of s u))) (real (length (commits_table s))))
       (\<lambda>r. Inr (few_commits_threshold cfg \<le> py_round_digits r 2))"

text \<open>
  \<open>func.sum(number_commits)\<close> over the day's rows is SQL \<open>NULL\<close> when there are
  none; the author's row of the day is selected with \<open>one_or_none()\<close>.
\<close>

definition day_total :: "db \<Rightarrow> int \<Rightarrow> nat option" where
  "day_total s d =
     (let rows = filter (\<lambda>cs. date cs = Some d) (commits_stats_table s)
      in if rows = [] then None else Some (sum_list (map number_commits rows)))"

definition commits_per_day :: "config \<Rightarrow> db \<Rightarrow> string \<Rightarrow> int \<Rightarrow> bool res" where
  "commits_per_day cfg s u d =
     bindr (one_or_none [number_commits cs. cs \<leftarrow> commits_stats_table s, dv \<leftarrow> devs_named s u,
                          cs_developer_id cs = dev_id dv, date cs = Some d])
       (\<lambda>row. case row of
          None \<Rightarrow> Inr False
        | Some n \<Rightarrow> (case day_total s d of
             None \<Rightarrow> Inl TypeError
           | Some t \<Rightarrow> bindr (py_div (real n) (real t))
                         (\<lambda>r. Inr (same_day_commits cfg \<le> py_round_digits r 1))))"

definition pulls_of :: "db \<Rightarrow> string \<Rightarrow> pull list" where
  "pulls_of s u = [p. p \<leftarrow> pull_table s, dv \<leftarrow> devs_named s u, p_developer_id p = Some (dev_id dv)]"

definition rejected_pulls :: "config \<Rightarrow> db \<Rightarrow> string \<Rightarrow> bool res" where
  "rejected_pulls cfg s u =
     (let pulls = length (pulls_of s u);
          rejected = length (filter (\<lambda>p. state p = ''closed'' \<and> \<not> merged p) (pulls_of s u))
      in if 0 < pulls
         then bindr (py_div (real rejected) (real pulls))
                (\<lambda>r. Inr (real_of_int (py_round r) \<le> rejected_pr cfg))
         else Inr True)"

definition trust_verdict :: "config \<Rightarrow> nat \<Rightarrow> bool" where
  "trust_verdict cfg k \<longleftrightarrow> trust_threshold cfg \<le> py_round_digits (real k / 6) 1"

definition is_trusted :: "config \<Rightarrow> env \<Rightarrow> db \<Rightarrow> string \<Rightarrow> int \<Rightarrow> bool res" where
  "is_trusted cfg e s u d =
     (let p1 = is_contributor e u in
      bindr (recent_account cfg e s u) (\<lambda>recent.
      bindr (commits_threshold cfg s u) (\<lambda>p3.
      bindr (first_commit s u) (\<lambda>first.
      bindr (commits_per_day cfg s u d) (\<lambda>p5.
      bindr (rejected_pulls cfg s u) (\<lambda>p6.
        Inr (trust_verdict cfg
          (of_bool p1 + of_bool (py_not_opt recent) + of_bool p3 + of_bool (\<not> first)
           + of_bool p5 + of_bool p6))))))))"

section \<open>Lemmas\<close>

lemma pulls_of_first: "devs_named s u = [] \<Longrightarrow> pulls_of s u = []"
  by (simp add: pulls_of_def)

lemma rejected_le_pulls:
  "length (filter P (pulls_of s u)) \<le> length (pulls_of s u)"
  by (rule length_filter_le)

lemma trust_verdict_mono:
  assumes "k \<le> k'" and "trust_verdict cfg k"
  shows "trust_verdict cfg k'"
proof -
  have "real k / 6 \<le> real k' / 6" using assms(1) by simp
  then show ?thesis
    using assms(2) py_round_digits_mono order_trans unfolding trust_verdict_def by blast
qed

section \<open>Properties\<close>

text \<open>
  C8: the trust verdict depends only on the number \<open>k \<le> 6\<close> of predicates that hold,
  through the rounded score \<open>round(k / 6, 1)\<close>, which is 0, 0.2, 0.3, 0.5, 0.7, 0.8, 1
  for \<open>k = 0, \<dots>, 6\<close>: each predicate moves the score by one sixth, rounded.
\<close>

theorem trust_verdict_table:
  assumes "k \<le> 6"
  shows "trust_verdict cfg k \<longleftrightarrow> trust_threshold cfg \<le> [0, 2/10, 3/10, 5/10, 7/10, 8/10, 1] ! k"
proof -
  from assms have "k = 0 \<or> k = 1 \<or> k = 2 \<or> k = 3 \<or> k = 4 \<or> k = 5 \<or> k = 6" by arith
  then have "py_round_digits (real k / 6) 1 = [0, 2/10, 3/10, 5/10, 7/10, 8/10, 1] ! k"
    by (elim disjE) (simp_all add: py_round_digits_def py_round_def Let_def)
  then show ?thesis by (simp add: trust_verdict_def)
qed

theorem trust_verdict_table_witness:
  "(4::nat) \<le> 6 \<and> trust_verdict ex_config 4 \<and> \<not> trust_verdict ex_config 2"
  using trust_verdict_table [of 4 ex_config] trust_verdict_table [of 2 ex_config]
  by (simp add: ex_config_def)

text \<open>
  C9: for an author with no \<open>Developer\<close> row (a first-time committer) in a repository
  with commits, \<open>is_trusted\<close> never raises and counts two predicates as holding
  whatever the history: "not a recent account" (\<open>recent_account\<close> returns
  \<open>None\<close>) and "few rejected pull requests" (no pull requests), plus the GitHub
  contribution check and the commit share \<open>0 >= Few_Commits_Threshold\<close>.
\<close>

theorem is_trusted_first_time:
  assumes "devs_named s u = []" and "commits_table s \<noteq> []"
  shows "is_trusted cfg e s u d =
    Inr (trust_verdict cfg (of_bool (is_contributor e u) + 2 + of_bool (few_commits_threshold cfg \<le> 0)))"
proof -
  have "recent_account cfg e s u = Inr None" using assms by (simp add: recent_account_def)
  moreover have "commits_threshold cfg s u = Inr (few_commits_threshold cfg \<le> 0)"
    using assms by (simp add: commits_threshold_def commits_of_first)
  moreover have "first_commit s u = Inr True" using assms by (simp add: first_commit_def)
  moreover have "commits_per_day cfg s u d = Inr False" using assms by (simp add: commits_per_day_def)
  moreover have "rejected_pulls cfg s u = Inr True"
    using assms by (simp add: rejected_pulls_def pulls_of_first)
  ultimately show ?thesis by (simp add: is_trusted_def py_not_opt_def)
qed

theorem is_trusted_first_time_witness:
  "devs_named (empty_db\<lparr>commits_table := [ex_commit 1 7 10 2]\<rparr>) ''mallory'' = [] \<and>
   commits_table (empty_db\<lparr>commits_table := [ex_commit 1 7 10 2]\<rparr>) \<noteq> [] \<and>
   is_trusted ex_config ex_env (empty_db\<lparr>commits_table := [ex_commit 1 7 10 2]\<rparr>) ''mallory'' 0
     = Inr False"
proof -
  let ?s = "empty_db\<lparr>commits_table := [ex_commit 1 7 10 2]\<rparr>"
  have h1: "devs_named ?s ''mallory'' = []" by (simp add: devs_named_def empty_db_def)
  have h2: "commits_table ?s \<noteq> []" by simp
  show ?thesis
    using is_trusted_first_time [OF h1 h2, of ex_config ex_env 0] h1
    by (simp add: trust_verdict_def is_contributor_def ex_env_def ex_config_def
        py_round_digits_def py_round_def Let_def)
qed

text \<open>
  C10: in a repository without commits \<open>is_trusted\<close> raises
  \<open>ZeroDivisionError\<close> (in \<open>commits_threshold\<close>) instead of treating the
  share of commits as insufficient data.
\<close>

theorem is_trusted_no_commits:
  assumes "unique_usernames s" and "commits_table s = []"
  shows "is_trusted cfg e s u d = Inl ZeroDivisionError"
proof -
  have "length (devs_named s u) \<le> 1" using assms(1) by (rule devs_named_unique)
  then obtain r where "recent_account cfg e s u = Inr r"
    by (cases "devs_named s u" rule: one_or_none.cases) (auto simp: recent_account_def)
  moreover have "commits_threshold cfg s u = Inl ZeroDivisionError"
    using assms by (simp add: commits_threshold_def commits_of_def)
  ultimately show ?thesis by (simp add: is_trusted_def)
qed

theorem is_trusted_no_commits_witness:
  "unique_usernames empty_db \<and> commits_table empty_db = [] \<and>
   is_trusted ex_config ex_env empty_db ''alice'' 0 = Inl ZeroDivisionError"
proof -
  have h1: "unique_usernames empty_db" by (simp add: unique_usernames_def empty_db_def)
  have h2: "commits_table empty_db = []" by (simp add: empty_db_def)
  show ?thesis using is_trusted_no_commits [OF h1 h2] h1 h2 by simp
qed

text \<open>
  \<open>rejected_pulls\<close> holds when the author has no pull requests, and otherwise
  compares \<open>round(rejected / pulls)\<close> with \<open>Rejected_PR\<close>; that rounding is 1
  exactly when more than half of the pull requests were closed unmerged (a tie
  rounds to the even 0).
\<close>

theorem rejected_pulls_iff:
  "rejected_pulls cfg s u =
     Inr (let p = length (pulls_of s u);
              r = length (filter (\<lambda>p. state p = ''closed'' \<and> \<not> merged p) (pulls_of s u))
          in p = 0 \<or> (if p < 2 * r then 1 else 0) \<le> rejected_pr cfg)"
proof -
  let ?p = "length (pulls_of s u)"
    and ?r = "length (filter (\<lambda>p. state p = ''closed'' \<and> \<not> merged p) (pulls_of s u))"
  have le: "?r \<le> ?p" by (rule length_filter_le)
  show ?thesis
  proof (cases "?p = 0")
    case True
    then show ?thesis by (simp add: rejected_pulls_def Let_def)
  next
    case False
    then show ?thesis using py_round_ratio [OF le] by (simp add: rejected_pulls_def Let_def)
  qed
qed

end
