(* ===== verification/Rules.thy ===== *)
theory Rules
  imports Outlier Trust
begin

text \<open>
  The deterministic rule evaluator of \<open>src/app/rule_check.py\<close>:
  \<open>touched_sensitive_files\<close>, \<open>not_first_never_touched\<close>, \<open>not_first_owned_files\<close>,
  \<open>is_major_contributor_to_files\<close> and \<open>adds_and_does_not_touch\<close>, and
  \<open>rules_violated\<close>, which evaluates them in this order with \<open>outlier_check\<close> and
  \<open>is_trusted\<close>, adds one per predicate that holds (six of them) and returns
  \<open>(tmp / 7) * 100\<close> with the trust verdict. Python sets are duplicate-free lists;
  an exception of any predicate is the result of \<open>rules_violated\<close>.
\<close>

section \<open>Definitions\<close>

text \<open>\<open>i.split('.')[-1]\<close>: the text after the last dot, or the whole name.\<close>

definition split_ext :: "string \<Rightarrow> string" where
  "split_ext i = last (split_on (CHR ''.'') i)"

definition touched_sensitive_files :: "config \<Rightarrow> string list \<Rightarrow> bool" where
  "touched_sensitive_files cfg touched_files =
     (let extensions = map split_ext touched_files;
          total = length (filter (\<lambda>x. x \<in> set (sensitive_files cfg)) extensions)
      in sensitive_files_threshold cfg \<le> int total)"

text \<open>
  The file names of every commit of the author:
  \<open>for commit in commits_dev: for commit_file in commit.files: ...\<close>.
\<close>

definition user_touched_files :: "db \<Rightarrow> string \<Rightarrow> string list" where
  "user_touched_files s u =
     remdups [filename f. c \<leftarrow> commits_of s u, cf \<leftarrow> commits_files_table s,
                cf_commit_id cf = commit_id c, f \<leftarrow> file_table s, file_id f = cf_file_id cf]"

definition not_first_never_touched :: "config \<Rightarrow> db \<Rightarrow> string \<Rightarrow> string list \<Rightarrow> bool res" where
  "not_first_never_touched cfg s u touched_files =
     (let touched = remdups touched_files;
          prev_touched = filter (\<lambda>f. f \<in> set touched) (user_touched_files s u);
          diff = filter (\<lambda>f. f \<notin> set touched) prev_touched
      in bindr (first_commit s u) (\<lambda>first.
           if first then Inr False
           else bindr (py_div (real (length diff)) (real (length touched)))
                  (\<lambda>r. Inr (not_touched_files cfg \<le> py_round_digits r 2))))"

definition not_first_owned_files :: "config \<Rightarrow> db \<Rightarrow> string \<Rightarrow> string list \<Rightarrow> bool res" where
  "not_first_owned_files cfg s u touched_files =
     (let owned_count = length [f. f \<leftarrow> file_table s, dv \<leftarrow> devs_named s u,
                                 f_developer_id f = Some (dev_id dv), filename f \<in> set touched_files];
          number_files = length (file_table s)
      in bindr (first_commit s u) (\<lambda>first.
           if first then Inr False
           else bindr (py_div (real owned_count) (real number_files))
                  (\<lambda>r. Inr (owned_majority_files cfg \<le> py_round_digits r 2))))"

text \<open>
  \<open>is_major_contributor_to_files\<close> accumulates \<open>new_lines + removed_lines\<close> of the
  author's commits per file name in a dictionary (keys in first-insertion order), then
  keeps the names whose total reaches \<open>Contributions\<close>. The query's rows are
  (new lines, removed lines, file name) for every file of every commit of the author.
\<close>

definition major_rows :: "db \<Rightarrow> string \<Rightarrow> (nat \<times> nat \<times> string) list" where
  "major_rows s u =
     [(new_lines c, removed_lines c, filename f). c \<leftarrow> commits_of s u, cf \<leftarrow> commits_files_table s,
        cf_commit_id cf = commit_id c, f \<leftarrow> file_table s, file_id f = cf_file_id cf]"

text \<open>
  \<open>if filename in tmp: tmp[filename] += new_lines + removed_lines\<close>
  \<open>else: tmp[filename] = new_lines + removed_lines\<close>
\<close>

definition add_line :: "(string \<times> nat) list \<Rightarrow> string \<Rightarrow> nat \<Rightarrow> (string \<times> nat) list" where
  "add_line tmp fname n =
     (if fname \<in> set (map fst tmp)
      then map (\<lambda>(k, v). if k = fname then (k, v + n) else (k, v)) tmp
      else tmp @ [(fname, n)])"

fun acc_lines :: "(string \<times> nat) list \<Rightarrow> (nat \<times> nat \<times> string) list \<Rightarrow> (string \<times> nat) list" where
  "acc_lines tmp [] = tmp"
| "acc_lines tmp ((nl, rl, fname) # rows) = acc_lines (add_line tmp fname (nl + rl)) rows"

definition is_major_contributor_to_files :: "config \<Rightarrow> db \<Rightarrow> string \<Rightarrow> string list" where
  "is_major_contributor_to_files cfg s u =
     [fst p. p \<leftarrow> acc_lines [] (major_rows s u), rule_contributions cfg \<le> int (snd p)]"

definition adds_and_does_not_touch ::
  "config \<Rightarrow> db \<Rightarrow> string \<Rightarrow> string list \<Rightarrow> string list \<Rightarrow> bool" where
  "adds_and_does_not_touch cfg s u added touched_files =
     (let major_contributions = remdups (is_major_contributor_to_files cfg s u);
          diff = filter (\<lambda>f. f \<in> set touched_files) major_contributions
      in new_files_outlier cfg \<le> real (length added) \<and> length diff = 0)"

text \<open>The return value \<open>(tmp / 7) * 100\<close> for \<open>tmp\<close> predicates that hold.\<close>

definition violation_percent :: "nat \<Rightarrow> real" where
  "violation_percent tmp = real tmp / 7 * 100"

definition rules_violated ::
  "config \<Rightarrow> env \<Rightarrow> db \<Rightarrow> string \<Rightarrow> string list \<Rightarrow> string list \<Rightarrow> int \<Rightarrow> gh_commit
     \<Rightarrow> (real \<times> bool) res" where
  "rules_violated cfg e s u added touched_files d commit_data =
     (let p1 = touched_sensitive_files cfg (remdups (touched_files @ added)) in
      bindr (not_first_never_touched cfg s u touched_files) (\<lambda>p2.
      bindr (not_first_owned_files cfg s u touched_files) (\<lambda>p3.
      (let p4 = adds_and_does_not_touch cfg s u added touched_files in
      bindr (outlier_check s u commit_data) (\<lambda>p5.
      bindr (is_trusted cfg e s u d) (\<lambda>trusted.
        Inr (violation_percent (of_bool p1 + of_bool p2 + of_bool p3 + of_bool p4 + of_bool p5
                                + of_bool (\<not> trusted)), trusted)))))))"

text \<open>The reference of \<open>is_major_contributor_to_files\<close>: lines per file name.\<close>

definition line_total :: "(nat \<times> nat \<times> string) list \<Rightarrow> string \<Rightarrow> nat" where
  "line_total rows k = sum_list [nl + rl. (nl, rl, f) \<leftarrow> rows, f = k]"

definition dict_get :: "(string \<times> nat) list \<Rightarrow> string \<Rightarrow> nat" where
  "dict_get tmp k = (case map_of tmp k of None \<Rightarrow> 0 | Some v \<Rightarrow> v)"

text \<open>A repository with one commit and one \<open>RepoStats\<close> row, and a developer in it.\<close>

text \<open>
  The unused helpers \<open>files_already_touched\<close> (names of the files of the author's
  commits, one per (file, commit) row) and \<open>owned_files\<close> (names of the files the
  author owns).
\<close>

definition files_already_touched :: "db \<Rightarrow> string \<Rightarrow> string list" where
  "files_already_touched s u =
     [filename f. f \<leftarrow> file_table s, cf \<leftarrow> commits_files_table s, cf_file_id cf = file_id f,
                  c \<leftarrow> commits_of s u, commit_id c = cf_commit_id cf]"

definition owned_files :: "db \<Rightarrow> string \<Rightarrow> string list" where
  "owned_files s u =
     [filename f. f \<leftarrow> file_table s, dv \<leftarrow> devs_named s u, f_developer_id f = Some (dev_id dv)]"

definition ex_repo :: db where
  "ex_repo = empty_db\<lparr>commits_table := [ex_commit 1 7 10 2], repo_stats_table := [ex_repo_stats]\<rparr>"

definition ex_repo_alice :: db where
  "ex_repo_alice = ex_repo\<lparr>developer_table := [ex_dev 7 ''alice'']\<rparr>"

section \<open>Lemmas\<close>

lemma map_fst_bump:
  "map fst (map (\<lambda>(k, v). if k = f then (k, v + n) else (k, v)) tmp) = map fst tmp"
  by (induction tmp) auto

lemma keys_add_line [simp]: "fst ` set (add_line tmp f n) = insert f (fst ` set tmp)"
proof (cases "f \<in> fst ` set tmp")
  case True
  have "fst ` set (map (\<lambda>(k, v). if k = f then (k, v + n) else (k, v)) tmp) = fst ` set tmp"
    using arg_cong [OF map_fst_bump [of f n tmp], of set] by (simp only: set_map)
  with True show ?thesis by (simp add: add_line_def insert_absorb)
next
  case False
  then show ?thesis by (simp add: add_line_def)
qed

lemma distinct_add_line [simp]: "distinct (map fst tmp) \<Longrightarrow> distinct (map fst (add_line tmp f n))"
proof (cases "f \<in> fst ` set tmp")
  case True
  assume "distinct (map fst tmp)"
  with True show ?thesis by (simp add: add_line_def map_fst_bump del: map_map)
next
  case False
  assume "distinct (map fst tmp)"
  with False show ?thesis by (simp add: add_line_def)
qed

lemma map_of_bump:
  "map_of (map (\<lambda>(k, v). if k = f then (k, v + n) else (k, v)) tmp) k =
     (if k = f then map_option (\<lambda>v. v + n) (map_of tmp f) else map_of tmp k)"
  by (induction tmp) auto

lemma dict_get_add_line [simp]:
  "dict_get (add_line tmp f n) k = dict_get tmp k + (if k = f then n else 0)"
proof (cases "f \<in> fst ` set tmp")
  case True
  then obtain v where v: "map_of tmp f = Some v"
    by (metis map_of_eq_None_iff not_None_eq)
  with True show ?thesis by (simp add: add_line_def dict_get_def map_of_bump)
next
  case False
  then have "map_of tmp f = None" by (simp add: map_of_eq_None_iff)
  with False show ?thesis
    by (auto simp: add_line_def dict_get_def map_of_append split: option.split)
qed

lemma acc_lines_keys:
  "fst ` set (acc_lines tmp rows) = fst ` set tmp \<union> (snd \<circ> snd) ` set rows"
  by (induction tmp rows rule: acc_lines.induct) auto

lemma acc_lines_distinct:
  "distinct (map fst tmp) \<Longrightarrow> distinct (map fst (acc_lines tmp rows))"
  by (induction tmp rows rule: acc_lines.induct) auto

lemma acc_lines_get:
  "dict_get (acc_lines tmp rows) k = dict_get tmp k + line_total rows k"
  by (induction tmp rows rule: acc_lines.induct) (auto simp: line_total_def)

lemma diff_empty: "filter (\<lambda>f. f \<notin> set t) (filter (\<lambda>f. f \<in> set t) xs) = []"
  by (induction xs) auto

lemma violation_percent_bounds: "k \<le> 6 \<Longrightarrow> 0 \<le> violation_percent k \<and> violation_percent k \<le> 600 / 7"
  by (simp add: violation_percent_def)

lemma touched_sensitive_files_scenario:
  "touched_sensitive_files ex_config (remdups [''a.py'', ''b.sh'', ''c.txt'']) \<and>
   \<not> touched_sensitive_files (ex_config\<lparr>sensitive_files_threshold := 3\<rparr>) (remdups [''a.py'', ''b.sh'', ''c.txt''])"
  by (simp add: touched_sensitive_files_def split_ext_def ex_config_def)

lemma files_already_touched_set: "set (files_already_touched s u) = set (user_touched_files s u)"
  unfolding files_already_touched_def user_touched_files_def
  by (rule set_eqI) (simp add: set_concat, force)

lemma owned_files_count:
  "length (filter (\<lambda>n. n \<in> set touched) (owned_files s u)) =
   length [f. f \<leftarrow> file_table s, dv \<leftarrow> devs_named s u,
              f_developer_id f = Some (dev_id dv), filename f \<in> set touched]"
  apply (simp add: owned_files_def filter_concat comp_def length_concat)
  apply (rule arg_cong [where f = sum_list], rule map_cong, rule refl)+
  apply simp
  done

lemma rules_violated_score_form:
  assumes "rules_violated cfg e s u added touched d cd = Inr (score, trusted)"
  shows "\<exists>k \<le> 6. score = violation_percent k"
proof -
  from assms obtain p2 p3 p5 where
    "score = violation_percent (of_bool (touched_sensitive_files cfg (remdups (touched @ added)))
       + of_bool p2 + of_bool p3 + of_bool (adds_and_does_not_touch cfg s u added touched)
       + of_bool p5 + of_bool (\<not> trusted))"
    by (auto simp: rules_violated_def Let_def bindr_eq_Inr_iff)
  moreover have "of_bool (touched_sensitive_files cfg (remdups (touched @ added))) + of_bool p2 + of_bool p3
       + of_bool (adds_and_does_not_touch cfg s u added touched) + of_bool p5 + of_bool (\<not> trusted) \<le> (6::nat)"
    by (simp add: of_bool_def)
  ultimately show ?thesis by blast
qed

lemma rules_violated_score_trust:
  assumes "rules_violated cfg e s u added touched d cd = Inr (score, trusted)"
  shows "\<exists>k \<le> 5. score = violation_percent (k + of_bool (\<not> trusted))"
proof -
  from assms obtain p2 p3 p5 where
    "score = violation_percent (of_bool (touched_sensitive_files cfg (remdups (touched @ added)))
       + of_bool p2 + of_bool p3 + of_bool (adds_and_does_not_touch cfg s u added touched)
       + of_bool p5 + of_bool (\<not> trusted))"
    by (auto simp: rules_violated_def Let_def bindr_eq_Inr_iff)
  moreover have "of_bool (touched_sensitive_files cfg (remdups (touched @ added))) + of_bool p2 + of_bool p3
       + of_bool (adds_and_does_not_touch cfg s u added touched) + of_bool p5 \<le> (5::nat)"
    by (simp add: of_bool_def)
  ultimately show ?thesis by blast
qed

lemma rules_violated_ex_repo:
  "rules_violated ex_config ex_env ex_repo ''mallory'' [''a.py''] [''b.py''] 0 ex_gh_commit
     = Inr (violation_percent 3, False)"
  by (simp add: rules_violated_def touched_sensitive_files_def split_ext_def not_first_never_touched_def
      not_first_owned_files_def adds_and_does_not_touch_def is_major_contributor_to_files_def major_rows_def
      outlier_check_def outlier_stats_check_def count_files_by_status_def is_trusted_def
      recent_account_def commits_threshold_def commits_per_day_def rejected_pulls_def pulls_of_def
      first_commit_def devs_named_def commits_of_def trust_verdict_def is_contributor_def
      py_not_opt_def py_round_digits_def py_round_def outside_def
      ex_repo_def empty_db_def ex_config_def ex_env_def ex_gh_commit_def ex_repo_stats_def ex_commit_def
      violation_percent_def Let_def)

section \<open>Properties\<close>

text \<open>
  C1: whenever \<open>rules_violated\<close> returns, its score is \<open>k / 7 * 100\<close> for the number
  \<open>k \<le> 6\<close> of predicates that held: only six predicates are summed against a
  denominator of seven, so the score is below 100 (at most \<open>600 / 7\<close>). The
  verdict \<open>trusted\<close> returned beside it is the one the score counts: a trusted
  author scores at most \<open>500 / 7\<close>, an untrusted one at least \<open>100 / 7\<close>.
\<close>

theorem rules_violated_score:
  assumes "rules_violated cfg e s u added touched d cd = Inr (score, trusted)"
  shows "(\<exists>k \<le> 6. score = real k / 7 * 100) \<and> score < 100 \<and>
         (if trusted then score \<le> 500 / 7 else 100 / 7 \<le> score)"
proof -
  obtain k where k: "k \<le> 5" "score = violation_percent (k + of_bool (\<not> trusted))"
    using rules_violated_score_trust [OF assms] by blast
  then have "k + of_bool (\<not> trusted) \<le> 6" "score = real (k + of_bool (\<not> trusted)) / 7 * 100"
    by (auto simp: violation_percent_def)
  then have "\<exists>k \<le> 6. score = real k / 7 * 100" by blast
  moreover from k have "score < 100 \<and> (if trusted then score \<le> 500 / 7 else 100 / 7 \<le> score)"
    by (cases trusted) (auto simp: violation_percent_def)
  ultimately show ?thesis by blast
qed

theorem rules_violated_score_witness:
  "rules_violated ex_config ex_env ex_repo ''mallory'' [''a.py''] [''b.py''] 0 ex_gh_commit
     = Inr (300 / 7, False) \<and> (300 / 7 :: real) < 100 \<and> (100 / 7 :: real) \<le> 300 / 7"
  using rules_violated_ex_repo rules_violated_score [OF rules_violated_ex_repo]
  by (simp add: violation_percent_def)

text \<open>
  C5: for a first-time committer (no \<open>Developer\<close> row) the stale-familiarity and
  majority-ownership predicates are false, whatever the files touched.
\<close>

theorem first_time_rules:
  assumes "devs_named s u = []"
  shows "not_first_never_touched cfg s u touched = Inr False \<and> not_first_owned_files cfg s u touched = Inr False"
  using assms by (simp add: not_first_never_touched_def not_first_owned_files_def first_commit_def Let_def)

theorem first_time_rules_witness:
  "devs_named ex_repo ''mallory'' = [] \<and>
   not_first_never_touched ex_config ex_repo ''mallory'' [''a.py''] = Inr False \<and>
   not_first_owned_files ex_config ex_repo ''mallory'' [''a.py''] = Inr False"
proof -
  have h: "devs_named ex_repo ''mallory'' = []" by (simp add: devs_named_def ex_repo_def empty_db_def)
  show ?thesis using first_time_rules [OF h] h by simp
qed

text \<open>
  C6: the stale-familiarity predicate compares the ratio of
  \<open>(previously touched \<inter> touched) - touched\<close>, which is always empty, to the files
  touched: for an existing author and a non-empty set of touched files it holds
  exactly when the configured threshold is at most 0, whatever the history.
\<close>

theorem never_touched_constant:
  assumes "first_commit s u = Inr False" and "touched \<noteq> []"
  shows "not_first_never_touched cfg s u touched = Inr (not_touched_files cfg \<le> 0)"
  using assms by (simp add: not_first_never_touched_def Let_def diff_empty)

theorem never_touched_constant_witness:
  "first_commit ex_repo_alice ''alice'' = Inr False \<and> [''b.py''] \<noteq> [] \<and>
   not_first_never_touched ex_config ex_repo_alice ''alice'' [''b.py''] = Inr False"
proof -
  have h: "first_commit ex_repo_alice ''alice'' = Inr False"
    by (simp add: first_commit_def devs_named_def ex_repo_alice_def ex_repo_def empty_db_def ex_dev_def)
  show ?thesis using never_touched_constant [OF h, of "[''b.py'']" ex_config] h
    by (simp add: ex_config_def)
qed

text \<open>
  An existing author whose push modifies and removes no file (it only adds
  files) makes \<open>not_first_never_touched\<close> divide by \<open>len(touched) = 0\<close>:
  \<open>rules_violated\<close> raises \<open>ZeroDivisionError\<close> instead of scoring the commit.
\<close>

theorem rules_violated_no_touched:
  assumes "first_commit s u = Inr False"
  shows "not_first_never_touched cfg s u [] = Inl ZeroDivisionError \<and>
         rules_violated cfg e s u added [] d cd = Inl ZeroDivisionError"
  using assms by (simp add: not_first_never_touched_def rules_violated_def Let_def diff_empty)

theorem rules_violated_no_touched_witness:
  "first_commit ex_repo_alice ''alice'' = Inr False \<and>
   rules_violated ex_config ex_env ex_repo_alice ''alice'' [''new.py''] [] 0 ex_gh_commit
     = Inl ZeroDivisionError"
proof -
  have h: "first_commit ex_repo_alice ''alice'' = Inr False"
    by (simp add: first_commit_def devs_named_def ex_repo_alice_def ex_repo_def empty_db_def ex_dev_def)
  show ?thesis using rules_violated_no_touched [OF h] h by simp
qed

text \<open>
  The sensitive-file predicate counts the distinct touched or added file names
  whose extension (\<open>split('.')[-1]\<close>) is in \<open>Sensitive_Files\<close> and compares
  the count with \<open>Sensitive_Files_Threshold\<close>.
\<close>

theorem touched_sensitive_files_card:
  "touched_sensitive_files cfg (remdups files) \<longleftrightarrow>
     sensitive_files_threshold cfg \<le> int (card {f \<in> set files. split_ext f \<in> set (sensitive_files cfg)})"
proof -
  have "length (filter (\<lambda>x. x \<in> set (sensitive_files cfg)) (map split_ext (remdups files))) =
        length (filter (\<lambda>f. split_ext f \<in> set (sensitive_files cfg)) (remdups files))"
    by (simp add: filter_map comp_def)
  then show ?thesis by (simp add: touched_sensitive_files_def length_filter_remdups)
qed

text \<open>
  A file is reported by \<open>is_major_contributor_to_files\<close> exactly when it is a
  file of one of the author's commits and the added plus removed lines of those
  commits, summed per file name, reach \<open>Contributions\<close>.
\<close>

theorem is_major_contributor_iff:
  "f \<in> set (is_major_contributor_to_files cfg s u) \<longleftrightarrow>
     f \<in> set (map (snd \<circ> snd) (major_rows s u)) \<and>
     rule_contributions cfg \<le> int (line_total (major_rows s u) f)"
proof -
  let ?acc = "acc_lines [] (major_rows s u)"
  have d: "distinct (map fst ?acc)" by (rule acc_lines_distinct) simp
  have get: "dict_get ?acc f = line_total (major_rows s u) f"
    using acc_lines_get [of "[]"] by (simp add: dict_get_def)
  have "f \<in> set (is_major_contributor_to_files cfg s u) \<longleftrightarrow>
          (\<exists>v. (f, v) \<in> set ?acc \<and> rule_contributions cfg \<le> int v)"
    by (force simp: is_major_contributor_to_files_def)
  also have "\<dots> \<longleftrightarrow> f \<in> set (map fst ?acc) \<and> rule_contributions cfg \<le> int (dict_get ?acc f)"
    using d by (auto simp: dict_get_def dest: map_of_is_SomeI) (force simp: map_of_eq_None_iff dest: map_of_SomeD)
  finally show ?thesis using get acc_lines_keys [of "[]"] by simp
qed
end
