(* ===== verification/Webhook.thy ===== *)
theory Webhook
  imports Rules
begin

text \<open>
  The push endpoint of \<open>src/app/webhook_handler.py\<close> (\<open>push_payload\<close>): for every
  commit of the payload it fetches the commit JSON and adds the commit's removed and
  modified files to one set \<open>touched_files\<close>; after the loop it calls
  \<open>rules_violated\<close> once, with the variables the loop left behind, that is with the
  last commit's author, added files, date and JSON. A payload without a
  \<open>commits\<close> key is answered without evaluation (\<open>None\<close>); an empty list of commits
  leaves \<open>commit\<close> unbound and raises \<open>NameError\<close>. The handler then has
  \<open>write_file\<close> append the report of that last commit to
  \<open>reports/report_<user>_<id>\<close>; the directory is a map from file names to
  printed text (\<open>reports\<close>). \<open>pull_payload\<close> only answers \<open>201\<close>, and
  \<open>get_commit\<close> reads a row of the \<open>forged_commits\<close> table.
\<close>

section \<open>Definitions\<close>

text \<open>
  One commit of the push payload: \<open>url\<close>, \<open>author.username\<close>, the three file
  lists, \<open>pc_day\<close> the date \<open>commit['timestamp'][:10]\<close> denotes, and the fields
  the report quotes (\<open>id\<close>, \<open>timestamp\<close>, \<open>author.name\<close>,
  \<open>committer.name\<close>, \<open>message\<close>).
\<close>

record push_commit =
  pc_url :: string
  pc_username :: string
  pc_added :: "string list"
  pc_removed :: "string list"
  pc_modified :: "string list"
  pc_day :: int
  pc_id :: string
  pc_timestamp :: string
  pc_author_name :: string
  pc_committer_name :: string
  pc_message :: string

fun push_touched :: "push_commit list \<Rightarrow> string list \<Rightarrow> string list" where
  "push_touched [] touched_files = touched_files"
| "push_touched (c # cs) touched_files =
     push_touched cs (remdups (touched_files @ pc_removed c @ pc_modified c))"

definition push_payload ::
  "config \<Rightarrow> env \<Rightarrow> db \<Rightarrow> push_commit list option \<Rightarrow> (real \<times> bool) option res" where
  "push_payload cfg e s payload =
     (case payload of
        None \<Rightarrow> Inr None
      | Some commits \<Rightarrow>
          (if commits = [] then Inl NameError
           else (let touched_files = push_touched commits [];
                     commit = last commits;
                     commit_data = commit_info e (pc_url commit)
                 in bindr (rules_violated cfg e s (pc_username commit) (pc_added commit) touched_files
                             (pc_day commit) commit_data)
                      (\<lambda>r. Inr (Some r)))))"

text \<open>
  The directory \<open>reports/\<close>: a file's text by name, empty for a file not yet
  written (\<open>open(filename, 'a')\<close> creates it).
\<close>

type_synonym reports = "string \<Rightarrow> out_text"

definition report_name :: "push_commit \<Rightarrow> string" where
  "report_name commit = ''reports/report_'' @ pc_username commit @ ''_'' @ pc_id commit"

text \<open>The ten \<open>f.write\<close> calls of \<open>write_file\<close>, in order.\<close>

definition report_text :: "push_commit \<Rightarrow> real \<times> bool \<Rightarrow> out_text" where
  "report_text commit violations =
     [Txt (''Commit: '' @ pc_id commit @ ''\<newline>\<newline>''),
      Txt (''URL: '' @ pc_url commit @ ''\<newline>\<newline>''),
      Txt (''Authored on '' @ pc_timestamp commit @ '' by '' @ pc_author_name commit @ ''\<newline>''),
      Txt (''Committed on '' @ pc_timestamp commit @ '' by '' @ pc_committer_name commit @ ''\<newline>''),
      Txt (''Commit Message: '' @ pc_message commit @ ''\<newline>\<newline>''),
      Txt ''This commit added '', IntV (int (length (pc_added commit))), Txt '' files.\<newline>'',
      Txt ''This commit modified '', IntV (int (length (pc_modified commit))), Txt '' files.\<newline>'',
      Txt ''This commit removed '', IntV (int (length (pc_removed commit))), Txt '' files.\<newline>\<newline>'',
      Txt (pc_username commit @ '' is '' @
           (if snd violations then ''TRUSTED\<newline>\<newline>'' else ''NOT TRUSTED\<newline>\<newline>'')),
      Txt ''This commit violated '', FltV (fst violations), Txt ''% of the rules.\<newline>'']"

text \<open>\<open>write_file(commit, violations)\<close>: the report is appended (mode \<open>'a'\<close>).\<close>

definition write_file :: "reports \<Rightarrow> push_commit \<Rightarrow> real \<times> bool \<Rightarrow> reports" where
  "write_file fs commit violations =
     (let filename = report_name commit in fs(filename := fs filename @ report_text commit violations))"

text \<open>
  The whole handler: the evaluation \<open>push_payload\<close>, then \<open>write_file\<close> with the
  loop's last \<open>commit\<close>, and the response status \<open>201\<close> in both branches.
\<close>

definition push_handler ::
  "config \<Rightarrow> env \<Rightarrow> db \<Rightarrow> reports \<Rightarrow> push_commit list option \<Rightarrow> (reports \<times> nat) res" where
  "push_handler cfg e s fs payload =
     bindr (push_payload cfg e s payload) (\<lambda>r.
       case (payload, r) of
         (Some commits, Some violations) \<Rightarrow> Inr (write_file fs (last commits) violations, 201)
       | _ \<Rightarrow> Inr (fs, 201))"

text \<open>\<open>pull_payload\<close> only prints the payload and answers \<open>201\<close>.\<close>

definition pull_payload :: "'a \<Rightarrow> nat" where
  "pull_payload payload = 201"

text \<open>
  \<open>get_commit(commit_id)\<close>: the rows \<open>(id, commit_data)\<close> of the table
  \<open>forged_commits\<close>, in table order; \<open>fetchall()[0][0]\<close> of no row raises
  \<open>IndexError\<close>. The column holds the commit's JSON, which \<open>json.loads\<close> returns.
\<close>

definition get_commit :: "(string \<times> gh_commit) list \<Rightarrow> string \<Rightarrow> gh_commit res" where
  "get_commit forged cid =
     (case filter (\<lambda>r. fst r = cid) forged of [] \<Rightarrow> Inl IndexError | r # _ \<Rightarrow> Inr (snd r))"

definition ex_push_commit :: "string \<Rightarrow> string list \<Rightarrow> string list \<Rightarrow> push_commit" where
  "ex_push_commit u added modified =
     \<lparr>pc_url = ''https://api.github.com/commit'', pc_username = u, pc_added = added,
      pc_removed = [], pc_modified = modified, pc_day = 0, pc_id = ''c'' @ u,
      pc_timestamp = ''1970-01-01T00:00:00Z'', pc_author_name = u, pc_committer_name = u,
      pc_message = ''update''\<rparr>"

section \<open>Lemmas\<close>

lemma push_touched_eq:
  "distinct t \<Longrightarrow>
   push_touched cs t = remdups (t @ concat (map (\<lambda>c. pc_removed c @ pc_modified c) cs))"
proof (induction cs arbitrary: t)
  case Nil
  then show ?case by (simp add: distinct_remdups_id)
next
  case (Cons c cs)
  have "remdups (remdups (t @ pc_removed c @ pc_modified c) @ concat (map (\<lambda>c. pc_removed c @ pc_modified c) cs))
        = remdups (t @ concat (map (\<lambda>c. pc_removed c @ pc_modified c) (c # cs)))"
    by simp
  with Cons show ?case by simp
qed

lemma report_text_score:
  "drop 15 (report_text c v) = [Txt ''This commit violated '', FltV (fst v), Txt ''% of the rules.\<newline>'']"
  by (simp add: report_text_def)

section \<open>Properties\<close>

text \<open>
  C2: a push is scored once, as its last commit: author, added files, date and JSON
  are the last commit's, the touched files are the removed and modified files of all
  the commits; the added files of earlier commits are never looked at. An empty list
  of commits raises \<open>NameError\<close>.
\<close>

theorem push_payload_last_commit:
  "push_payload cfg e s (Some []) = Inl NameError \<and>
   (cs \<noteq> [] \<longrightarrow>
    push_payload cfg e s (Some cs) =
      bindr (rules_violated cfg e s (pc_username (last cs)) (pc_added (last cs))
               (remdups (concat (map (\<lambda>c. pc_removed c @ pc_modified c) cs)))
               (pc_day (last cs)) (commit_info e (pc_url (last cs))))
        (\<lambda>r. Inr (Some r)))"
  using push_touched_eq [of "[]" cs] by (simp add: push_payload_def Let_def)

theorem push_payload_last_commit_witness:
  "[ex_push_commit ''alice'' [''new.sh''] [], ex_push_commit ''mallory'' [''a.py''] [''b.py'']] \<noteq> [] \<and>
   push_payload ex_config ex_env ex_repo
     (Some [ex_push_commit ''alice'' [''new.sh''] [], ex_push_commit ''mallory'' [''a.py''] [''b.py'']])
   = bindr (rules_violated ex_config ex_env ex_repo ''mallory'' [''a.py''] [''b.py''] 0 ex_gh_commit)
       (\<lambda>r. Inr (Some r))"
proof -
  let ?cs = "[ex_push_commit ''alice'' [''new.sh''] [], ex_push_commit ''mallory'' [''a.py''] [''b.py'']]"
  have "?cs \<noteq> []" by simp
  then show ?thesis
    using push_payload_last_commit [of ex_config ex_env ex_repo ?cs]
    by (simp add: ex_push_commit_def ex_env_def)
qed


text \<open>
  C7: a push whose evaluation returns writes exactly one report, to the file
  \<open>reports/report_<author>_<id>\<close> of the push's last commit, appended to what that
  file held (a commit pushed twice is reported twice); no other file changes; and
  its last line reports a score \<open>k / 7 * 100\<close> with \<open>k \<le> 6\<close>, never 100%.
\<close>

theorem push_handler_report:
  assumes "push_payload cfg e s (Some cs) = Inr (Some v)"
  shows "\<exists>fs'. push_handler cfg e s fs (Some cs) = Inr (fs', 201) \<and>
     fs' (report_name (last cs)) = fs (report_name (last cs)) @ report_text (last cs) v \<and>
     (\<forall>f. f \<noteq> report_name (last cs) \<longrightarrow> fs' f = fs f) \<and>
     (\<exists>k \<le> 6. drop 15 (report_text (last cs) v) =
        [Txt ''This commit violated '', FltV (violation_percent k), Txt ''% of the rules.\<newline>''])"
proof -
  have "cs \<noteq> []" using assms by (auto simp: push_payload_def)
  obtain sc tr where v: "v = (sc, tr)" by (cases v)
  have "rules_violated cfg e s (pc_username (last cs)) (pc_added (last cs)) (push_touched cs [])
      (pc_day (last cs)) (commit_info e (pc_url (last cs))) = Inr (sc, tr)"
    using assms \<open>cs \<noteq> []\<close> v by (auto simp: push_payload_def Let_def bindr_eq_Inr_iff)
  then obtain k where "k \<le> 6" and "sc = violation_percent k"
    using rules_violated_score_form by blast
  then show ?thesis using assms v report_text_score [of "last cs" v]
    by (auto simp: push_handler_def write_file_def Let_def)
qed

theorem push_handler_report_witness:
  "push_payload ex_config ex_env ex_repo (Some [ex_push_commit ''mallory'' [''a.py''] [''b.py'']]) =
     Inr (Some (violation_percent 3, False)) \<and>
   (\<exists>fs'. push_handler ex_config ex_env ex_repo (\<lambda>f. []) (Some [ex_push_commit ''mallory'' [''a.py''] [''b.py'']])
      = Inr (fs', 201) \<and>
    fs' ''reports/report_mallory_cmallory'' = report_text (ex_push_commit ''mallory'' [''a.py''] [''b.py''])
      (violation_percent 3, False))"
proof -
  have h: "push_payload ex_config ex_env ex_repo (Some [ex_push_commit ''mallory'' [''a.py''] [''b.py'']]) =
     Inr (Some (violation_percent 3, False))"
    using rules_violated_ex_repo by (simp add: push_payload_def ex_push_commit_def ex_env_def)
  obtain fs' where "push_handler ex_config ex_env ex_repo (\<lambda>f. []) (Some [ex_push_commit ''mallory'' [''a.py''] [''b.py'']])
      = Inr (fs', 201)"
    and "fs' (report_name (last [ex_push_commit ''mallory'' [''a.py''] [''b.py'']])) =
      [] @ report_text (last [ex_push_commit ''mallory'' [''a.py''] [''b.py'']]) (violation_percent 3, False)"
    using push_handler_report [OF h, of "\<lambda>f. []"] by blast
  moreover have "report_name (ex_push_commit ''mallory'' [''a.py''] [''b.py'']) = ''reports/report_mallory_cmallory''"
    by (simp add: report_name_def ex_push_commit_def)
  ultimately show ?thesis using h by auto
qed

end
