(* ===== verification/Stats.thy ===== *)
theory Stats
  imports Prelude
begin

text \<open>
  Statistics primitives (\<open>src/app/utils.py\<close>, \<open>get_mean_and_variance\<close>, duplicated
  verbatim in \<open>src/app/anomaly_detection.py\<close>) and the loop over consecutive
  commit timestamps that \<open>daily_commit_stats\<close> and \<open>parse_commits\<close> share.
  The sample variance is Python's \<open>statistics.variance\<close> (denominator \<open>n - 1\<close>),
  which computes exactly on the fractions of its inputs.
\<close>

section \<open>Definitions\<close>

definition sample_variance :: "real list \<Rightarrow> real" where
  "sample_variance xs =
     (let m = sum_list xs / real (length xs)
      in sum_list (map (\<lambda>x. (x - m)\<^sup>2) xs) / real (length xs - 1))"

definition get_mean_and_variance :: "real list \<Rightarrow> real \<times> real" where
  "get_mean_and_variance values =
     (if 0 < length values
      then (sum_list values / real (length values),
            if 1 < length values then sample_variance values else 0)
      else (0, 0))"

text \<open>
  The interval loop, as written:
  \<^verbatim>\<open>
  if len(commits_time) > 1:
      for i in range(0, len(commits_time)):
          if len(commits_time) == i + 1: break
          delta = commits_time[i] - commits_time[i + 1]
          time_intervals.append(delta.total_seconds())
  \<close>
  Timestamps are seconds; the index runs up, so termination is by the measure
  \<open>length ts - i\<close>.
\<close>

function intervals_from :: "int list \<Rightarrow> nat \<Rightarrow> int list" where
  "intervals_from ts i =
     (if i < length ts then
        (if length ts = i + 1 then []
         else (ts ! i - ts ! (i + 1)) # intervals_from ts (i + 1))
      else [])"
  by pat_completeness auto
termination
  by (relation "measure (\<lambda>(ts, i). length ts - i)") auto

declare intervals_from.simps [simp del]

definition time_intervals :: "int list \<Rightarrow> int list" where
  "time_intervals commits_time =
     (if 1 < length commits_time then intervals_from commits_time 0 else [])"

text \<open>The reference: differences of adjacent timestamps.\<close>

fun adjacent_diffs :: "int list \<Rightarrow> int list" where
  "adjacent_diffs (a # b # rest) = (a - b) # adjacent_diffs (b # rest)"
| "adjacent_diffs _ = []"

section \<open>Shared lemmas on sums\<close>

lemma sum_list_map_mset:
  fixes f :: "'a \<Rightarrow> real"
  assumes "mset xs = mset ys"
  shows "sum_list (map f xs) = sum_list (map f ys)"
proof -
  have "sum_list (map f xs) = sum_mset (mset (map f xs))"
    by (simp only: sum_mset_sum_list)
  also have "\<dots> = sum_mset (mset (map f ys))"
    using assms by simp
  also have "\<dots> = sum_list (map f ys)"
    by (simp only: sum_mset_sum_list)
  finally show ?thesis .
qed

lemma sum_list_shift:
  "sum_list (map (\<lambda>x. x + c) xs) = sum_list xs + real (length xs) * (c::real)"
  by (induction xs) (simp_all add: algebra_simps)

lemma sum_list_scale:
  "sum_list (map (\<lambda>x. c * x) xs) = (c::real) * sum_list xs"
  by (induction xs) (simp_all add: algebra_simps)

lemma sum_list_sq_dev:
  "sum_list (map (\<lambda>x. (x - m)\<^sup>2) xs) =
     sum_list (map (\<lambda>x. x\<^sup>2) xs) - 2 * m * sum_list xs + real (length xs) * (m::real)\<^sup>2"
  by (induction xs) (simp_all add: power2_diff algebra_simps)

lemma sum_list_sq_nonneg: "0 \<le> sum_list (map (\<lambda>x. (x - m)\<^sup>2) (xs::real list))"
  by (induction xs) simp_all

lemma sample_variance_nonneg: "0 \<le> sample_variance xs"
  by (simp add: sample_variance_def Let_def sum_list_sq_nonneg)

lemma sample_variance_mset:
  "mset xs = mset ys \<Longrightarrow> sample_variance xs = sample_variance ys"
proof -
  assume m: "mset xs = mset ys"
  then have len: "length xs = length ys" by (metis size_mset)
  have sums: "sum_list xs = sum_list ys"
    using sum_list_map_mset [OF m, of id] by simp
  show ?thesis
    unfolding sample_variance_def Let_def len sums
    by (simp only: sum_list_map_mset [OF m])
qed

lemma length_intervals_from:
  "i < length ts \<Longrightarrow> length (intervals_from ts i) = length ts - Suc i"
proof (induction ts i rule: intervals_from.induct)
  case (1 ts i)
  then show ?case
    by (subst intervals_from.simps) (auto simp: Suc_diff_Suc)
qed

lemma intervals_from_drop:
  "i < length ts \<Longrightarrow> intervals_from ts i = adjacent_diffs (drop i ts)"
proof (induction ts i rule: intervals_from.induct)
  case (1 ts i)
  show ?case
  proof (cases "length ts = i + 1")
    case True
    then have "drop i ts = [ts ! i]"
      by (metis Cons_nth_drop_Suc Suc_eq_plus1 "1.prems" drop_all le_refl)
    with True show ?thesis by (simp add: intervals_from.simps)
  next
    case False
    with "1.prems" have lt: "i + 1 < length ts" by simp
    then have "drop i ts = ts ! i # ts ! (i + 1) # drop (i + 2) ts"
      by (metis Cons_nth_drop_Suc Suc_eq_plus1 add_2_eq_Suc' Suc_lessD)
    moreover have "drop (i + 1) ts = ts ! (i + 1) # drop (i + 2) ts"
      using lt by (metis Cons_nth_drop_Suc Suc_eq_plus1 add_2_eq_Suc')
    ultimately show ?thesis
      using "1.IH" [OF "1.prems" False lt] "1.prems" False
      by (simp add: intervals_from.simps)
  qed
qed

lemma sum_adjacent_diffs:
  "ts \<noteq> [] \<Longrightarrow> sum_list (adjacent_diffs ts) = hd ts - last ts"
  by (induction ts rule: adjacent_diffs.induct) auto

lemma adjacent_diffs_length: "length (adjacent_diffs ts) = length ts - 1"
  by (induction ts rule: adjacent_diffs.induct) auto

lemma sum_list_ge_Min:
  "xs \<noteq> [] \<Longrightarrow> real (length xs) * Min (set xs) \<le> sum_list (xs::real list)"
proof (induction xs)
  case Nil
  then show ?case by simp
next
  case (Cons x xs)
  show ?case
  proof (cases "xs = []")
    case True
    then show ?thesis by simp
  next
    case False
    have "real (length xs) * Min (set (x # xs)) \<le> real (length xs) * Min (set xs)"
      using False by (simp add: mult_left_mono)
    with Cons.IH [OF False] have "real (length xs) * Min (set (x # xs)) \<le> sum_list xs"
      by linarith
    moreover have "Min (set (x # xs)) \<le> x" by simp
    ultimately have "Min (set (x # xs)) + real (length xs) * Min (set (x # xs)) \<le> x + sum_list xs"
      by linarith
    then show ?thesis by (simp add: algebra_simps)
  qed
qed

lemma sum_list_le_Max:
  "xs \<noteq> [] \<Longrightarrow> sum_list (xs::real list) \<le> real (length xs) * Max (set xs)"
proof (induction xs)
  case Nil
  then show ?case by simp
next
  case (Cons x xs)
  show ?case
  proof (cases "xs = []")
    case True
    then show ?thesis by simp
  next
    case False
    have "real (length xs) * Max (set xs) \<le> real (length xs) * Max (set (x # xs))"
      using False by (simp add: mult_left_mono)
    with Cons.IH [OF False] have "sum_list xs \<le> real (length xs) * Max (set (x # xs))"
      by linarith
    moreover have "x \<le> Max (set (x # xs))" by simp
    ultimately have "x + sum_list xs \<le> Max (set (x # xs)) + real (length xs) * Max (set (x # xs))"
      by linarith
    then show ?thesis by (simp add: algebra_simps)
  qed
qed

lemma mean_between:
  assumes "xs \<noteq> []"
  shows "Min (set xs) \<le> sum_list xs / real (length xs) \<and> sum_list xs / real (length xs) \<le> Max (set xs)"
proof -
  have n: "0 < real (length xs)" using assms by simp
  show ?thesis
    using sum_list_ge_Min [OF assms] sum_list_le_Max [OF assms] n by (simp add: field_simps)
qed

section \<open>Properties\<close>

text \<open>
  The variance \<open>get_mean_and_variance\<close> returns is never negative, for
  inputs of every length (0 and 1 included, where it is the literal 0).
\<close>

theorem get_mean_and_variance_var_nonneg: "0 \<le> snd (get_mean_and_variance values)"
  by (simp add: get_mean_and_variance_def sample_variance_nonneg)

text \<open>
  Mean and variance do not depend on the order of the samples: two lists
  with the same multiset of values give the same pair.
\<close>

theorem get_mean_and_variance_perm:
  assumes "mset xs = mset ys"
  shows "get_mean_and_variance xs = get_mean_and_variance ys"
proof -
  have len: "length xs = length ys" using assms by (metis size_mset)
  have sums: "sum_list xs = sum_list ys"
    using sum_list_map_mset [OF assms, of id] by simp
  show ?thesis
    by (simp add: get_mean_and_variance_def len sums sample_variance_mset [OF assms])
qed

theorem get_mean_and_variance_perm_witness:
  "mset [1, 2, 6 :: real] = mset [6, 1, 2] \<and>
   get_mean_and_variance [1, 2, 6] = get_mean_and_variance [6, 1, 2] \<and>
   get_mean_and_variance [1, 2, 6] = (3, 7)"
proof -
  have m: "mset [1, 2, 6 :: real] = mset [6, 1, 2]" by simp
  show ?thesis
    using get_mean_and_variance_perm [OF m]
    by (simp add: m get_mean_and_variance_def sample_variance_def Let_def power2_eq_square)
qed

text \<open>
  For two or more samples the variance equals the one-pass formula
  \<open>(\<Sum>x\<^sup>2 - n * mean\<^sup>2) / (n - 1)\<close>, with the mean the first component.
\<close>

theorem get_mean_and_variance_one_pass:
  assumes "1 < length values"
  shows "snd (get_mean_and_variance values) =
    (sum_list (map (\<lambda>x. x\<^sup>2) values) - real (length values) * (fst (get_mean_and_variance values))\<^sup>2)
      / real (length values - 1)"
proof -
  let ?n = "real (length values)" and ?s = "sum_list values"
  have ne: "values \<noteq> []" using assms by (cases "values") auto
  then have n0: "?n \<noteq> 0" by simp
  have "?n * (?s / ?n)\<^sup>2 = ?s * (?s / ?n)"
    using n0 by (simp add: power2_eq_square)
  then have "- 2 * (?s / ?n) * ?s + ?n * (?s / ?n)\<^sup>2 = - ?n * (?s / ?n)\<^sup>2"
    by (simp add: algebra_simps)
  then show ?thesis
    using assms ne
    by (simp add: get_mean_and_variance_def sample_variance_def Let_def sum_list_sq_dev
        algebra_simps)
qed

theorem get_mean_and_variance_one_pass_witness:
  "1 < length [2, 4, 9 :: real] \<and>
   snd (get_mean_and_variance [2, 4, 9]) = 13"
proof -
  have h: "1 < length [2, 4, 9 :: real]" by simp
  show ?thesis
    using get_mean_and_variance_one_pass [OF h]
    by (simp add: get_mean_and_variance_def power2_eq_square)
qed

text \<open>
  Shifting every sample by \<open>c\<close> shifts the mean by \<open>c\<close> and leaves the
  variance unchanged (on a non-empty list; the empty list keeps its \<open>(0, 0)\<close>).
\<close>

theorem get_mean_and_variance_shift:
  "get_mean_and_variance (map (\<lambda>x. x + c) values) =
     (if values = [] then (0, 0)
      else (fst (get_mean_and_variance values) + c, snd (get_mean_and_variance values)))"
proof (cases "values = []")
  case True
  then show ?thesis by (simp add: get_mean_and_variance_def)
next
  case False
  let ?n = "real (length values)" and ?s = "sum_list values"
  have n0: "?n \<noteq> 0" using False by simp
  have mean: "(?s + ?n * c) / ?n = ?s / ?n + c" using n0 by (simp add: field_simps)
  have "sample_variance (map (\<lambda>x. x + c) values) = sample_variance values"
    by (simp add: sample_variance_def Let_def sum_list_shift mean comp_def)
  then show ?thesis
    using False by (simp add: get_mean_and_variance_def sum_list_shift mean)
qed

text \<open>
  The mean lies between the least and the greatest sample.
\<close>

theorem get_mean_and_variance_mean_bounds:
  assumes "values \<noteq> []"
  shows "Min (set values) \<le> fst (get_mean_and_variance values) \<and>
         fst (get_mean_and_variance values) \<le> Max (set values)"
  using mean_between [OF assms] assms by (simp add: get_mean_and_variance_def)

theorem get_mean_and_variance_mean_bounds_witness:
  "[3, 5, 10 :: real] \<noteq> [] \<and> 3 \<le> fst (get_mean_and_variance [3, 5, 10]) \<and>
   fst (get_mean_and_variance [3, 5, 10]) \<le> 10"
  using get_mean_and_variance_mean_bounds [of "[3, 5, 10 :: real]"] by simp

text \<open>
  The interval loop computes the differences of adjacent timestamps, one fewer
  than there are timestamps, and they add up to the first minus the last timestamp.
\<close>

theorem time_intervals_adjacent:
  "time_intervals ts = adjacent_diffs ts \<and>
   length (time_intervals ts) = length ts - 1 \<and>
   (ts \<noteq> [] \<longrightarrow> sum_list (time_intervals ts) = hd ts - last ts)"
proof -
  have eq: "time_intervals ts = adjacent_diffs ts"
  proof (cases "1 < length ts")
    case True
    then have "0 < length ts" by arith
    with True show ?thesis using intervals_from_drop [of 0 ts] by (simp add: time_intervals_def)
  next
    case False
    then have "adjacent_diffs ts = []"
      by (cases ts rule: adjacent_diffs.cases) auto
    with False show ?thesis by (simp add: time_intervals_def)
  qed
  show ?thesis
    using eq by (simp add: adjacent_diffs_length sum_adjacent_diffs)
qed

theorem time_intervals_adjacent_witness:
  "[30, 20, 5] \<noteq> [] \<and> time_intervals [30, 20, 5] = [10, 15] \<and>
   sum_list (time_intervals [30, 20, 5]) = 25"
  using time_intervals_adjacent [of "[30, 20, 5]"] by simp

end
