(* ===== verification/Daily.thy ===== *)
theory Daily
  imports Stats Schema
begin

text \<open>
  The per-day statistics of \<open>src/app/utils.py\<close>: \<open>daily_commit_stats\<close> summarises
  the commits of one developer on one day (counts, \<open>min\<close>/\<open>max\<close>, means and
  variances) into a \<open>CommitsStats\<close> row, and \<open>calculate_daily_stats\<close> walks every
  developer's commits, newest day first, cutting the walk into days. The loop
  variables \<open>day\<close> and the seven lists are initialised once, before the loop over
  developers, and are never reset between developers: the model keeps them in one
  loop state (\<open>daily_state\<close>) threaded through both loops, as the code does.
  \<open>order_by(desc(Commits.day))\<close> leaves the order of commits of the same day to
  SQLite; the model keeps their table order (a stable sort).
\<close>

section \<open>Definitions\<close>

text \<open>The lists \<open>lines_changed\<close>, \<open>changed_chars\<close>, \<open>commits_time\<close>, \<open>commits_messages_len\<close>, \<open>added_files\<close>, \<open>modified_files\<close>, \<open>removed_files\<close>.\<close>

record day_lists =
  dl_lines :: "nat list"
  dl_chars :: "nat list"
  dl_times :: "int list"
  dl_msgs :: "nat list"
  dl_added :: "nat list"
  dl_modified :: "nat list"
  dl_removed :: "nat list"

definition empty_lists :: day_lists where
  "empty_lists = \<lparr>dl_lines = [], dl_chars = [], dl_times = [], dl_msgs = [], dl_added = [],
     dl_modified = [], dl_removed = []\<rparr>"

text \<open>The seven \<open>append\<close> calls of the inner loop body.\<close>

definition append_commit :: "day_lists \<Rightarrow> commit \<Rightarrow> day_lists" where
  "append_commit l c =
     \<lparr>dl_lines = dl_lines l @ [new_lines c + removed_lines c],
      dl_chars = dl_chars l @ [changed_chars c],
      dl_times = dl_times l @ [timestamp c],
      dl_msgs = dl_msgs l @ [length (message c)],
      dl_added = dl_added l @ [added_files c],
      dl_modified = dl_modified l @ [modified_files c],
      dl_removed = dl_removed l @ [removed_files c]\<rparr>"

definition next_commits_stats_id :: "db \<Rightarrow> nat" where
  "next_commits_stats_id s = Suc (fold max (map cs_id (commits_stats_table s)) 0)"

definition mv :: "nat list \<Rightarrow> real \<times> real" where
  "mv xs = get_mean_and_variance (map real xs)"

text \<open>
  \<open>daily_commit_stats\<close>: the keyword arguments of \<open>CommitsStats(...)\<close> are
  evaluated in order, so the first \<open>min\<close> of an empty list raises \<open>ValueError\<close>.
  The column \<open>time_intervals_min\<close> receives \<open>min(commits_time)\<close>, a timestamp.
\<close>

definition daily_commit_stats :: "db \<Rightarrow> int option \<Rightarrow> nat \<Rightarrow> day_lists \<Rightarrow> db res" where
  "daily_commit_stats s d dv l =
     (let (lines_mean, lines_variance) = mv (dl_lines l);
          (chars_mean, chars_variance) = mv (dl_chars l);
          (times_mean, times_variance) =
            get_mean_and_variance (map real_of_int (time_intervals (dl_times l)));
          (comments_size_mean, comments_size_var) = mv (dl_msgs l);
          (added_files_mean, added_files_var) = mv (dl_added l);
          (modified_files_mean, modified_files_var) = mv (dl_modified l);
          (removed_files_mean, removed_files_var) = mv (dl_removed l)
      in bindr (py_min (dl_times l)) (\<lambda>tmin. bindr (py_max (dl_times l)) (\<lambda>tmax.
         bindr (py_min (dl_lines l)) (\<lambda>lmin. bindr (py_max (dl_lines l)) (\<lambda>lmax.
         bindr (py_min (dl_chars l)) (\<lambda>cmin. bindr (py_max (dl_chars l)) (\<lambda>cmax.
         bindr (py_min (dl_msgs l)) (\<lambda>mmin. bindr (py_max (dl_msgs l)) (\<lambda>mmax.
           Inr (s\<lparr>commits_stats_table := commits_stats_table s @
             [\<lparr>cs_id = next_commits_stats_id s, date = d, number_commits = length (dl_lines l),
               time_intervals_min = tmin, time_intervals_max = tmax,
               time_intervals_mean = times_mean, time_intervals_var = times_variance,
               changed_lines_min = lmin, changed_lines_max = lmax,
               changed_lines_mean = lines_mean, changed_lines_var = lines_variance,
               changed_chars_min = cmin, changed_chars_max = cmax,
               changed_chars_mean = chars_mean, changed_chars_var = chars_variance,
               comments_size_min = mmin, comments_size_max = mmax,
               comments_size_mean = comments_size_mean, comments_size_var = comments_size_var,
               added_files_mean = added_files_mean, added_files_var = added_files_var,
               modified_files_mean = modified_files_mean, modified_files_var = modified_files_var,
               removed_files_mean = removed_files_mean, removed_files_var = removed_files_var,
               cs_developer_id = dv\<rparr>]\<rparr>))))))))))"

text \<open>The loop variables of \<open>calculate_daily_stats\<close> and the database.\<close>

record daily_state =
  cd_day :: "int option"
  cd_lists :: day_lists
  cd_db :: db

text \<open>\<open>query(Commits).filter_by(developer_id=dev).order_by(desc(Commits.day)).all()\<close>.\<close>

definition dev_commits_desc :: "db \<Rightarrow> nat \<Rightarrow> commit list" where
  "dev_commits_desc s dv = sort_key (\<lambda>c. - day c) (filter (\<lambda>c. c_developer_id c = dv) (commits_table s))"

text \<open>The body of \<open>for commit in commits\<close>.\<close>

definition daily_step :: "nat \<Rightarrow> daily_state \<Rightarrow> commit \<Rightarrow> daily_state res" where
  "daily_step dv st c =
     bindr (if cd_day st = None then Inr (st\<lparr>cd_day := Some (day c)\<rparr>)
            else if cd_day st \<noteq> Some (day c) then
              bindr (daily_commit_stats (cd_db st) (cd_day st) dv (cd_lists st)) (\<lambda>s'.
                Inr \<lparr>cd_day = Some (day c), cd_lists = empty_lists, cd_db = s'\<rparr>)
            else Inr st)
       (\<lambda>st'. Inr (st'\<lparr>cd_lists := append_commit (cd_lists st') c\<rparr>))"

fun daily_commits :: "nat \<Rightarrow> commit list \<Rightarrow> daily_state \<Rightarrow> daily_state res" where
  "daily_commits dv [] st = Inr st"
| "daily_commits dv (c # cs) st = bindr (daily_step dv st c) (daily_commits dv cs)"

text \<open>
  The body of \<open>for dev_id in devs_id\<close>: the inner loop, then
  \<open>daily_commit_stats\<close> for the current \<open>day\<close>, with no reset afterwards.
\<close>

fun daily_devs :: "nat list \<Rightarrow> daily_state \<Rightarrow> daily_state res" where
  "daily_devs [] st = Inr st"
| "daily_devs (dv # dvs) st =
     bindr (daily_commits dv (dev_commits_desc (cd_db st) dv) st) (\<lambda>st1.
     bindr (daily_commit_stats (cd_db st1) (cd_day st1) dv (cd_lists st1)) (\<lambda>s'.
       daily_devs dvs (st1\<lparr>cd_db := s'\<rparr>)))"

definition calculate_daily_stats :: "db \<Rightarrow> db res" where
  "calculate_daily_stats s =
     bindr (daily_devs (map dev_id (developer_table s))
              \<lparr>cd_day = None, cd_lists = empty_lists, cd_db = s\<rparr>) (\<lambda>st. Inr (cd_db st))"

text \<open>
  The reference: the commits cut into maximal runs of the same day
  (\<open>list_group_eq_key\<close> of the LOFT library), a \<open>function\<close> with a measure.
\<close>

function (sequential) day_groups :: "commit list \<Rightarrow> commit list list" where
  "day_groups [] = []"
| "day_groups (x # xs) =
     (x # takeWhile (\<lambda>y. day y = day x) xs) # day_groups (dropWhile (\<lambda>y. day y = day x) xs)"
  by pat_completeness auto
termination
  by (relation "measure length") (auto simp: le_imp_less_Suc length_dropWhile_le)

text \<open>What one \<open>CommitsStats\<close> row says: its day, its count and its developer.\<close>

definition row_summary :: "commits_stats \<Rightarrow> int option \<times> nat \<times> nat" where
  "row_summary r = (date r, number_commits r, cs_developer_id r)"

text \<open>The lists \<open>calculate_daily_stats\<close> has built after the given commits, from empty lists.\<close>

definition lists_of :: "commit list \<Rightarrow> day_lists" where
  "lists_of cs = fold (\<lambda>c l. append_commit l c) cs empty_lists"

text \<open>
  The loop state after the commits \<open>carry\<close> of one day have been read since the
  last \<open>daily_commit_stats\<close>: \<open>day\<close> is their day (\<open>None\<close> before any commit)
  and the lists hold them.
\<close>

definition carry_state :: "commit list \<Rightarrow> db \<Rightarrow> daily_state" where
  "carry_state carry s = \<lparr>cd_day = (if carry = [] then None else Some (day (hd carry))),
     cd_lists = lists_of carry, cd_db = s\<rparr>"

text \<open>
  The reference for several developers: each developer's rows are the day runs of
  the commits still in the loop state (\<open>carry\<close>, the previous developer's last
  run) followed by the developer's own commits, all credited to that developer;
  the last run is carried on to the next developer.
\<close>

fun daily_rows :: "commit list \<Rightarrow> (nat \<times> commit list) list \<Rightarrow> (int option \<times> nat \<times> nat) list" where
  "daily_rows carry [] = []"
| "daily_rows carry ((dv, cs) # rest) =
     map (\<lambda>g. (Some (day (hd g)), length g, dv)) (day_groups (carry @ cs)) @
     daily_rows (last (day_groups (carry @ cs))) rest"

text \<open>
  Two developers (ids 1 and 2): the first commits twice on day 5 and once on day 7,
  the second once on day 9.
\<close>

definition ex_daily_db :: db where
  "ex_daily_db = empty_db\<lparr>developer_table := [ex_dev 1 ''a'', ex_dev 2 ''b''],
     commits_table := [ex_commit 1 1 10 2\<lparr>day := 5\<rparr>, ex_commit 2 1 3 0\<lparr>day := 5\<rparr>,
                       ex_commit 3 1 3 0\<lparr>day := 7\<rparr>, ex_commit 4 2 1 1\<lparr>day := 9\<rparr>]\<rparr>"

section \<open>Lemmas\<close>

lemma lists_of_snoc: "lists_of (cs @ [c]) = append_commit (lists_of cs) c"
  by (simp add: lists_of_def)

lemma lists_of_lengths:
  "dl_lines (lists_of cs) = map (\<lambda>c. new_lines c + removed_lines c) cs \<and>
   dl_chars (lists_of cs) = map changed_chars cs \<and> dl_times (lists_of cs) = map timestamp cs \<and>
   dl_msgs (lists_of cs) = map (\<lambda>c. length (message c)) cs"
  by (induction cs rule: rev_induct) (simp_all add: lists_of_def empty_lists_def append_commit_def)

lemma daily_commit_stats_Nil: "daily_commit_stats s d dv empty_lists = Inl ValueError"
  by (simp add: daily_commit_stats_def empty_lists_def Let_def case_prod_unfold)

lemma daily_commit_stats_row:
  assumes "cs \<noteq> []"
  shows "\<exists>r. daily_commit_stats s d dv (lists_of cs) =
               Inr (s\<lparr>commits_stats_table := commits_stats_table s @ [r]\<rparr>) \<and>
             row_summary r = (d, length cs, dv)"
proof -
  from assms obtain c cs' where "cs = c # cs'" by (cases cs) auto
  then show ?thesis using lists_of_lengths [of cs]
    by (simp add: daily_commit_stats_def Let_def case_prod_unfold row_summary_def py_min_Min py_max_Max del: py_min.simps py_max.simps) (rule exI, rule conjI, rule refl, simp)
qed

lemma day_groups_run:
  assumes "ys \<noteq> []" and "\<forall>y\<in>set ys. day y = D"
  shows "day_groups (ys @ zs) =
           (ys @ takeWhile (\<lambda>y. day y = D) zs) # day_groups (dropWhile (\<lambda>y. day y = D) zs)"
proof -
  obtain y ys' where y: "ys = y # ys'" using assms(1) by (cases ys) auto
  then have "day y = D" using assms(2) by simp
  then show ?thesis using assms(2) y by (simp add: takeWhile_append2 dropWhile_append2)
qed

lemma daily_commits_groups:
  assumes "ys \<noteq> []" and "\<forall>y\<in>set ys. day y = D"
  shows "\<exists>rs. daily_commits dv xs \<lparr>cd_day = Some D, cd_lists = lists_of ys, cd_db = s\<rparr> =
           Inr \<lparr>cd_day = Some (day (hd (last (day_groups (ys @ xs))))),
                cd_lists = lists_of (last (day_groups (ys @ xs))),
                cd_db = s\<lparr>commits_stats_table := commits_stats_table s @ rs\<rparr>\<rparr> \<and>
           map row_summary rs =
             map (\<lambda>g. (Some (day (hd g)), length g, dv)) (butlast (day_groups (ys @ xs)))"
  using assms
proof (induction xs arbitrary: ys D s)
  case Nil
  then have "day_groups ys = [ys]" using day_groups_run [of ys D "[]"] by simp
  moreover have "day (hd ys) = D" using Nil by (cases ys) auto
  ultimately show ?case by (simp del: day_groups.simps)
next
  case (Cons x xs)
  show ?case
  proof (cases "day x = D")
    case True
    have "daily_commits dv (x # xs) \<lparr>cd_day = Some D, cd_lists = lists_of ys, cd_db = s\<rparr> =
          daily_commits dv xs \<lparr>cd_day = Some D, cd_lists = lists_of (ys @ [x]), cd_db = s\<rparr>"
      using True by (simp add: daily_step_def lists_of_snoc)
    then show ?thesis
      using Cons.IH [of "ys @ [x]" D s] Cons.prems True by simp
  next
    case False
    obtain r where r: "daily_commit_stats s (Some D) dv (lists_of ys) =
        Inr (s\<lparr>commits_stats_table := commits_stats_table s @ [r]\<rparr>)"
      and rr: "row_summary r = (Some D, length ys, dv)"
      using daily_commit_stats_row [OF Cons.prems(1)] by blast
    let ?s1 = "s\<lparr>commits_stats_table := commits_stats_table s @ [r]\<rparr>"
    have step: "daily_commits dv (x # xs) \<lparr>cd_day = Some D, cd_lists = lists_of ys, cd_db = s\<rparr> =
          daily_commits dv xs \<lparr>cd_day = Some (day x), cd_lists = lists_of [x], cd_db = ?s1\<rparr>"
      using False r by (simp add: daily_step_def lists_of_def)
    have g: "day_groups (ys @ x # xs) = ys # day_groups ([x] @ xs)"
      using day_groups_run [OF Cons.prems] False by simp
    obtain rs where rs: "daily_commits dv xs \<lparr>cd_day = Some (day x), cd_lists = lists_of [x], cd_db = ?s1\<rparr> =
           Inr \<lparr>cd_day = Some (day (hd (last (day_groups ([x] @ xs))))),
                cd_lists = lists_of (last (day_groups ([x] @ xs))),
                cd_db = ?s1\<lparr>commits_stats_table := commits_stats_table ?s1 @ rs\<rparr>\<rparr>"
      and rsm: "map row_summary rs = map (\<lambda>g. (Some (day (hd g)), length g, dv)) (butlast (day_groups ([x] @ xs)))"
      using Cons.IH [of "[x]" "day x" ?s1] by auto
    have ne: "day_groups ([x] @ xs) \<noteq> []" by simp
    have hd: "day (hd ys) = D" using Cons.prems by (cases ys) auto
    show ?thesis
      using step rs rsm rr g ne hd by (intro exI [of _ "r # rs"]) (simp del: day_groups.simps daily_commits.simps)
  qed
qed

lemma day_groups_nonempty: "g \<in> set (day_groups xs) \<Longrightarrow> g \<noteq> []"
  by (induction xs rule: day_groups.induct) auto

lemma day_groups_Nil_iff [simp]: "day_groups xs = [] \<longleftrightarrow> xs = []"
  by (cases xs) auto

lemma day_groups_same_day: "g \<in> set (day_groups xs) \<Longrightarrow> \<forall>y\<in>set g. day y = day (hd g)"
proof (induction xs rule: day_groups.induct)
  case (2 x xs)
  from "2.prems" have "g = x # takeWhile (\<lambda>y. day y = day x) xs \<or>
      g \<in> set (day_groups (dropWhile (\<lambda>y. day y = day x) xs))"
    by (simp only: day_groups.simps(2) list.set(2) insert_iff)
  then consider (run) "g = x # takeWhile (\<lambda>y. day y = day x) xs"
    | (rest) "g \<in> set (day_groups (dropWhile (\<lambda>y. day y = day x) xs))"
    by blast
  then show ?case
  proof cases
    case run
    then show ?thesis by (auto dest: set_takeWhileD)
  next
    case rest
    then show ?thesis using "2.IH" by blast
  qed
qed simp

lemma last_day_group:
  assumes "xs \<noteq> []"
  shows "last (day_groups xs) \<noteq> [] \<and>
         (\<forall>y\<in>set (last (day_groups xs)). day y = day (hd (last (day_groups xs))))"
proof -
  have "last (day_groups xs) \<in> set (day_groups xs)" using assms by simp
  then show ?thesis using day_groups_nonempty day_groups_same_day by blast
qed

lemma dev_commits_desc_stats_upd [simp]:
  "dev_commits_desc (s\<lparr>commits_stats_table := t\<rparr>) = dev_commits_desc s"
  by (simp add: dev_commits_desc_def fun_eq_iff)

text \<open>One pass of the developer loop body: the inner loop, then the final flush.\<close>

lemma daily_dev_block:
  assumes "carry @ xs \<noteq> []" and "\<forall>y\<in>set carry. day y = day (hd carry)"
  shows "\<exists>rs r. daily_commits dv xs (carry_state carry s) =
             Inr (carry_state (last (day_groups (carry @ xs))) (s\<lparr>commits_stats_table := commits_stats_table s @ rs\<rparr>)) \<and>
           daily_commit_stats (s\<lparr>commits_stats_table := commits_stats_table s @ rs\<rparr>)
             (Some (day (hd (last (day_groups (carry @ xs)))))) dv (lists_of (last (day_groups (carry @ xs)))) =
             Inr (s\<lparr>commits_stats_table := commits_stats_table s @ rs @ [r]\<rparr>) \<and>
           map row_summary (rs @ [r]) = map (\<lambda>g. (Some (day (hd g)), length g, dv)) (day_groups (carry @ xs))"
proof -
  obtain ys zs where yz: "ys \<noteq> []" "\<forall>y\<in>set ys. day y = day (hd ys)" "carry @ xs = ys @ zs"
    and st: "daily_commits dv xs (carry_state carry s) =
             daily_commits dv zs \<lparr>cd_day = Some (day (hd ys)), cd_lists = lists_of ys, cd_db = s\<rparr>"
  proof (cases carry)
    case Nil
    then obtain x xs' where "xs = x # xs'" using assms(1) by (cases xs) auto
    then show ?thesis using Nil
      by (intro that [of "[x]" xs']) (simp_all add: carry_state_def daily_step_def lists_of_def)
  next
    case (Cons c cs)
    then show ?thesis using assms(2) by (intro that [of carry xs]) (simp_all add: carry_state_def)
  qed
  let ?G = "day_groups (carry @ xs)"
  obtain rs where rs: "daily_commits dv zs \<lparr>cd_day = Some (day (hd ys)), cd_lists = lists_of ys, cd_db = s\<rparr> =
           Inr \<lparr>cd_day = Some (day (hd (last ?G))), cd_lists = lists_of (last ?G),
                cd_db = s\<lparr>commits_stats_table := commits_stats_table s @ rs\<rparr>\<rparr>"
    and rsm: "map row_summary rs = map (\<lambda>g. (Some (day (hd g)), length g, dv)) (butlast ?G)"
    using daily_commits_groups [OF yz(1,2), of dv zs s] yz(3) by auto
  have ne: "last ?G \<noteq> []" using last_day_group [OF assms(1)] by blast
  obtain r where r: "daily_commit_stats (s\<lparr>commits_stats_table := commits_stats_table s @ rs\<rparr>)
        (Some (day (hd (last ?G)))) dv (lists_of (last ?G)) =
      Inr (s\<lparr>commits_stats_table := commits_stats_table s @ rs @ [r]\<rparr>)"
    and rr: "row_summary r = (Some (day (hd (last ?G))), length (last ?G), dv)"
    using daily_commit_stats_row [OF ne, of "s\<lparr>commits_stats_table := commits_stats_table s @ rs\<rparr>"
        "Some (day (hd (last ?G)))" dv] by auto
  have "butlast ?G @ [last ?G] = ?G" using assms(1) by (simp del: day_groups.simps)
  then have "map row_summary (rs @ [r]) = map (\<lambda>g. (Some (day (hd g)), length g, dv)) ?G"
    using rsm rr by (metis (no_types, lifting) list.map(1,2) map_append)
  moreover have "daily_commits dv xs (carry_state carry s) =
      Inr (carry_state (last ?G) (s\<lparr>commits_stats_table := commits_stats_table s @ rs\<rparr>))"
    using st rs ne by (simp add: carry_state_def del: daily_commits.simps day_groups.simps)
  ultimately show ?thesis using r by blast
qed

lemma daily_devs_carry:
  assumes "dvs \<noteq> [] \<Longrightarrow> carry @ dev_commits_desc s (hd dvs) \<noteq> []"
    and "\<forall>y\<in>set carry. day y = day (hd carry)"
  shows "\<exists>rs st'. daily_devs dvs (carry_state carry s) = Inr st' \<and>
           cd_db st' = s\<lparr>commits_stats_table := commits_stats_table s @ rs\<rparr> \<and>
           map row_summary rs = daily_rows carry (map (\<lambda>dv. (dv, dev_commits_desc s dv)) dvs)"
  using assms
proof (induction dvs arbitrary: carry s)
  case Nil
  show ?case by (intro exI [of _ "[]"]) (simp add: carry_state_def)
next
  case (Cons dv dvs)
  let ?xs = "dev_commits_desc s dv"
  let ?G = "day_groups (carry @ ?xs)"
  have ne: "carry @ ?xs \<noteq> []" using Cons.prems(1) by simp
  obtain rs r where b1: "daily_commits dv ?xs (carry_state carry s) =
             Inr (carry_state (last ?G) (s\<lparr>commits_stats_table := commits_stats_table s @ rs\<rparr>))"
    and b2: "daily_commit_stats (s\<lparr>commits_stats_table := commits_stats_table s @ rs\<rparr>)
             (Some (day (hd (last ?G)))) dv (lists_of (last ?G)) =
             Inr (s\<lparr>commits_stats_table := commits_stats_table s @ rs @ [r]\<rparr>)"
    and b3: "map row_summary (rs @ [r]) = map (\<lambda>g. (Some (day (hd g)), length g, dv)) ?G"
    using daily_dev_block [OF ne Cons.prems(2), of dv s] by blast
  let ?s1 = "s\<lparr>commits_stats_table := commits_stats_table s @ rs @ [r]\<rparr>"
  have lg: "last ?G \<noteq> []" "\<forall>y\<in>set (last ?G). day y = day (hd (last ?G))"
    using last_day_group [OF ne] by blast+
  obtain rs2 st' where ih: "daily_devs dvs (carry_state (last ?G) ?s1) = Inr st'"
    and ih2: "cd_db st' = ?s1\<lparr>commits_stats_table := commits_stats_table ?s1 @ rs2\<rparr>"
    and ih3: "map row_summary rs2 = daily_rows (last ?G) (map (\<lambda>dv. (dv, dev_commits_desc s dv)) dvs)"
    using Cons.IH [OF _ lg(2), of ?s1] lg(1) by auto
  have "daily_devs (dv # dvs) (carry_state carry s) = Inr st'"
    using b1 b2 ih lg(1) by (simp add: carry_state_def del: daily_commits.simps day_groups.simps)
  then show ?case using ih2 ih3 b3
    by (intro exI [of _ "rs @ [r] @ rs2"] exI [of _ st']) (simp del: day_groups.simps)
qed

lemma calculate_daily_stats_rows:
  assumes "developer_table s \<noteq> [] \<Longrightarrow> dev_commits_desc s (dev_id (hd (developer_table s))) \<noteq> []"
  shows "\<exists>rs. calculate_daily_stats s = Inr (s\<lparr>commits_stats_table := commits_stats_table s @ rs\<rparr>) \<and>
     map row_summary rs = daily_rows [] (map (\<lambda>d. (dev_id d, dev_commits_desc s (dev_id d))) (developer_table s))"
proof -
  have "carry_state [] s = \<lparr>cd_day = None, cd_lists = empty_lists, cd_db = s\<rparr>"
    by (simp add: carry_state_def lists_of_def)
  moreover obtain rs st' where "daily_devs (map dev_id (developer_table s)) (carry_state [] s) = Inr st'"
    and "cd_db st' = s\<lparr>commits_stats_table := commits_stats_table s @ rs\<rparr>"
    and "map row_summary rs = daily_rows [] (map (\<lambda>dv. (dv, dev_commits_desc s dv)) (map dev_id (developer_table s)))"
    using daily_devs_carry [of "map dev_id (developer_table s)" "[]" s] assms by (auto simp: hd_map)
  ultimately show ?thesis by (auto simp: calculate_daily_stats_def comp_def)
qed

lemma calculate_daily_stats_single:
  assumes "developer_table s = [d]" and "dev_commits_desc s (dev_id d) \<noteq> []"
  shows "\<exists>rs. calculate_daily_stats s = Inr (s\<lparr>commits_stats_table := commits_stats_table s @ rs\<rparr>) \<and>
     map row_summary rs = map (\<lambda>g. (Some (day (hd g)), length g, dev_id d)) (day_groups (dev_commits_desc s (dev_id d)))"
  using calculate_daily_stats_rows [of s] assms by (simp del: day_groups.simps)

lemma sorted_desc_run:
  assumes "sorted (map (\<lambda>c. - day c) (x # xs))"
  shows "takeWhile (\<lambda>y. day y = day x) xs = filter (\<lambda>y. day y = day x) xs \<and>
         dropWhile (\<lambda>y. day y = day x) xs = filter (\<lambda>y. day y \<noteq> day x) xs"
  using assms
proof (induction xs)
  case (Cons y ys)
  have s1: "sorted (map (\<lambda>c. - day c) (x # ys))" using Cons.prems by simp
  show ?case
  proof (cases "day y = day x")
    case True then show ?thesis using Cons.IH [OF s1] by simp
  next
    case False
    then have "day y < day x" using Cons.prems by simp
    moreover have "\<forall>z\<in>set ys. day z \<le> day y" using Cons.prems by simp
    ultimately have "\<forall>z\<in>set ys. day z \<noteq> day x" by fastforce
    then show ?thesis using False by (simp add: filter_empty_conv)
  qed
qed simp

lemma remdups_run: "a \<notin> set B \<Longrightarrow> \<forall>y\<in>set A. y = a \<Longrightarrow> remdups (a # A @ B) = a # remdups B"
  by (induction A) auto

lemma day_groups_sorted:
  "sorted (map (\<lambda>c. - day c) xs) \<Longrightarrow>
   map (\<lambda>g. (day (hd g), length g)) (day_groups xs) =
     map (\<lambda>D. (D, length (filter (\<lambda>c. day c = D) xs))) (remdups (map day xs))"
proof (induction xs rule: day_groups.induct)
  case (2 x xs)
  let ?P = "\<lambda>y. day y = day x"
  let ?T = "filter ?P xs" and ?R = "filter (\<lambda>y. day y \<noteq> day x) xs"
  have tw: "takeWhile ?P xs = ?T" and dw: "dropWhile ?P xs = ?R"
    using sorted_desc_run [OF "2.prems"] by simp_all
  have srt: "sorted (map (\<lambda>c. - day c) ?R)"
    using "2.prems" by (simp add: sorted_filter)
  have IH: "map (\<lambda>g. (day (hd g), length g)) (day_groups ?R) =
      map (\<lambda>D. (D, length (filter (\<lambda>c. day c = D) ?R))) (remdups (map day ?R))"
    using "2.IH" dw srt by simp
  have "map day ?T @ map day ?R = map day xs"
    using takeWhile_dropWhile_id [of ?P xs] tw dw by (metis map_append)
  then have md: "map day (x # xs) = day x # map day ?T @ map day ?R" by simp
  have nx: "day x \<notin> set (map day ?R)" by auto
  have allT: "\<forall>y\<in>set (map day ?T). y = day x" by auto
  have rd: "remdups (map day (x # xs)) = day x # remdups (map day ?R)"
    unfolding md by (rule remdups_run [OF nx allT])
  have cnt: "map (\<lambda>D. (D, length (filter (\<lambda>c. day c = D) (x # xs)))) (remdups (map day ?R)) =
      map (\<lambda>D. (D, length (filter (\<lambda>c. day c = D) ?R))) (remdups (map day ?R))"
    by (rule map_cong) (auto intro!: arg_cong [where f = length] filter_cong)
  show ?case using tw dw IH rd cnt by simp
qed simp

lemma length_filter_sort_key: "length (filter P (sort_key f xs)) = length (filter P xs)"
  by (metis mset_filter mset_sort size_mset)

section \<open>Properties\<close>

text \<open>
  C32: for a repository with a single developer who has commits,
  \<open>calculate_daily_stats\<close> refines the per-day summary: it appends exactly one
  \<open>CommitsStats\<close> row per distinct day of the developer's commits, newest day first,
  carrying that day and the number of the developer's commits on it.
\<close>

theorem calculate_daily_stats_per_day:
  assumes "developer_table s = [d]"
    and "filter (\<lambda>c. c_developer_id c = dev_id d) (commits_table s) \<noteq> []"
  shows "\<exists>rs. calculate_daily_stats s = Inr (s\<lparr>commits_stats_table := commits_stats_table s @ rs\<rparr>) \<and>
     map row_summary rs =
       map (\<lambda>D. (Some D, length (filter (\<lambda>c. c_developer_id c = dev_id d \<and> day c = D) (commits_table s)),
                  dev_id d))
         (remdups (map day (dev_commits_desc s (dev_id d))))"
proof -
  let ?xs = "dev_commits_desc s (dev_id d)"
  have ne: "?xs \<noteq> []"
    unfolding dev_commits_desc_def using assms(2) by (metis length_0_conv length_sort)
  obtain rs where rs: "calculate_daily_stats s = Inr (s\<lparr>commits_stats_table := commits_stats_table s @ rs\<rparr>)"
    and m: "map row_summary rs = map (\<lambda>g. (Some (day (hd g)), length g, dev_id d)) (day_groups ?xs)"
    using calculate_daily_stats_single [OF assms(1) ne] by blast
  have srt: "sorted (map (\<lambda>c. - day c) ?xs)" by (simp add: dev_commits_desc_def sorted_sort_key)
  have "map (\<lambda>g. (Some (day (hd g)), length g, dev_id d)) (day_groups ?xs) =
      map (\<lambda>(D, n). (Some D, n, dev_id d)) (map (\<lambda>g. (day (hd g), length g)) (day_groups ?xs))"
    by simp
  also have "\<dots> = map (\<lambda>D. (Some D, length (filter (\<lambda>c. day c = D) ?xs), dev_id d)) (remdups (map day ?xs))"
    by (simp add: day_groups_sorted [OF srt])
  also have "\<dots> = map (\<lambda>D. (Some D, length (filter (\<lambda>c. c_developer_id c = dev_id d \<and> day c = D) (commits_table s)),
                  dev_id d)) (remdups (map day ?xs))"
    by (simp add: dev_commits_desc_def length_filter_sort_key filter_filter del: day_groups.simps)
  finally show ?thesis using rs m by auto
qed

theorem calculate_daily_stats_per_day_witness:
  "developer_table (ex_daily_db\<lparr>developer_table := [ex_dev 1 ''a'']\<rparr>) = [ex_dev 1 ''a''] \<and>
   filter (\<lambda>c. c_developer_id c = dev_id (ex_dev 1 ''a'')) (commits_table ex_daily_db) \<noteq> [] \<and>
   (\<exists>rs. calculate_daily_stats (ex_daily_db\<lparr>developer_table := [ex_dev 1 ''a'']\<rparr>) =
        Inr (ex_daily_db\<lparr>developer_table := [ex_dev 1 ''a''], commits_stats_table := rs\<rparr>) \<and>
      map row_summary rs = [(Some 7, 1, 1), (Some 5, 2, 1)])"
proof -
  let ?s = "ex_daily_db\<lparr>developer_table := [ex_dev 1 ''a'']\<rparr>"
  have h1: "developer_table ?s = [ex_dev 1 ''a'']" by simp
  have h2: "filter (\<lambda>c. c_developer_id c = dev_id (ex_dev 1 ''a'')) (commits_table ?s) \<noteq> []"
    by (simp add: ex_daily_db_def ex_commit_def ex_dev_def)
  obtain rs where e: "calculate_daily_stats ?s = Inr (?s\<lparr>commits_stats_table := commits_stats_table ?s @ rs\<rparr>)"
    and m: "map row_summary rs =
       map (\<lambda>D. (Some D, length (filter (\<lambda>c. c_developer_id c = dev_id (ex_dev 1 ''a'') \<and> day c = D)
                    (commits_table ?s)), dev_id (ex_dev 1 ''a'')))
         (remdups (map day (dev_commits_desc ?s (dev_id (ex_dev 1 ''a'')))))"
    using calculate_daily_stats_per_day [OF h1 h2] by blast
  have "map row_summary rs = [(Some 7, 1, 1), (Some 5, 2, 1)]"
    unfolding m by (simp add: dev_commits_desc_def ex_daily_db_def ex_commit_def ex_dev_def)
  moreover have "?s\<lparr>commits_stats_table := commits_stats_table ?s @ rs\<rparr> =
      ex_daily_db\<lparr>developer_table := [ex_dev 1 ''a''], commits_stats_table := rs\<rparr>"
    by (simp add: ex_daily_db_def empty_db_def)
  ultimately show ?thesis using e h2 by auto
qed

text \<open>
  C33: \<open>day\<close> and the seven lists are not reset between developers. Whenever the
  first developer has commits, \<open>calculate_daily_stats\<close> appends exactly the rows
  of \<open>daily_rows\<close>: every developer after the first is credited with the day runs
  of the previous developer's last run of commits followed by its own commits, so
  the previous developer's last day is counted again for it (or merged with its
  own first day when the days agree).
\<close>

theorem calculate_daily_stats_carries_over:
  assumes "developer_table s = d # ds" and "dev_commits_desc s (dev_id d) \<noteq> []"
  shows "\<exists>rs. calculate_daily_stats s = Inr (s\<lparr>commits_stats_table := commits_stats_table s @ rs\<rparr>) \<and>
     map row_summary rs =
       map (\<lambda>g. (Some (day (hd g)), length g, dev_id d)) (day_groups (dev_commits_desc s (dev_id d))) @
       daily_rows (last (day_groups (dev_commits_desc s (dev_id d))))
         (map (\<lambda>d. (dev_id d, dev_commits_desc s (dev_id d))) ds)"
  using calculate_daily_stats_rows [of s] assms by simp

theorem calculate_daily_stats_carries_over_witness:
  "developer_table ex_daily_db = ex_dev 1 ''a'' # [ex_dev 2 ''b''] \<and>
   dev_commits_desc ex_daily_db (dev_id (ex_dev 1 ''a'')) \<noteq> [] \<and>
   filter (\<lambda>c. c_developer_id c = 2 \<and> day c = 5) (commits_table ex_daily_db) = [] \<and>
   (\<exists>rs. calculate_daily_stats ex_daily_db = Inr (ex_daily_db\<lparr>commits_stats_table := rs\<rparr>) \<and>
      map row_summary rs = [(Some 7, 1, 1), (Some 5, 2, 1), (Some 5, 2, 2), (Some 9, 1, 2)])"
proof -
  have h1: "developer_table ex_daily_db = ex_dev 1 ''a'' # [ex_dev 2 ''b'']"
    by (simp add: ex_daily_db_def)
  have ds1: "dev_commits_desc ex_daily_db (dev_id (ex_dev 1 ''a'')) =
      [ex_commit 3 1 3 0\<lparr>day := 7\<rparr>, ex_commit 1 1 10 2\<lparr>day := 5\<rparr>, ex_commit 2 1 3 0\<lparr>day := 5\<rparr>]"
    by (simp add: dev_commits_desc_def ex_daily_db_def ex_commit_def ex_dev_def)
  have ds2: "dev_commits_desc ex_daily_db 2 = [ex_commit 4 2 1 1\<lparr>day := 9\<rparr>]"
    by (simp add: dev_commits_desc_def ex_daily_db_def ex_commit_def ex_dev_def)
  have h2: "dev_commits_desc ex_daily_db (dev_id (ex_dev 1 ''a'')) \<noteq> []" using ds1 by simp
  obtain rs where e: "calculate_daily_stats ex_daily_db =
      Inr (ex_daily_db\<lparr>commits_stats_table := commits_stats_table ex_daily_db @ rs\<rparr>)"
    and m: "map row_summary rs =
       map (\<lambda>g. (Some (day (hd g)), length g, dev_id (ex_dev 1 ''a'')))
         (day_groups (dev_commits_desc ex_daily_db (dev_id (ex_dev 1 ''a'')))) @
       daily_rows (last (day_groups (dev_commits_desc ex_daily_db (dev_id (ex_dev 1 ''a'')))))
         (map (\<lambda>d. (dev_id d, dev_commits_desc ex_daily_db (dev_id d))) [ex_dev 2 ''b''])"
    using calculate_daily_stats_carries_over [OF h1 h2] by blast
  have "map row_summary rs = [(Some 7, 1, 1), (Some 5, 2, 1), (Some 5, 2, 2), (Some 9, 1, 2)]"
    unfolding m ds1 by (simp add: ds2 ex_commit_def ex_dev_def)
  moreover have "commits_stats_table ex_daily_db = []" by (simp add: ex_daily_db_def empty_db_def)
  moreover have "filter (\<lambda>c. c_developer_id c = 2 \<and> day c = 5) (commits_table ex_daily_db) = []"
    by (simp add: ex_daily_db_def ex_commit_def)
  ultimately show ?thesis using e h1 h2 by auto
qed

text \<open>
  C34: when the first developer has no commits, \<open>calculate_daily_stats\<close> calls
  \<open>daily_commit_stats\<close> with empty lists and raises \<open>ValueError\<close> (\<open>min([])\<close>);
  no statistics are computed for anyone.
\<close>

theorem calculate_daily_stats_first_dev_idle:
  assumes "developer_table s = d # ds"
    and "filter (\<lambda>c. c_developer_id c = dev_id d) (commits_table s) = []"
  shows "calculate_daily_stats s = Inl ValueError"
proof -
  have "dev_commits_desc s (dev_id d) = []" using assms(2) by (simp add: dev_commits_desc_def)
  then show ?thesis using assms(1) by (simp add: calculate_daily_stats_def daily_commit_stats_Nil)
qed

theorem calculate_daily_stats_first_dev_idle_witness:
  "developer_table (ex_daily_db\<lparr>developer_table := [ex_dev 3 ''c'', ex_dev 1 ''a'']\<rparr>) =
     ex_dev 3 ''c'' # [ex_dev 1 ''a''] \<and>
   filter (\<lambda>c. c_developer_id c = dev_id (ex_dev 3 ''c'')) (commits_table ex_daily_db) = [] \<and>
   calculate_daily_stats (ex_daily_db\<lparr>developer_table := [ex_dev 3 ''c'', ex_dev 1 ''a'']\<rparr>) = Inl ValueError"
proof -
  let ?s = "ex_daily_db\<lparr>developer_table := [ex_dev 3 ''c'', ex_dev 1 ''a'']\<rparr>"
  have h1: "developer_table ?s = ex_dev 3 ''c'' # [ex_dev 1 ''a'']" by simp
  have h2: "filter (\<lambda>c. c_developer_id c = dev_id (ex_dev 3 ''c'')) (commits_table ?s) = []"
    by (simp add: ex_daily_db_def ex_commit_def ex_dev_def)
  show ?thesis using calculate_daily_stats_first_dev_idle [OF h1 h2] h2 by simp
qed

end
