(* ===== verification/Features.thy ===== *)
theory Features
  imports Outlier Stats
begin

text \<open>
  The feature extractor of \<open>src/app/utils.py\<close>: \<open>save_file_changes\<close>, which the
  ingestion runs on every fetched commit. It walks the commit's files in order,
  counting file types (the commit's \<open>languages\<close>), the characters of the changed
  patch lines, and the files per status, and it maintains the \<open>File\<close> and
  \<open>CommitsFiles\<close> tables: a file is looked up by name and then by previous name
  (\<open>get_file\<close>), created when unknown, renamed, given an owner when added, and
  linked to the commit once. The \<open>File\<close> object created for an unknown name enters
  the session through the \<open>CommitsFiles\<close> link and is flushed by the next query;
  since its \<open>previous_filename\<close> is \<open>NULL\<close> the rename query cannot see it, so the
  model stores it at once, with a fresh id. The statement
  \<open>file.commit.status = ...\<close> sets an attribute of the relationship list and
  writes nothing to the database: it is not modelled.
\<close>

section \<open>Definitions\<close>

text \<open>\<open>filename[filename.rfind('.') + 1:]\<close>: the whole name when it has no dot.\<close>

definition file_type :: "string \<Rightarrow> string" where
  "file_type name = slice_from name (rfind (CHR ''.'') name + 1)"

text \<open>\<open>languages[file_type] += 1\<close> on a dict, which keeps insertion order.\<close>

fun lang_count :: "(string \<times> nat) list \<Rightarrow> string \<Rightarrow> (string \<times> nat) list" where
  "lang_count [] t = [(t, 1)]"
| "lang_count ((k, n) # ls) t = (if k = t then (k, Suc n) # ls else (k, n) # lang_count ls t)"

text \<open>
  \<open>for line_change in commit_changes: if line_change[0] == '+' or ...\<close>: an empty
  line raises \<open>IndexError\<close>.
\<close>

fun line_chars :: "string list \<Rightarrow> nat \<Rightarrow> nat res" where
  "line_chars [] acc = Inr acc"
| "line_chars (l # ls) acc =
     (case l of [] \<Rightarrow> Inl IndexError
      | c # _ \<Rightarrow> line_chars ls (if c = CHR ''+'' \<or> c = CHR ''-'' then acc + length l else acc))"

definition patch_chars :: "gh_file \<Rightarrow> nat \<Rightarrow> nat res" where
  "patch_chars f acc =
     (case gh_patch f of None \<Rightarrow> Inr acc | Some p \<Rightarrow> line_chars (split_on (CHR 0x0A) p) acc)"

definition get_file :: "db \<Rightarrow> string \<Rightarrow> file_rec option res" where
  "get_file s q =
     bindr (one_or_none (filter (\<lambda>f. filename f = q) (file_table s))) (\<lambda>fo.
       case fo of Some f \<Rightarrow> Inr (Some f)
       | None \<Rightarrow> one_or_none (filter (\<lambda>f. previous_filename f = Some q) (file_table s)))"

definition new_file_id :: "db \<Rightarrow> nat" where
  "new_file_id s = Suc (fold max (map file_id (file_table s)) 0)"

text \<open>An attribute assignment on the \<open>File\<close> object with the given id.\<close>

definition update_file :: "db \<Rightarrow> nat \<Rightarrow> (file_rec \<Rightarrow> file_rec) \<Rightarrow> db" where
  "update_file s i g = s\<lparr>file_table := map (\<lambda>f. if file_id f = i then g f else f) (file_table s)\<rparr>"

text \<open>\<open>any(obj.file.filename == name for obj in commit.files)\<close>.\<close>

definition commit_has_file :: "db \<Rightarrow> nat \<Rightarrow> string \<Rightarrow> bool" where
  "commit_has_file s cid name =
     list_ex (\<lambda>cf. cf_commit_id cf = cid \<and>
                   list_ex (\<lambda>f. file_id f = cf_file_id cf \<and> filename f = name) (file_table s))
       (commits_files_table s)"

record sfc_acc =
  sfc_db :: db
  sfc_langs :: "(string \<times> nat) list"
  sfc_chars :: nat
  sfc_added :: nat
  sfc_modified :: nat
  sfc_removed :: nat
  sfc_renamed :: nat

text \<open>
  The rename branch: the file that had \<open>previous_filename\<close> as its previous name
  loses it (\<open>''\<close>), and the current file gets it.
\<close>

definition rename_file :: "db \<Rightarrow> nat \<Rightarrow> gh_file \<Rightarrow> db res" where
  "rename_file s fid f =
     (case gh_previous_filename f of
        None \<Rightarrow> Inl KeyError
      | Some pf \<Rightarrow>
          bindr (one_or_none (filter (\<lambda>r. previous_filename r = Some pf) (file_table s))) (\<lambda>prev.
            let s' = (case prev of None \<Rightarrow> s
                      | Some p \<Rightarrow> update_file s (file_id p) (\<lambda>r. r\<lparr>previous_filename := Some ''''\<rparr>))
            in Inr (update_file s' fid (\<lambda>r. r\<lparr>previous_filename := Some pf\<rparr>))))"

text \<open>
  \<open>file = get_file(db_session, filename); if not file: file = File(filename=filename)\<close>:
  the database with the file, the file's id and its stored name.
\<close>

definition open_file :: "db \<Rightarrow> string \<Rightarrow> file_rec option \<Rightarrow> db \<times> nat \<times> string" where
  "open_file s name fo =
     (case fo of
        Some fl \<Rightarrow> (s, file_id fl, filename fl)
      | None \<Rightarrow> (let i = new_file_id s
                in (s\<lparr>file_table := file_table s @
                      [\<lparr>file_id = i, filename = name, previous_filename = None, f_developer_id = None\<rparr>]\<rparr>,
                    i, name)))"

text \<open>\<open>if file and file_data['status'] == 'added': file.owner = dev\<close>.\<close>

definition set_owner :: "db \<Rightarrow> nat \<Rightarrow> string \<Rightarrow> nat \<Rightarrow> db" where
  "set_owner s fid st dv =
     (if st = ''added'' then update_file s fid (\<lambda>r. r\<lparr>f_developer_id := Some dv\<rparr>) else s)"

text \<open>
  \<open>if not any(obj.file.filename == file.filename for obj in commit.files):
  commit.files.append(CommitsFiles(file=file, status=...))\<close>.
\<close>

definition link_file :: "db \<Rightarrow> nat \<Rightarrow> nat \<Rightarrow> string \<Rightarrow> string \<Rightarrow> db" where
  "link_file s cid fid fname st =
     (if commit_has_file s cid fname then s
      else s\<lparr>commits_files_table := commits_files_table s @
             [\<lparr>cf_commit_id = cid, cf_file_id = fid, cf_status = st\<rparr>]\<rparr>)"

text \<open>One iteration of \<open>for file_data in commit_data['files']\<close>.\<close>

definition save_file_step :: "nat \<Rightarrow> nat \<Rightarrow> sfc_acc \<Rightarrow> gh_file \<Rightarrow> sfc_acc res" where
  "save_file_step cid dv acc f =
     (let name = gh_filename f; st = gh_status f;
          langs = lang_count (sfc_langs acc) (file_type name)
      in bindr (patch_chars f (sfc_chars acc)) (\<lambda>chars.
         bindr (get_file (sfc_db acc) name) (\<lambda>fo.
         case open_file (sfc_db acc) name fo of (s1, fid, fname) \<Rightarrow>
         bindr (if st = ''renamed'' then rename_file s1 fid f else Inr s1) (\<lambda>s2.
         Inr \<lparr>sfc_db = link_file (set_owner s2 fid st dv) cid fid fname st,
              sfc_langs = langs, sfc_chars = chars,
              sfc_added = sfc_added acc + (if st = ''added'' then 1 else 0),
              sfc_modified = sfc_modified acc + (if st = ''modified'' then 1 else 0),
              sfc_removed = sfc_removed acc + (if st = ''removed'' then 1 else 0),
              sfc_renamed = sfc_renamed acc + (if st = ''renamed'' then 1 else 0)\<rparr>))))"

fun save_files :: "nat \<Rightarrow> nat \<Rightarrow> gh_file list \<Rightarrow> sfc_acc \<Rightarrow> sfc_acc res" where
  "save_files cid dv [] acc = Inr acc"
| "save_files cid dv (f # fs) acc = bindr (save_file_step cid dv acc f) (save_files cid dv fs)"

text \<open>
  \<open>save_file_changes(commit_data, commit, db_session, dev)\<close> for the commit with id
  \<open>cid\<close> and the developer with id \<open>dv\<close>: the new database (with
  \<open>commit.languages\<close> set) and \<open>(changed_chars, added, modified, removed, renamed)\<close>.
\<close>

definition save_file_changes ::
  "gh_commit \<Rightarrow> nat \<Rightarrow> db \<Rightarrow> nat \<Rightarrow> (db \<times> nat \<times> nat \<times> nat \<times> nat \<times> nat) res" where
  "save_file_changes commit_data cid s dv =
     bindr (save_files cid dv (gh_files commit_data)
              \<lparr>sfc_db = s, sfc_langs = [], sfc_chars = 0, sfc_added = 0, sfc_modified = 0,
               sfc_removed = 0, sfc_renamed = 0\<rparr>) (\<lambda>acc.
       let s' = sfc_db acc
       in Inr (s'\<lparr>commits_table := map (\<lambda>c. if commit_id c = cid then c\<lparr>languages := sfc_langs acc\<rparr> else c)
                                    (commits_table s')\<rparr>,
               sfc_chars acc, sfc_added acc, sfc_modified acc, sfc_removed acc, sfc_renamed acc))"

text \<open>A commit of two files: a new Python file with a patch and a renamed one.\<close>

definition ex_feature_commit :: gh_commit where
  "ex_feature_commit = ex_gh_commit\<lparr>gh_files :=
     [\<lparr>gh_filename = ''a.py'', gh_status = ''added'', gh_patch = Some ''+abc'',
       gh_previous_filename = None\<rparr>,
      \<lparr>gh_filename = ''b.py'', gh_status = ''renamed'', gh_patch = None,
       gh_previous_filename = Some ''old.py''\<rparr>]\<rparr>"

text \<open>The number of files of a type recorded in a \<open>languages\<close> dict.\<close>

definition count_of :: "(string \<times> nat) list \<Rightarrow> string \<Rightarrow> nat" where
  "count_of l t = (case map_of l t of None \<Rightarrow> 0 | Some n \<Rightarrow> n)"

text \<open>
  The \<open>File\<close> / \<open>CommitsFiles\<close> tables are well formed when file ids are distinct,
  every link names a stored file, and no (commit, file) pair is linked twice (the
  primary key of \<open>CommitsFiles\<close>). They depend only on \<open>file_links\<close>.
\<close>

definition file_links :: "db \<Rightarrow> (nat \<times> string) list \<times> commits_file list" where
  "file_links s = (map (\<lambda>f. (file_id f, filename f)) (file_table s), commits_files_table s)"

definition files_wf :: "db \<Rightarrow> bool" where
  "files_wf s \<longleftrightarrow> distinct (map file_id (file_table s)) \<and>
     set (map cf_file_id (commits_files_table s)) \<subseteq> set (map file_id (file_table s)) \<and>
     distinct (map (\<lambda>cf. (cf_commit_id cf, cf_file_id cf)) (commits_files_table s))"

section \<open>Lemmas\<close>

lemma lang_count_keys: "map fst (lang_count l t) = (if t \<in> set (map fst l) then map fst l else map fst l @ [t])"
  by (induction l t rule: lang_count.induct) auto

lemma distinct_lang_count: "distinct (map fst l) \<Longrightarrow> distinct (map fst (lang_count l t))"
  by (simp add: lang_count_keys)

lemma count_of_lang_count: "count_of (lang_count l t) k = count_of l k + (if k = t then 1 else 0)"
  by (induction l t rule: lang_count.induct) (auto simp: count_of_def split: option.splits)

lemma line_chars_Inl: "line_chars ls acc = Inl e \<longleftrightarrow> [] \<in> set ls \<and> e = IndexError"
proof (induction ls arbitrary: acc)
  case Nil then show ?case by simp
next
  case (Cons l ls) then show ?case by (cases l) auto
qed

lemma line_chars_Inr: "line_chars ls acc = Inr n \<Longrightarrow> [] \<notin> set ls"
  using line_chars_Inl [of ls acc] by (cases "line_chars ls acc") auto

lemma save_file_step_Inr:
  assumes "save_file_step cid dv acc f = Inr acc'"
  shows "sfc_langs acc' = lang_count (sfc_langs acc) (file_type (gh_filename f)) \<and>
         patch_chars f (sfc_chars acc) = Inr (sfc_chars acc') \<and>
         sfc_added acc' = sfc_added acc + (if gh_status f = ''added'' then 1 else 0) \<and>
         sfc_modified acc' = sfc_modified acc + (if gh_status f = ''modified'' then 1 else 0) \<and>
         sfc_removed acc' = sfc_removed acc + (if gh_status f = ''removed'' then 1 else 0) \<and>
         sfc_renamed acc' = sfc_renamed acc + (if gh_status f = ''renamed'' then 1 else 0)"
  using assms by (auto simp: save_file_step_def Let_def bindr_eq_Inr_iff case_prod_unfold)

lemma save_files_Inr:
  assumes "save_files cid dv fs acc = Inr acc'"
  shows "sfc_langs acc' = fold (\<lambda>f l. lang_count l (file_type (gh_filename f))) fs (sfc_langs acc) \<and>
         sfc_added acc' = sfc_added acc + length (filter (\<lambda>f. gh_status f = ''added'') fs) \<and>
         sfc_modified acc' = sfc_modified acc + length (filter (\<lambda>f. gh_status f = ''modified'') fs) \<and>
         sfc_removed acc' = sfc_removed acc + length (filter (\<lambda>f. gh_status f = ''removed'') fs) \<and>
         sfc_renamed acc' = sfc_renamed acc + length (filter (\<lambda>f. gh_status f = ''renamed'') fs) \<and>
         (\<forall>f\<in>set fs. \<forall>p. gh_patch f = Some p \<longrightarrow> [] \<notin> set (split_on (CHR 0x0A) p))"
  using assms
proof (induction fs arbitrary: acc)
  case Nil then show ?case by simp
next
  case (Cons f fs)
  then obtain a where a: "save_file_step cid dv acc f = Inr a" and r: "save_files cid dv fs a = Inr acc'"
    by (auto simp: bindr_eq_Inr_iff)
  have p: "\<forall>p. gh_patch f = Some p \<longrightarrow> [] \<notin> set (split_on (CHR 0x0A) p)"
    using save_file_step_Inr [OF a] by (auto simp: patch_chars_def dest: line_chars_Inr split: option.splits)
  show ?case using Cons.IH [OF r] save_file_step_Inr [OF a] p by simp
qed

lemma files_wf_links: "file_links s = file_links s' \<Longrightarrow> files_wf s = files_wf s'"
proof -
  assume e: "file_links s = file_links s'"
  have "map file_id (file_table t) = map fst (fst (file_links t))" for t
    by (simp add: file_links_def)
  then have "map file_id (file_table s) = map file_id (file_table s')" using e by metis
  then show ?thesis using e by (simp add: files_wf_def file_links_def)
qed

lemma commit_has_file_iff:
  "commit_has_file s cid n \<longleftrightarrow>
     (\<exists>cf \<in> set (commits_files_table s). cf_commit_id cf = cid \<and> (cf_file_id cf, n) \<in> set (fst (file_links s)))"
  unfolding commit_has_file_def list_ex_iff file_links_def by (simp add: image_iff) (metis)

lemma commit_has_file_links: "file_links s = file_links s' \<Longrightarrow> commit_has_file s = commit_has_file s'"
  by (intro ext) (simp add: commit_has_file_iff file_links_def)

lemma update_file_links:
  "(\<And>r. file_id (g r) = file_id r) \<Longrightarrow> (\<And>r. filename (g r) = filename r) \<Longrightarrow>
   file_links (update_file s i g) = file_links s"
  by (simp add: update_file_def file_links_def)

lemma rename_file_links: "rename_file s fid f = Inr s' \<Longrightarrow> file_links s' = file_links s"
  by (auto simp: rename_file_def bindr_eq_Inr_iff update_file_links split: option.splits)

lemma new_file_id_fresh: "new_file_id s \<notin> set (map file_id (file_table s))"
proof
  assume "new_file_id s \<in> set (map file_id (file_table s))"
  then have "new_file_id s \<le> Max (set (0 # map file_id (file_table s)))" by simp
  moreover have "fold max (map file_id (file_table s)) 0 = Max (set (0 # map file_id (file_table s)))"
    by (rule Max.set_eq_fold [symmetric])
  ultimately show False by (simp add: new_file_id_def)
qed

lemma get_file_Some: "get_file s q = Inr (Some fl) \<Longrightarrow> fl \<in> set (file_table s)"
  by (auto simp: get_file_def bindr_eq_Inr_iff one_or_none_Inr_iff filter_eq_Cons_iff split: option.splits)

lemma save_file_step_db:
  assumes "save_file_step cid dv acc f = Inr acc'"
  obtains fo s1 fid fname s2 where "get_file (sfc_db acc) (gh_filename f) = Inr fo"
    and "open_file (sfc_db acc) (gh_filename f) fo = (s1, fid, fname)"
    and "(if gh_status f = ''renamed'' then rename_file s1 fid f else Inr s1) = Inr s2"
    and "sfc_db acc' = link_file (set_owner s2 fid (gh_status f) dv) cid fid fname (gh_status f)"
proof -
  obtain fo chars where p: "patch_chars f (sfc_chars acc) = Inr chars"
    and g: "get_file (sfc_db acc) (gh_filename f) = Inr fo"
    and r: "(case open_file (sfc_db acc) (gh_filename f) fo of (s1, fid, fname) \<Rightarrow>
         bindr (if gh_status f = ''renamed'' then rename_file s1 fid f else Inr s1) (\<lambda>s2.
         Inr \<lparr>sfc_db = link_file (set_owner s2 fid (gh_status f) dv) cid fid fname (gh_status f),
              sfc_langs = lang_count (sfc_langs acc) (file_type (gh_filename f)), sfc_chars = chars,
              sfc_added = sfc_added acc + (if gh_status f = ''added'' then 1 else 0),
              sfc_modified = sfc_modified acc + (if gh_status f = ''modified'' then 1 else 0),
              sfc_removed = sfc_removed acc + (if gh_status f = ''removed'' then 1 else 0),
              sfc_renamed = sfc_renamed acc + (if gh_status f = ''renamed'' then 1 else 0)\<rparr>)) = Inr acc'"
    using assms by (auto simp: save_file_step_def Let_def bindr_eq_Inr_iff)
  obtain s1 fid fname where o: "open_file (sfc_db acc) (gh_filename f) fo = (s1, fid, fname)"
    by (cases "open_file (sfc_db acc) (gh_filename f) fo") auto
  show ?thesis using r g o that by (auto simp: bindr_eq_Inr_iff)
qed

lemma open_file_wf:
  assumes "files_wf s" and "get_file s name = Inr fo" and "open_file s name fo = (s1, fid, fname)"
  shows "files_wf s1 \<and> (fid, fname) \<in> set (fst (file_links s1))"
proof (cases fo)
  case None
  then show ?thesis using assms new_file_id_fresh [of s]
    by (auto simp: open_file_def Let_def files_wf_def file_links_def subset_iff)
next
  case (Some fl)
  then show ?thesis using assms get_file_Some [of s name fl]
    by (auto simp: open_file_def file_links_def)
qed

lemma set_owner_links: "file_links (set_owner s fid st dv) = file_links s"
  by (simp add: set_owner_def update_file_links)

lemma link_file_wf:
  assumes "files_wf s" and "(fid, fname) \<in> set (fst (file_links s))"
  shows "files_wf (link_file s cid fid fname st)"
proof (cases "commit_has_file s cid fname")
  case False
  then have "(cid, fid) \<notin> set (map (\<lambda>cf. (cf_commit_id cf, cf_file_id cf)) (commits_files_table s))"
    using assms(2) by (auto simp: commit_has_file_iff)
  moreover have "fid \<in> set (map file_id (file_table s))"
    using assms(2) by (auto simp: file_links_def)
  ultimately show ?thesis using assms(1) False by (simp add: link_file_def files_wf_def)
qed (simp add: link_file_def assms(1))

lemma save_file_step_wf:
  assumes "save_file_step cid dv acc f = Inr acc'" and "files_wf (sfc_db acc)"
  shows "files_wf (sfc_db acc')"
proof -
  obtain fo s1 fid fname s2 where g: "get_file (sfc_db acc) (gh_filename f) = Inr fo"
    and o: "open_file (sfc_db acc) (gh_filename f) fo = (s1, fid, fname)"
    and r: "(if gh_status f = ''renamed'' then rename_file s1 fid f else Inr s1) = Inr s2"
    and a: "sfc_db acc' = link_file (set_owner s2 fid (gh_status f) dv) cid fid fname (gh_status f)"
    using save_file_step_db [OF assms(1)] by blast
  have 1: "files_wf s1 \<and> (fid, fname) \<in> set (fst (file_links s1))"
    using open_file_wf [OF assms(2) g o] .
  have "file_links (set_owner s2 fid (gh_status f) dv) = file_links s1"
    using r rename_file_links [of s1 fid f s2] by (simp add: set_owner_links split: if_splits)
  then show ?thesis
    using 1 files_wf_links [of "set_owner s2 fid (gh_status f) dv" s1] by (simp add: a link_file_wf)
qed

lemma save_files_wf: "save_files cid dv fs acc = Inr acc' \<Longrightarrow> files_wf (sfc_db acc) \<Longrightarrow> files_wf (sfc_db acc')"
  by (induction fs arbitrary: acc) (auto simp: bindr_eq_Inr_iff dest: save_file_step_wf)
lemma fold_lang_count:
  "count_of (fold (\<lambda>f l. lang_count l (file_type (gh_filename f))) fs l) t =
     count_of l t + length (filter (\<lambda>f. file_type (gh_filename f) = t) fs) \<and>
   (distinct (map fst l) \<longrightarrow> distinct (map fst (fold (\<lambda>f l. lang_count l (file_type (gh_filename f))) fs l)))"
  by (induction fs arbitrary: l) (simp_all add: count_of_lang_count distinct_lang_count)

lemma save_file_changes_Inr:
  assumes "save_file_changes cd cid s dv = Inr (s', ch, a, m, r, rn)"
  obtains acc where "save_files cid dv (gh_files cd)
      \<lparr>sfc_db = s, sfc_langs = [], sfc_chars = 0, sfc_added = 0, sfc_modified = 0,
       sfc_removed = 0, sfc_renamed = 0\<rparr> = Inr acc"
    and "s' = (sfc_db acc)\<lparr>commits_table := map (\<lambda>c. if commit_id c = cid then c\<lparr>languages := sfc_langs acc\<rparr> else c)
                                    (commits_table (sfc_db acc))\<rparr>"
    and "ch = sfc_chars acc" and "a = sfc_added acc" and "m = sfc_modified acc"
    and "r = sfc_removed acc" and "rn = sfc_renamed acc"
  using assms that by (auto simp: save_file_changes_def bindr_eq_Inr_iff Let_def)

lemma save_file_changes_links:
  "save_file_changes cd cid s dv = Inr (s', x) \<Longrightarrow>
   \<exists>acc. save_files cid dv (gh_files cd)
      \<lparr>sfc_db = s, sfc_langs = [], sfc_chars = 0, sfc_added = 0, sfc_modified = 0,
       sfc_removed = 0, sfc_renamed = 0\<rparr> = Inr acc \<and> file_links s' = file_links (sfc_db acc)"
  by (auto simp: save_file_changes_def bindr_eq_Inr_iff Let_def file_links_def)

section \<open>Properties\<close>

text \<open>
  C28: the file counts that \<open>save_file_changes\<close> stores with a commit (the
  features of the daily statistics) are the counts \<open>count_files_by_status\<close> computes
  from the same file list when the webhook checks a commit.
\<close>

theorem save_file_changes_counts:
  assumes "save_file_changes cd cid s dv = Inr (s', ch, a, m, r, rn)"
  shows "a = fs_added (Outlier.count_files_by_status (gh_files cd)) \<and>
         m = fs_modified (Outlier.count_files_by_status (gh_files cd)) \<and>
         r = fs_removed (Outlier.count_files_by_status (gh_files cd)) \<and>
         rn = length (filter (\<lambda>f. gh_status f = ''renamed'') (gh_files cd))"
proof -
  obtain acc where e: "save_files cid dv (gh_files cd)
      \<lparr>sfc_db = s, sfc_langs = [], sfc_chars = 0, sfc_added = 0, sfc_modified = 0,
       sfc_removed = 0, sfc_renamed = 0\<rparr> = Inr acc"
    and "a = sfc_added acc" "m = sfc_modified acc" "r = sfc_removed acc" "rn = sfc_renamed acc"
    using save_file_changes_Inr [OF assms] by blast
  then show ?thesis
    using save_files_Inr [OF e] by (simp add: count_files_by_status_def count_files_by_status_fold)
qed

theorem save_file_changes_counts_witness:
  "save_file_changes ex_feature_commit 1 empty_db 7 =
     Inr (empty_db\<lparr>file_table :=
            [\<lparr>file_id = 1, filename = ''a.py'', previous_filename = None, f_developer_id = Some 7\<rparr>,
             \<lparr>file_id = 2, filename = ''b.py'', previous_filename = Some ''old.py'', f_developer_id = None\<rparr>],
          commits_files_table :=
            [\<lparr>cf_commit_id = 1, cf_file_id = 1, cf_status = ''added''\<rparr>,
             \<lparr>cf_commit_id = 1, cf_file_id = 2, cf_status = ''renamed''\<rparr>]\<rparr>, 4, 1, 0, 0, 1) \<and>
   fs_added (Outlier.count_files_by_status (gh_files ex_feature_commit)) = 1"
proof -
  have e: "save_file_changes ex_feature_commit 1 empty_db 7 =
     Inr (empty_db\<lparr>file_table :=
            [\<lparr>file_id = 1, filename = ''a.py'', previous_filename = None, f_developer_id = Some 7\<rparr>,
             \<lparr>file_id = 2, filename = ''b.py'', previous_filename = Some ''old.py'', f_developer_id = None\<rparr>],
          commits_files_table :=
            [\<lparr>cf_commit_id = 1, cf_file_id = 1, cf_status = ''added''\<rparr>,
             \<lparr>cf_commit_id = 1, cf_file_id = 2, cf_status = ''renamed''\<rparr>]\<rparr>, 4, 1, 0, 0, 1)"
    by (simp add: save_file_changes_def save_file_step_def ex_feature_commit_def ex_gh_commit_def
        empty_db_def Let_def patch_chars_def get_file_def open_file_def new_file_id_def
        rename_file_def update_file_def set_owner_def link_file_def commit_has_file_def)
  show ?thesis using save_file_changes_counts [OF e] e by simp
qed

text \<open>
  The \<open>languages\<close> dict stored with the commit has one key per file type of
  the commit (the text after the last dot, or the whole name) and counts the commit's
  files of each type.
\<close>

theorem save_file_changes_languages:
  assumes "save_file_changes cd cid s dv = Inr (s', x)"
    and "c \<in> set (commits_table s')" and "commit_id c = cid"
  shows "distinct (map fst (languages c)) \<and>
         count_of (languages c) t = length (filter (\<lambda>f. file_type (gh_filename f) = t) (gh_files cd))"
proof -
  obtain acc where e: "save_files cid dv (gh_files cd)
      \<lparr>sfc_db = s, sfc_langs = [], sfc_chars = 0, sfc_added = 0, sfc_modified = 0,
       sfc_removed = 0, sfc_renamed = 0\<rparr> = Inr acc"
    and s': "s' = (sfc_db acc)\<lparr>commits_table := map (\<lambda>c. if commit_id c = cid then c\<lparr>languages := sfc_langs acc\<rparr> else c)
                                    (commits_table (sfc_db acc))\<rparr>"
  proof -
    obtain ch a m r rn where x: "x = (ch, a, m, r, rn)" by (cases x)
    show ?thesis using save_file_changes_Inr [OF assms(1) [unfolded x]] that by blast
  qed
  have "commits_table s' = map (\<lambda>c. if commit_id c = cid then c\<lparr>languages := sfc_langs acc\<rparr> else c)
      (commits_table (sfc_db acc))" (is "_ = map ?g _") by (simp add: s')
  then have "c \<in> ?g ` set (commits_table (sfc_db acc))" using assms(2) by (simp only: set_map)
  then obtain c0 where "c = (if commit_id c0 = cid then c0\<lparr>languages := sfc_langs acc\<rparr> else c0)"
    by blast
  then have "languages c = sfc_langs acc" using assms(3) by (simp split: if_splits)
  moreover have "sfc_langs acc = fold (\<lambda>f l. lang_count l (file_type (gh_filename f))) (gh_files cd) []"
    using save_files_Inr [OF e, THEN conjunct1] by simp
  ultimately show ?thesis
    using fold_lang_count [of "gh_files cd" "[]" t] by (simp add: count_of_def)
qed

theorem save_file_changes_languages_witness:
  "(\<exists>s' x. save_file_changes (ex_feature_commit\<lparr>gh_files := take 1 (gh_files ex_feature_commit)\<rparr>) 1
      (empty_db\<lparr>commits_table := [ex_commit 1 7 10 2]\<rparr>) 7 = Inr (s', x) \<and>
      ex_commit 1 7 10 2\<lparr>languages := [(''py'', 1)]\<rparr> \<in> set (commits_table s') \<and>
      commit_id (ex_commit 1 7 10 2\<lparr>languages := [(''py'', 1)]\<rparr>) = 1 \<and>
      count_of (languages (ex_commit 1 7 10 2\<lparr>languages := [(''py'', 1)]\<rparr>)) ''py'' =
        length (filter (\<lambda>f. file_type (gh_filename f) = ''py'')
          (gh_files (ex_feature_commit\<lparr>gh_files := take 1 (gh_files ex_feature_commit)\<rparr>))))"
proof -
  let ?cd = "ex_feature_commit\<lparr>gh_files := take 1 (gh_files ex_feature_commit)\<rparr>"
  let ?s = "empty_db\<lparr>commits_table := [ex_commit 1 7 10 2]\<rparr>"
  let ?c = "ex_commit 1 7 10 2\<lparr>languages := [(''py'', 1)]\<rparr>"
  let ?s' = "?s\<lparr>file_table :=
            [\<lparr>file_id = 1, filename = ''a.py'', previous_filename = None, f_developer_id = Some 7\<rparr>],
          commits_files_table := [\<lparr>cf_commit_id = 1, cf_file_id = 1, cf_status = ''added''\<rparr>],
          commits_table := [?c]\<rparr>"
  have e: "save_file_changes ?cd 1 ?s 7 = Inr (?s', 4, 1, 0, 0, 0)"
    by (simp add: save_file_changes_def save_file_step_def ex_feature_commit_def ex_gh_commit_def
        empty_db_def Let_def patch_chars_def get_file_def open_file_def new_file_id_def
        set_owner_def update_file_def link_file_def commit_has_file_def ex_commit_def
        file_type_def slice_from_def)
  have m: "?c \<in> set (commits_table ?s')" by simp
  have i: "commit_id ?c = 1" by (simp add: ex_commit_def)
  show ?thesis using save_file_changes_languages [OF e m i, of "''py''"] e m i by blast
qed

text \<open>
  C30: a commit with a file whose patch has an empty line (a patch that ends with a
  newline, or an empty patch) is never saved: \<open>line_change[0]\<close> raises
  \<open>IndexError\<close>, whatever the other files and the database.
\<close>

theorem save_file_changes_empty_patch_line:
  assumes "f \<in> set (gh_files cd)" and "gh_patch f = Some p" and "[] \<in> set (split_on (CHR 0x0A) p)"
  shows "\<exists>e. save_file_changes cd cid s dv = Inl e"
proof (cases "save_file_changes cd cid s dv")
  case (Inr v)
  then obtain s' ch a m r rn where "save_file_changes cd cid s dv = Inr (s', ch, a, m, r, rn)"
    by (cases v) auto
  then obtain acc where "save_files cid dv (gh_files cd)
      \<lparr>sfc_db = s, sfc_langs = [], sfc_chars = 0, sfc_added = 0, sfc_modified = 0,
       sfc_removed = 0, sfc_renamed = 0\<rparr> = Inr acc"
    by (rule save_file_changes_Inr)
  then show ?thesis using save_files_Inr assms by blast
qed simp

theorem save_file_changes_empty_patch_line_witness:
  "\<lparr>gh_filename = ''a.py'', gh_status = ''modified'', gh_patch = Some ''+q\<newline>'', gh_previous_filename = None\<rparr>
     \<in> set (gh_files (ex_gh_commit\<lparr>gh_files :=
        [\<lparr>gh_filename = ''a.py'', gh_status = ''modified'', gh_patch = Some ''+q\<newline>'', gh_previous_filename = None\<rparr>]\<rparr>)) \<and>
   [] \<in> set (split_on (CHR 0x0A) ''+q\<newline>'') \<and>
   (\<exists>e. save_file_changes (ex_gh_commit\<lparr>gh_files :=
        [\<lparr>gh_filename = ''a.py'', gh_status = ''modified'', gh_patch = Some ''+q\<newline>'', gh_previous_filename = None\<rparr>]\<rparr>)
        1 empty_db 7 = Inl e)"
proof -
  let ?f = "\<lparr>gh_filename = ''a.py'', gh_status = ''modified'', gh_patch = Some ''+q\<newline>'', gh_previous_filename = None\<rparr>"
  have h1: "?f \<in> set (gh_files (ex_gh_commit\<lparr>gh_files := [?f]\<rparr>))" by simp
  have h2: "gh_patch ?f = Some ''+q\<newline>''" by simp
  have h3: "[] \<in> set (split_on (CHR 0x0A) ''+q\<newline>'')" by simp
  show ?thesis using save_file_changes_empty_patch_line [OF h1 h2 h3, of 1 empty_db 7] h1 h3 by blast
qed

text \<open>
  C31: \<open>save_file_changes\<close> keeps the \<open>File\<close> / \<open>CommitsFiles\<close> tables well
  formed: new files get fresh ids, links name stored files, and a file is linked to a
  commit at most once, so the \<open>CommitsFiles\<close> primary key is never violated.
\<close>

theorem save_file_changes_files_wf:
  assumes "files_wf s" and "save_file_changes cd cid s dv = Inr (s', x)"
  shows "files_wf s'"
proof -
  obtain acc where e: "save_files cid dv (gh_files cd)
      \<lparr>sfc_db = s, sfc_langs = [], sfc_chars = 0, sfc_added = 0, sfc_modified = 0,
       sfc_removed = 0, sfc_renamed = 0\<rparr> = Inr acc" and l: "file_links s' = file_links (sfc_db acc)"
    using save_file_changes_links [OF assms(2)] by blast
  have "files_wf (sfc_db acc)" using save_files_wf [OF e] assms(1) by simp
  then show ?thesis using files_wf_links [OF l] by simp
qed

theorem save_file_changes_files_wf_witness:
  "files_wf empty_db \<and>
   (\<exists>s' x. save_file_changes ex_feature_commit 1 empty_db 7 = Inr (s', x) \<and> files_wf s')"
proof -
  have h: "files_wf empty_db" by (simp add: files_wf_def empty_db_def)
  have "\<exists>s' x. save_file_changes ex_feature_commit 1 empty_db 7 = Inr (s', x)"
    by (simp add: save_file_changes_def save_file_step_def ex_feature_commit_def ex_gh_commit_def
        empty_db_def Let_def patch_chars_def get_file_def open_file_def new_file_id_def
        rename_file_def update_file_def set_owner_def link_file_def commit_has_file_def)
  then show ?thesis using save_file_changes_files_wf [OF h] h by blast
qed

end
