(* ===== verification/Anomaly.thy ===== *)
theory Anomaly
  imports Features
begin

text \<open>
  The feature vector of \<open>src/app/anomaly_detection.py\<close>: \<open>parse_commits\<close> turns a
  list of GitHub commit JSON objects into the 16 numbers the one-class SVM is trained
  and queried on. The author date (\<open>datetime.fromisoformat\<close>) is the commit's
  timestamp in seconds (\<open>gh_date\<close>); \<open>commit['stats']['total']\<close> is
  \<open>gh_total\<close>. The interval loop and \<open>get_mean_and_variance\<close> are the same code
  as in utils.py and are the definitions of \<open>Stats\<close>. The result is the one row of
  the \<open>np.asarray([(...)])\<close>, as a list of reals.
\<close>

section \<open>Definitions\<close>

text \<open>
  \<open>for line_change in file_changes: if line_change[0] == '+' or ...:
  changed_chars.append(len(line_change))\<close>: one length per changed line.
\<close>

fun line_lens :: "string list \<Rightarrow> nat list res" where
  "line_lens [] = Inr []"
| "line_lens (l # ls) =
     (case l of [] \<Rightarrow> Inl IndexError
      | c # _ \<Rightarrow> bindr (line_lens ls) (\<lambda>r.
                   Inr (if c = CHR ''+'' \<or> c = CHR ''-'' then length l # r else r)))"

definition patch_line_lens :: "gh_file \<Rightarrow> nat list res" where
  "patch_line_lens f =
     (case gh_patch f of None \<Rightarrow> Inr [] | Some p \<Rightarrow> line_lens (split_on (CHR 0x0A) p))"

text \<open>The per-file counters of \<open>parse_commits\<close> (\<open>if ... elif ... elif\<close>).\<close>

record pc_counts =
  pcn_added :: nat
  pcn_modified :: nat
  pcn_removed :: nat

definition status_step :: "pc_counts \<Rightarrow> gh_file \<Rightarrow> pc_counts" where
  "status_step n f =
     (if gh_status f = ''added'' then n\<lparr>pcn_added := Suc (pcn_added n)\<rparr>
      else if gh_status f = ''modified'' then n\<lparr>pcn_modified := Suc (pcn_modified n)\<rparr>
      else if gh_status f = ''removed'' then n\<lparr>pcn_removed := Suc (pcn_removed n)\<rparr>
      else n)"

text \<open>\<open>for file in commit['files']\<close>: the counters and the changed-line lengths.\<close>

fun parse_files :: "gh_file list \<Rightarrow> pc_counts \<Rightarrow> nat list \<Rightarrow> (pc_counts \<times> nat list) res" where
  "parse_files [] n chars = Inr (n, chars)"
| "parse_files (f # fs) n chars =
     bindr (patch_line_lens f) (\<lambda>ls. parse_files fs (status_step n f) (chars @ ls))"

text \<open>The seven lists of \<open>parse_commits\<close>.\<close>

record pc_acc =
  pa_chars :: "nat list"
  pa_lines :: "nat list"
  pa_msgs :: "nat list"
  pa_times :: "int list"
  pa_added :: "nat list"
  pa_modified :: "nat list"
  pa_removed :: "nat list"

text \<open>\<open>for commit in commits\<close>.\<close>

fun parse_loop :: "gh_commit list \<Rightarrow> pc_acc \<Rightarrow> pc_acc res" where
  "parse_loop [] a = Inr a"
| "parse_loop (c # cs) a =
     bindr (parse_files (gh_files c) \<lparr>pcn_added = 0, pcn_modified = 0, pcn_removed = 0\<rparr> (pa_chars a))
       (\<lambda>(n, chars). parse_loop cs
          \<lparr>pa_chars = chars, pa_lines = pa_lines a @ [gh_total c],
           pa_msgs = pa_msgs a @ [length (gh_message c)], pa_times = pa_times a @ [gh_date c],
           pa_added = pa_added a @ [pcn_added n], pa_modified = pa_modified a @ [pcn_modified n],
           pa_removed = pa_removed a @ [pcn_removed n]\<rparr>)"

definition parse_commits :: "gh_commit list \<Rightarrow> real list res" where
  "parse_commits commits =
     bindr (parse_loop commits \<lparr>pa_chars = [], pa_lines = [], pa_msgs = [], pa_times = [],
                                pa_added = [], pa_modified = [], pa_removed = []\<rparr>) (\<lambda>a.
       let (lines_mean, lines_var) = get_mean_and_variance (map real (pa_lines a));
           (changed_chars_mean, changed_chars_var) = get_mean_and_variance (map real (pa_chars a));
           (times_mean, times_variance) =
             get_mean_and_variance (map real_of_int (time_intervals (pa_times a)));
           (comments_size_mean, comments_size_var) = get_mean_and_variance (map real (pa_msgs a));
           (added_files_mean, added_files_var) = get_mean_and_variance (map real (pa_added a));
           (modified_files_mean, modified_files_var) = get_mean_and_variance (map real (pa_modified a));
           (removed_files_mean, removed_files_var) = get_mean_and_variance (map real (pa_removed a))
       in bindr (py_min (pa_lines a)) (\<lambda>lmin. bindr (py_max (pa_lines a)) (\<lambda>lmax.
            Inr [times_mean, real (length commits), changed_chars_mean, changed_chars_var,
                 lines_mean, lines_var, real lmin, real lmax, comments_size_mean, comments_size_var,
                 added_files_mean, added_files_var, modified_files_mean, modified_files_var,
                 removed_files_mean, removed_files_var])))"

text \<open>A file whose patch has an empty line; some file of some commit has one.\<close>

definition empty_patch_line :: "gh_file \<Rightarrow> bool" where
  "empty_patch_line f = (case gh_patch f of None \<Rightarrow> False | Some p \<Rightarrow> [] \<in> set (split_on (CHR 0x0A) p))"

definition has_empty_patch_line :: "gh_commit list \<Rightarrow> bool" where
  "has_empty_patch_line cs = list_ex (\<lambda>c. list_ex empty_patch_line (gh_files c)) cs"

text \<open>
  The reference the loops are measured against: a line counts as changed when it
  starts with \<open>+\<close> or \<open>-\<close>; the changed lines of a file's patch, of a
  commit's files, and the number of a commit's files with a given status.
\<close>

definition is_changed_line :: "string \<Rightarrow> bool" where
  "is_changed_line l = (case l of [] \<Rightarrow> False | c # _ \<Rightarrow> c = CHR ''+'' \<or> c = CHR ''-'')"

definition changed_line_lengths :: "gh_file \<Rightarrow> nat list" where
  "changed_line_lengths f =
     (case gh_patch f of None \<Rightarrow> []
      | Some p \<Rightarrow> map length (filter is_changed_line (split_on (CHR 0x0A) p)))"

definition commit_changed_lengths :: "gh_commit \<Rightarrow> nat list" where
  "commit_changed_lengths c = concat (map changed_line_lengths (gh_files c))"

definition status_count :: "string \<Rightarrow> gh_commit \<Rightarrow> nat" where
  "status_count st c = length (filter (\<lambda>f. gh_status f = st) (gh_files c))"

text \<open>A commit whose one file has an added line of 3 characters and a removed one of 2.\<close>

definition ex_patch_commit :: gh_commit where
  "ex_patch_commit = ex_gh_commit\<lparr>gh_total := 2, gh_files :=
     [\<lparr>gh_filename = ''a.py'', gh_status = ''modified'', gh_patch = Some ''+ab\<newline>-c\<newline> x'',
       gh_previous_filename = None\<rparr>]\<rparr>"

section \<open>Lemmas\<close>

lemma line_lens_Inl: "line_lens ls = Inl e \<longleftrightarrow> [] \<in> set ls \<and> e = IndexError"
proof (induction ls)
  case (Cons l ls) then show ?case by (cases l) (auto simp: bindr_eq_Inl_iff)
qed simp

lemma line_lens_Inr: "[] \<notin> set ls \<Longrightarrow> \<exists>r. line_lens ls = Inr r"
  using line_lens_Inl [of ls] by (cases "line_lens ls") auto

lemma patch_line_lens_cases:
  "(patch_line_lens f = Inl e \<longleftrightarrow> empty_patch_line f \<and> e = IndexError) \<and>
   (\<not> empty_patch_line f \<longrightarrow> (\<exists>r. patch_line_lens f = Inr r))"
  using line_lens_Inl line_lens_Inr
  by (auto simp: patch_line_lens_def empty_patch_line_def split: option.splits)

lemma parse_files_Inl:
  "parse_files fs n ch = Inl e \<longleftrightarrow> list_ex empty_patch_line fs \<and> e = IndexError"
proof (induction fs arbitrary: n ch)
  case (Cons f fs)
  show ?case
  proof (cases "empty_patch_line f")
    case True then show ?thesis using patch_line_lens_cases [of f IndexError] by auto
  next
    case False
    then obtain r where "patch_line_lens f = Inr r" using patch_line_lens_cases [of f] by blast
    then show ?thesis using Cons.IH False by simp
  qed
qed simp

lemma parse_loop_Inl: "parse_loop cs a = Inl e \<longleftrightarrow> has_empty_patch_line cs \<and> e = IndexError"
proof (induction cs arbitrary: a)
  case (Cons c cs)
  show ?case
  proof (cases "parse_files (gh_files c) \<lparr>pcn_added = 0, pcn_modified = 0, pcn_removed = 0\<rparr> (pa_chars a)")
    case (Inl e')
    then show ?thesis using parse_files_Inl [of "gh_files c" _ _ e'] by (auto simp: has_empty_patch_line_def)
  next
    case (Inr r)
    then have "\<not> list_ex empty_patch_line (gh_files c)"
      using parse_files_Inl [of "gh_files c" "\<lparr>pcn_added = 0, pcn_modified = 0, pcn_removed = 0\<rparr>"
          "pa_chars a" IndexError] by auto
    then show ?thesis using Inr Cons.IH by (auto simp: has_empty_patch_line_def case_prod_unfold)
  qed
qed (simp add: has_empty_patch_line_def)

lemma parse_loop_lines:
  "parse_loop cs a = Inr a' \<Longrightarrow> pa_lines a' = pa_lines a @ map gh_total cs"
  by (induction cs arbitrary: a) (auto simp: bindr_eq_Inr_iff case_prod_unfold)

lemma line_lens_ok:
  "[] \<notin> set ls \<Longrightarrow> line_lens ls = Inr (map length (filter is_changed_line ls))"
proof (induction ls)
  case (Cons l ls) then show ?case by (cases l) (simp_all add: is_changed_line_def)
qed simp

lemma line_chars_ok:
  "[] \<notin> set ls \<Longrightarrow> line_chars ls acc = Inr (acc + sum_list (map length (filter is_changed_line ls)))"
proof (induction ls arbitrary: acc)
  case (Cons l ls) then show ?case by (cases l) (simp_all add: is_changed_line_def)
qed simp

lemma patch_line_lens_ok:
  "\<not> empty_patch_line f \<Longrightarrow> patch_line_lens f = Inr (changed_line_lengths f)"
  by (simp add: patch_line_lens_def empty_patch_line_def changed_line_lengths_def line_lens_ok
      split: option.splits)

lemma patch_chars_ok:
  assumes "patch_chars f acc = Inr n"
  shows "n = acc + sum_list (changed_line_lengths f)"
proof (cases "gh_patch f")
  case None
  with assms show ?thesis by (simp add: patch_chars_def changed_line_lengths_def)
next
  case (Some p)
  with assms have e: "line_chars (split_on (CHR 0x0A) p) acc = Inr n" by (simp add: patch_chars_def)
  show ?thesis using line_chars_ok [OF line_chars_Inr [OF e]] e Some by (simp add: changed_line_lengths_def)
qed

lemma save_files_chars:
  "save_files cid dv fs acc = Inr acc' \<Longrightarrow>
   sfc_chars acc' = sfc_chars acc + sum_list (concat (map changed_line_lengths fs))"
proof (induction fs arbitrary: acc)
  case (Cons f fs)
  then obtain a where a: "save_file_step cid dv acc f = Inr a" and r: "save_files cid dv fs a = Inr acc'"
    by (auto simp: bindr_eq_Inr_iff)
  have "sfc_chars a = sfc_chars acc + sum_list (changed_line_lengths f)"
    using save_file_step_Inr [OF a] patch_chars_ok by blast
  then show ?case using Cons.IH [OF r] by simp
qed simp

lemma parse_files_ok:
  "\<not> list_ex empty_patch_line fs \<Longrightarrow>
   parse_files fs n ch =
     Inr (\<lparr>pcn_added = pcn_added n + length (filter (\<lambda>f. gh_status f = ''added'') fs),
           pcn_modified = pcn_modified n + length (filter (\<lambda>f. gh_status f = ''modified'') fs),
           pcn_removed = pcn_removed n + length (filter (\<lambda>f. gh_status f = ''removed'') fs)\<rparr>,
          ch @ concat (map changed_line_lengths fs))"
proof (induction fs arbitrary: n ch)
  case (Cons f fs)
  then show ?case by (simp add: patch_line_lens_ok status_step_def)
qed simp

lemma parse_loop_ok:
  "\<not> has_empty_patch_line cs \<Longrightarrow>
   parse_loop cs a =
     Inr \<lparr>pa_chars = pa_chars a @ concat (map commit_changed_lengths cs),
          pa_lines = pa_lines a @ map gh_total cs,
          pa_msgs = pa_msgs a @ map (\<lambda>c. length (gh_message c)) cs,
          pa_times = pa_times a @ map gh_date cs,
          pa_added = pa_added a @ map (status_count ''added'') cs,
          pa_modified = pa_modified a @ map (status_count ''modified'') cs,
          pa_removed = pa_removed a @ map (status_count ''removed'') cs\<rparr>"
proof (induction cs arbitrary: a)
  case (Cons c cs)
  then show ?case
    by (simp add: has_empty_patch_line_def parse_files_ok commit_changed_lengths_def status_count_def)
qed simp

lemma real_Min_set: "xs \<noteq> [] \<Longrightarrow> real (Min (set xs)) = Min (set (map real xs))"
  by (simp add: mono_Min_commute [symmetric] mono_def)

lemma real_Max_set: "xs \<noteq> [] \<Longrightarrow> real (Max (set xs)) = Max (set (map real xs))"
  by (simp add: mono_Max_commute [symmetric] mono_def)

lemma parse_commits_Inr:
  assumes "parse_commits cs = Inr v"
  obtains a where "parse_loop cs \<lparr>pa_chars = [], pa_lines = [], pa_msgs = [], pa_times = [],
                                pa_added = [], pa_modified = [], pa_removed = []\<rparr> = Inr a"
    and "pa_lines a \<noteq> []"
    and "v = [fst (get_mean_and_variance (map real_of_int (time_intervals (pa_times a)))), real (length cs),
              fst (get_mean_and_variance (map real (pa_chars a))), snd (get_mean_and_variance (map real (pa_chars a))),
              fst (get_mean_and_variance (map real (pa_lines a))), snd (get_mean_and_variance (map real (pa_lines a))),
              real (Min (set (pa_lines a))), real (Max (set (pa_lines a))),
              fst (get_mean_and_variance (map real (pa_msgs a))), snd (get_mean_and_variance (map real (pa_msgs a))),
              fst (get_mean_and_variance (map real (pa_added a))), snd (get_mean_and_variance (map real (pa_added a))),
              fst (get_mean_and_variance (map real (pa_modified a))), snd (get_mean_and_variance (map real (pa_modified a))),
              fst (get_mean_and_variance (map real (pa_removed a))), snd (get_mean_and_variance (map real (pa_removed a)))]"
proof -
  obtain a where a: "parse_loop cs \<lparr>pa_chars = [], pa_lines = [], pa_msgs = [], pa_times = [],
                                pa_added = [], pa_modified = [], pa_removed = []\<rparr> = Inr a"
    and r: "(let (lines_mean, lines_var) = get_mean_and_variance (map real (pa_lines a));
           (changed_chars_mean, changed_chars_var) = get_mean_and_variance (map real (pa_chars a));
           (times_mean, times_variance) =
             get_mean_and_variance (map real_of_int (time_intervals (pa_times a)));
           (comments_size_mean, comments_size_var) = get_mean_and_variance (map real (pa_msgs a));
           (added_files_mean, added_files_var) = get_mean_and_variance (map real (pa_added a));
           (modified_files_mean, modified_files_var) = get_mean_and_variance (map real (pa_modified a));
           (removed_files_mean, removed_files_var) = get_mean_and_variance (map real (pa_removed a))
       in bindr (py_min (pa_lines a)) (\<lambda>lmin. bindr (py_max (pa_lines a)) (\<lambda>lmax.
            Inr [times_mean, real (length cs), changed_chars_mean, changed_chars_var,
                 lines_mean, lines_var, real lmin, real lmax, comments_size_mean, comments_size_var,
                 added_files_mean, added_files_var, modified_files_mean, modified_files_var,
                 removed_files_mean, removed_files_var]))) = Inr v"
    using assms by (auto simp: parse_commits_def bindr_eq_Inr_iff)
  have ne: "pa_lines a \<noteq> []" using r by (auto simp: Let_def case_prod_unfold)
  show ?thesis
    using that [OF a ne] r ne by (simp add: Let_def case_prod_unfold py_min_Min py_max_Max del: py_min.simps py_max.simps)
qed

lemma parse_commits_ok:
  assumes "\<not> has_empty_patch_line cs" and "cs \<noteq> []"
  shows "parse_commits cs = Inr
     [fst (get_mean_and_variance (map real_of_int (time_intervals (map gh_date cs)))), real (length cs),
      fst (get_mean_and_variance (map real (concat (map commit_changed_lengths cs)))),
      snd (get_mean_and_variance (map real (concat (map commit_changed_lengths cs)))),
      fst (get_mean_and_variance (map (\<lambda>c. real (gh_total c)) cs)),
      snd (get_mean_and_variance (map (\<lambda>c. real (gh_total c)) cs)),
      real (Min (set (map gh_total cs))), real (Max (set (map gh_total cs))),
      fst (get_mean_and_variance (map (\<lambda>c. real (length (gh_message c))) cs)),
      snd (get_mean_and_variance (map (\<lambda>c. real (length (gh_message c))) cs)),
      fst (get_mean_and_variance (map (\<lambda>c. real (status_count ''added'' c)) cs)),
      snd (get_mean_and_variance (map (\<lambda>c. real (status_count ''added'' c)) cs)),
      fst (get_mean_and_variance (map (\<lambda>c. real (status_count ''modified'' c)) cs)),
      snd (get_mean_and_variance (map (\<lambda>c. real (status_count ''modified'' c)) cs)),
      fst (get_mean_and_variance (map (\<lambda>c. real (status_count ''removed'' c)) cs)),
      snd (get_mean_and_variance (map (\<lambda>c. real (status_count ''removed'' c)) cs))]"
  using assms
  by (simp add: parse_commits_def parse_loop_ok Let_def case_prod_unfold py_min_Min py_max_Max comp_def
      del: py_min.simps py_max.simps)

lemma mean_times_length:
  "fst (get_mean_and_variance (map real xs)) * real (length xs) = real (sum_list xs)"
  by (simp add: get_mean_and_variance_def sum_list_of_nat)

lemma parse_ex_patch_commit:
  "parse_commits [ex_patch_commit] = Inr [0, 1, 5/2, 1/2, 2, 0, 2, 2, 0, 0, 0, 0, 1, 0, 0, 0]"
    by (simp add: parse_commits_def ex_patch_commit_def ex_gh_commit_def patch_line_lens_def status_step_def
        get_mean_and_variance_def sample_variance_def time_intervals_def Let_def power2_eq_square)

lemma parse_commits_errors_iff:
  "parse_commits cs = Inl e \<longleftrightarrow>
     (has_empty_patch_line cs \<and> e = IndexError) \<or>
     (\<not> has_empty_patch_line cs \<and> cs = [] \<and> e = ValueError)"
proof (cases "parse_loop cs \<lparr>pa_chars = [], pa_lines = [], pa_msgs = [], pa_times = [],
                                pa_added = [], pa_modified = [], pa_removed = []\<rparr>")
  case (Inl e')
  then show ?thesis using parse_loop_Inl [of cs _ e'] parse_loop_Inl [of cs _ e]
    by (auto simp: parse_commits_def)
next
  case (Inr a)
  then have nh: "\<not> has_empty_patch_line cs" using parse_loop_Inl [of cs _ IndexError] by auto
  have "pa_lines a = map gh_total cs" using parse_loop_lines [OF Inr] by simp
  then show ?thesis using Inr nh
    by (cases cs) (auto simp: parse_commits_def Let_def case_prod_unfold)
qed

section \<open>Properties\<close>

text \<open>
  C35: for a non-empty list of commits whose patches have no empty line,
  \<open>parse_commits\<close> returns, and its 16 features are, in this order: the mean
  interval between consecutive author dates, the number of commits, mean and
  variance of the lengths of all changed patch lines, mean and variance, minimum and
  maximum of \<open>stats.total\<close>, mean and variance of the message lengths, and mean
  and variance of the numbers of added, modified and removed files per commit.
\<close>

theorem parse_commits_features:
  assumes "\<not> has_empty_patch_line cs" and "cs \<noteq> []"
  shows "parse_commits cs = Inr
     [fst (get_mean_and_variance (map real_of_int (time_intervals (map gh_date cs)))), real (length cs),
      fst (get_mean_and_variance (map real (concat (map commit_changed_lengths cs)))),
      snd (get_mean_and_variance (map real (concat (map commit_changed_lengths cs)))),
      fst (get_mean_and_variance (map (\<lambda>c. real (gh_total c)) cs)),
      snd (get_mean_and_variance (map (\<lambda>c. real (gh_total c)) cs)),
      real (Min (set (map gh_total cs))), real (Max (set (map gh_total cs))),
      fst (get_mean_and_variance (map (\<lambda>c. real (length (gh_message c))) cs)),
      snd (get_mean_and_variance (map (\<lambda>c. real (length (gh_message c))) cs)),
      fst (get_mean_and_variance (map (\<lambda>c. real (status_count ''added'' c)) cs)),
      snd (get_mean_and_variance (map (\<lambda>c. real (status_count ''added'' c)) cs)),
      fst (get_mean_and_variance (map (\<lambda>c. real (status_count ''modified'' c)) cs)),
      snd (get_mean_and_variance (map (\<lambda>c. real (status_count ''modified'' c)) cs)),
      fst (get_mean_and_variance (map (\<lambda>c. real (status_count ''removed'' c)) cs)),
      snd (get_mean_and_variance (map (\<lambda>c. real (status_count ''removed'' c)) cs))]"
  using assms by (rule parse_commits_ok)

theorem parse_commits_features_witness:
  "\<not> has_empty_patch_line [ex_patch_commit] \<and> [ex_patch_commit] \<noteq> [] \<and>
   parse_commits [ex_patch_commit] = Inr [0, 1, 5/2, 1/2, 2, 0, 2, 2, 0, 0, 0, 0, 1, 0, 0, 0]"
proof -
  have h: "\<not> has_empty_patch_line [ex_patch_commit]"
    by (simp add: has_empty_patch_line_def empty_patch_line_def ex_patch_commit_def)
  have "parse_commits [ex_patch_commit] = Inr [0, 1, 5/2, 1/2, 2, 0, 2, 2, 0, 0, 0, 0, 1, 0, 0, 0]"
    using parse_commits_features [OF h]
    by (simp add: ex_patch_commit_def ex_gh_commit_def commit_changed_lengths_def changed_line_lengths_def
        is_changed_line_def status_count_def get_mean_and_variance_def sample_variance_def time_intervals_def
        power2_eq_square)
  then show ?thesis using h by simp
qed

text \<open>
  C36: \<open>parse_commits\<close> raises exactly in two cases: \<open>IndexError\<close> when some
  patch has an empty line, and otherwise \<open>ValueError\<close> (\<open>min([])\<close>) on an empty
  list of commits.
\<close>

theorem parse_commits_errors:
  "parse_commits cs = Inl e \<longleftrightarrow>
     (has_empty_patch_line cs \<and> e = IndexError) \<or>
     (\<not> has_empty_patch_line cs \<and> cs = [] \<and> e = ValueError)"
  by (rule parse_commits_errors_iff)

theorem parse_commits_errors_witness:
  "parse_commits [] = Inl ValueError \<and> \<not> has_empty_patch_line [] \<and>
   parse_commits [ex_gh_commit\<lparr>gh_files := [\<lparr>gh_filename = ''a'', gh_status = ''added'',
       gh_patch = Some ''+x\<newline>'', gh_previous_filename = None\<rparr>]\<rparr>] = Inl IndexError"
proof -
  let ?c = "ex_gh_commit\<lparr>gh_files := [\<lparr>gh_filename = ''a'', gh_status = ''added'',
       gh_patch = Some ''+x\<newline>'', gh_previous_filename = None\<rparr>]\<rparr>"
  have h: "\<not> has_empty_patch_line []" by (simp add: has_empty_patch_line_def)
  have h2: "has_empty_patch_line [?c]" by (simp add: has_empty_patch_line_def empty_patch_line_def)
  show ?thesis using parse_commits_errors [of "[]" ValueError] parse_commits_errors [of "[?c]" IndexError] h h2
    by simp
qed

text \<open>
  C37: in every feature vector the mean of the changed lines lies between their
  minimum and maximum (entries 6, 4, 7), and all six variances are non-negative.
\<close>

theorem parse_commits_bounds:
  assumes "parse_commits cs = Inr v"
  shows "v ! 6 \<le> v ! 4 \<and> v ! 4 \<le> v ! 7 \<and>
         0 \<le> v ! 3 \<and> 0 \<le> v ! 5 \<and> 0 \<le> v ! 9 \<and> 0 \<le> v ! 11 \<and> 0 \<le> v ! 13 \<and> 0 \<le> v ! 15"
proof -
  obtain a where "parse_loop cs \<lparr>pa_chars = [], pa_lines = [], pa_msgs = [], pa_times = [],
                                pa_added = [], pa_modified = [], pa_removed = []\<rparr> = Inr a"
    and ne: "pa_lines a \<noteq> []"
    and v: "v = [fst (get_mean_and_variance (map real_of_int (time_intervals (pa_times a)))), real (length cs),
              fst (get_mean_and_variance (map real (pa_chars a))), snd (get_mean_and_variance (map real (pa_chars a))),
              fst (get_mean_and_variance (map real (pa_lines a))), snd (get_mean_and_variance (map real (pa_lines a))),
              real (Min (set (pa_lines a))), real (Max (set (pa_lines a))),
              fst (get_mean_and_variance (map real (pa_msgs a))), snd (get_mean_and_variance (map real (pa_msgs a))),
              fst (get_mean_and_variance (map real (pa_added a))), snd (get_mean_and_variance (map real (pa_added a))),
              fst (get_mean_and_variance (map real (pa_modified a))), snd (get_mean_and_variance (map real (pa_modified a))),
              fst (get_mean_and_variance (map real (pa_removed a))), snd (get_mean_and_variance (map real (pa_removed a)))]"
    by (rule parse_commits_Inr [OF assms])
  let ?xs = "map real (pa_lines a)"
  have "?xs \<noteq> []" using ne by simp
  then have m: "Min (set ?xs) \<le> fst (get_mean_and_variance ?xs) \<and> fst (get_mean_and_variance ?xs) \<le> Max (set ?xs)"
    using mean_between [of ?xs] by (simp add: get_mean_and_variance_def)
  have var: "0 \<le> snd (get_mean_and_variance xs)" for xs
    by (simp add: get_mean_and_variance_def sample_variance_nonneg)
  show ?thesis using m var unfolding v by (simp add: real_Min_set [OF ne] real_Max_set [OF ne])
qed

theorem parse_commits_bounds_witness:
  "parse_commits [ex_patch_commit] = Inr [0, 1, 5/2, 1/2, 2, 0, 2, 2, 0, 0, 0, 0, 1, 0, 0, 0] \<and>
   [0, 1, 5/2, 1/2, 2, 0, 2, 2, 0, 0, 0, 0, 1, 0, 0, 0] ! 6 \<le> ([0, 1, 5/2, 1/2, 2, 0, 2, 2, 0, 0, 0, 0, 1, 0, 0, 0] ! 4 :: real)"
  using parse_commits_bounds [OF parse_ex_patch_commit] parse_ex_patch_commit by blast

text \<open>
  C38: the \<open>changed_chars\<close> feature differs between the two pipelines. For any
  commit that \<open>save_file_changes\<close> stores, \<open>parse_commits\<close> of that commit
  alone returns, and its \<open>changed_chars\<close> mean is the mean length of a changed
  line: multiplied by the number of changed lines it gives the per-commit total that
  \<open>save_file_changes\<close> stores (and \<open>daily_commit_stats\<close> then averages per
  commit). With more than one changed line the two differ.
\<close>

theorem changed_chars_per_line_vs_per_commit:
  assumes "save_file_changes c cid s dv = Inr (s', ch, x)"
  shows "\<exists>v. parse_commits [c] = Inr v \<and>
           v ! 2 * real (length (commit_changed_lengths c)) = real ch \<and>
           (1 < length (commit_changed_lengths c) \<and> 0 < ch \<longrightarrow> v ! 2 < real ch)"
proof -
  obtain acc where e: "save_files cid dv (gh_files c)
      \<lparr>sfc_db = s, sfc_langs = [], sfc_chars = 0, sfc_added = 0, sfc_modified = 0,
       sfc_removed = 0, sfc_renamed = 0\<rparr> = Inr acc" and ch: "ch = sfc_chars acc"
    using assms by (auto simp: save_file_changes_def bindr_eq_Inr_iff Let_def)
  have sum: "ch = sum_list (commit_changed_lengths c)"
    using save_files_chars [OF e] ch by (simp add: commit_changed_lengths_def)
  have "\<not> has_empty_patch_line [c]"
    using save_files_Inr [OF e]
    by (auto simp: has_empty_patch_line_def empty_patch_line_def list_ex_iff split: option.splits)
  then obtain v where pv: "parse_commits [c] = Inr v"
    and v2: "v ! 2 = fst (get_mean_and_variance (map real (commit_changed_lengths c)))"
    using parse_commits_ok [of "[c]"] by simp
  let ?n = "length (commit_changed_lengths c)"
  have m: "v ! 2 * real ?n = real ch"
    using v2 sum mean_times_length [of "commit_changed_lengths c"] by simp
  have "v ! 2 < real ch" if n: "1 < ?n" and p: "0 < ch"
  proof -
    have "real ?n \<noteq> 0" using n by (simp only: of_nat_eq_0_iff)
    then have "v ! 2 = real ch / real ?n" using m by (metis nonzero_mult_div_cancel_right)
    then show ?thesis using n p by (simp add: divide_less_eq)
  qed
  then show ?thesis using pv m by blast
qed

theorem changed_chars_per_line_vs_per_commit_witness:
  "(\<exists>s' x. save_file_changes ex_patch_commit 1 empty_db 7 = Inr (s', 5, x)) \<and>
   length (commit_changed_lengths ex_patch_commit) = 2 \<and>
   parse_commits [ex_patch_commit] = Inr [0, 1, 5/2, 1/2, 2, 0, 2, 2, 0, 0, 0, 0, 1, 0, 0, 0] \<and>
   (5 / 2 :: real) * 2 = 5 \<and> (5 / 2 :: real) < 5"
proof -
  have "\<exists>s' x. save_file_changes ex_patch_commit 1 empty_db 7 = Inr (s', 5, x)"
    by (simp add: save_file_changes_def save_file_step_def ex_patch_commit_def ex_gh_commit_def
        empty_db_def Let_def patch_chars_def get_file_def open_file_def new_file_id_def
        set_owner_def update_file_def link_file_def commit_has_file_def)
  then obtain s' x where e: "save_file_changes ex_patch_commit 1 empty_db 7 = Inr (s', 5, x)" by blast
  have l: "length (commit_changed_lengths ex_patch_commit) = 2"
    by (simp add: commit_changed_lengths_def changed_line_lengths_def is_changed_line_def
        ex_patch_commit_def ex_gh_commit_def)
  obtain v where "parse_commits [ex_patch_commit] = Inr v" and "v ! 2 * 2 = 5" and "v ! 2 < 5"
    using changed_chars_per_line_vs_per_commit [OF e] l by auto
  then have "(5 / 2 :: real) * 2 = 5 \<and> (5 / 2 :: real) < 5" using parse_ex_patch_commit by simp
  moreover from e have "\<exists>s' x. save_file_changes ex_patch_commit 1 empty_db 7 = Inr (s', 5, x)" by blast
  ultimately show ?thesis using parse_ex_patch_commit l by blast
qed

end
