(* ===== verification/Classifier.thy ===== *)
theory Classifier
  imports Anomaly "HOL-Library.Product_Lexorder"
begin

text \<open>
  The parts of the anomaly classifier of \<open>src/app/anomaly_detection.py\<close> that are
  program code rather than scikit-learn: the training rows that
  \<open>get_dev_commits_stats\<close> reads from \<open>CommitsStats\<close> (before \<open>MinMaxScaler\<close>),
  the split of those rows into a training and a prediction half (\<open>split_array\<close>,
  repeated inline in \<open>divide_train_predict\<close>), the eight SVM runs of
  \<open>divide_train_predict\<close>, the series plotted by \<open>create_graph_commits\<close>, the
  experiment script's loop that classifies each forged commit alone
  (\<open>predict_forged\<close>), and the rates that \<open>model\<close> and the script print from
  the predictions (\<open>1\<close> an inlier, \<open>-1\<close> an anomaly). The fitted SVM (\<open>svm\<close>,
  from kernel, gamma, nu and the two row sets to the labels) and the scaler are
  parameters: they, and \<open>f1_score\<close>, are library code.
\<close>

section \<open>Definitions\<close>

text \<open>\<open>np.split(data, 2)\<close>: two equal halves, \<open>ValueError\<close> when they cannot be equal.\<close>

definition np_split2 :: "'a list \<Rightarrow> 'a list list res" where
  "np_split2 data =
     (if even (length data) then Inr [take (length data div 2) data, drop (length data div 2) data]
      else Inl ValueError)"

text \<open>
  \<open>split_array\<close>: the \<open>except ValueError\<close> branch takes \<open>data[:index]\<close> and
  \<open>data[index:-1]\<close>; three rows or fewer are used for both halves.
\<close>

definition split_array :: "'a list \<Rightarrow> 'a list list res" where
  "split_array data =
     (if 3 < length data then
        (case np_split2 data of
           Inr r \<Rightarrow> Inr r
         | Inl e \<Rightarrow> if e = ValueError
                    then (let index = length data div 2 in Inr [take index data, butlast (drop index data)])
                    else Inl e)
      else Inr [data, data])"

text \<open>SQLite's \<open>round(x, n)\<close>: half away from zero.\<close>

definition sql_round :: "real \<Rightarrow> nat \<Rightarrow> real" where
  "sql_round x n = (let p = 10 ^ n in sgn x * of_int \<lfloor>\<bar>x\<bar> * p + 1/2\<rfloor> / p)"

text \<open>One row of the query of \<open>get_dev_commits_stats\<close>, column by column.\<close>

definition training_row :: "commits_stats \<Rightarrow> real list" where
  "training_row c =
     [sql_round (time_intervals_mean c) 4, real (number_commits c),
      sql_round (changed_chars_mean c) 0, sql_round (changed_chars_var c) 0,
      sql_round (changed_lines_mean c) 0, sql_round (changed_lines_var c) 0,
      sql_round (real (changed_lines_min c)) 0, sql_round (real (changed_lines_max c)) 0,
      sql_round (comments_size_mean c) 0, sql_round (comments_size_var c) 0,
      sql_round (added_files_mean c) 0, sql_round (commits_stats.added_files_var c) 0,
      sql_round (modified_files_mean c) 0, sql_round (commits_stats.modified_files_var c) 0,
      sql_round (removed_files_mean c) 0, sql_round (commits_stats.removed_files_var c) 0]"

text \<open>\<open>ORDER BY CommitsStats.date\<close>: SQLite sorts \<open>NULL\<close> first.\<close>

definition date_key :: "int option \<Rightarrow> bool \<times> int" where
  "date_key d = (case d of None \<Rightarrow> (False, 0) | Some x \<Rightarrow> (True, x))"

text \<open>\<open>query(CommitsStats...).join(Developer).filter(Developer.username == u).order_by(CommitsStats.date)\<close>.\<close>

definition user_stats :: "db \<Rightarrow> string \<Rightarrow> commits_stats list" where
  "user_stats s u =
     sort_key (\<lambda>c. date_key (date c))
       [c. c \<leftarrow> commits_stats_table s, d \<leftarrow> devs_named s u, cs_developer_id c = dev_id d]"

definition dev_commits_stats_rows :: "db \<Rightarrow> string \<Rightarrow> real list list" where
  "dev_commits_stats_rows s u = map training_row (user_stats s u)"

text \<open>
  The six series \<open>create_graph_commits\<close> collects before plotting: dates, commits,
  changed-lines means and the three file means, in the order of the query.
\<close>

definition graph_series ::
  "db \<Rightarrow> string \<Rightarrow> int option list \<times> nat list \<times> real list \<times> real list \<times> real list \<times> real list" where
  "graph_series s u =
     (let stats = user_stats s u
      in (map date stats, map number_commits stats, map changed_lines_mean stats,
          map added_files_mean stats, map modified_files_mean stats, map removed_files_mean stats))"

text \<open>\<open>len(where(predict == v)[0])\<close>.\<close>

definition count_label :: "int list \<Rightarrow> int \<Rightarrow> nat" where
  "count_label predict v = length (filter (\<lambda>p. p = v) predict)"

text \<open>\<open>model\<close>: the accuracy and false-positive rate over a prediction set of genuine rows.\<close>

definition model_rates :: "int list \<Rightarrow> (real \<times> real) res" where
  "model_rates predict =
     bindr (py_div (real (count_label predict 1)) (real (length predict))) (\<lambda>acc.
     bindr (py_div (real (count_label predict (-1))) (real (length predict))) (\<lambda>fpr.
       Inr (acc * 100, fpr * 100)))"

text \<open>
  \<open>model(train, predict, kernel, gamma, nu)\<close>: the fitted SVM's labels for the
  prediction rows are the parameter \<open>svm kernel gamma nu train predict\<close>; the rates
  are then \<open>model_rates\<close>. The printed F1 score is library code.
\<close>

type_synonym svm = "string \<Rightarrow> string \<Rightarrow> real \<Rightarrow> real list list \<Rightarrow> real list list \<Rightarrow> int list"

definition model :: "svm \<Rightarrow> real list list \<Rightarrow> real list list \<Rightarrow> string \<Rightarrow> string \<Rightarrow> real \<Rightarrow> (real \<times> real) res" where
  "model clf train predict kn gm nu = model_rates (clf kn gm nu train predict)"

text \<open>The eight \<open>(kernel, gamma, nu)\<close> runs of \<open>divide_train_predict\<close>, in order.\<close>

definition svm_configs :: "(string \<times> string \<times> real) list" where
  "svm_configs =
     [(''rbf'', ''auto'', 1/10), (''poly'', ''auto'', 1/10), (''sigmoid'', ''auto'', 1/10),
      (''linear'', ''auto'', 1/10), (''rbf'', ''scale'', 1/10), (''poly'', ''scale'', 1/10),
      (''sigmoid'', ''scale'', 1/10), (''linear'', ''scale'', 1/5)]"

fun run_models ::
  "svm \<Rightarrow> real list list \<Rightarrow> real list list \<Rightarrow> (string \<times> string \<times> real) list \<Rightarrow> (real \<times> real) list res" where
  "run_models clf train predict [] = Inr []"
| "run_models clf train predict ((k, g, n) # cfgs) =
     bindr (model clf train predict k g n) (\<lambda>r.
     bindr (run_models clf train predict cfgs) (\<lambda>rs. Inr (r # rs)))"

text \<open>
  \<open>divide_train_predict(username)\<close>: the scaled training rows (\<open>MinMaxScaler\<close>
  is the parameter \<open>scale\<close>), split as \<open>split_array\<close> splits (the function body
  repeats that code inline), and the eight runs of \<open>model\<close> on the two halves.
\<close>

definition divide_train_predict ::
  "svm \<Rightarrow> (real list list \<Rightarrow> real list list) \<Rightarrow> db \<Rightarrow> string \<Rightarrow> (real \<times> real) list res" where
  "divide_train_predict clf scale s u =
     (let dev_stats = scale (dev_commits_stats_rows s u)
      in bindr (split_array dev_stats) (\<lambda>split_stats.
           run_models clf (split_stats ! 0) (split_stats ! 1) svm_configs))"

text \<open>
  The experiment script's loop over the forged commits: each one is parsed alone,
  \<open>parse_commits([forged_commit])\<close>, and classified by the trained SVM behind the
  scaler (the parameter \<open>clf\<close>, a label for a feature vector).
\<close>

fun predict_forged :: "(real list \<Rightarrow> int) \<Rightarrow> gh_commit list \<Rightarrow> int list res" where
  "predict_forged clf [] = Inr []"
| "predict_forged clf (c # cs) =
     bindr (parse_commits [c]) (\<lambda>v. bindr (predict_forged clf cs) (\<lambda>ps. Inr (clf v # ps)))"

text \<open>The experiment script: the rates over the forged commits, divided by a fixed 500.\<close>

definition script_rates :: "int list \<Rightarrow> real \<times> real" where
  "script_rates predict =
     (real (count_label predict (-1)) / 500 * 100, real (count_label predict 1) / 500 * 100)"

definition experiment_rates :: "(real list \<Rightarrow> int) \<Rightarrow> gh_commit list \<Rightarrow> (real \<times> real) res" where
  "experiment_rates clf forged = bindr (predict_forged clf forged) (\<lambda>predict. Inr (script_rates predict))"

text \<open>The shape of a feature vector of a single commit.\<close>

definition single_commit_vector :: "real list \<Rightarrow> bool" where
  "single_commit_vector v \<longleftrightarrow> length v = 16 \<and> v ! 0 = 0 \<and> v ! 1 = 1 \<and> v ! 5 = 0 \<and>
     v ! 6 = v ! 4 \<and> v ! 7 = v ! 4 \<and> v ! 9 = 0 \<and> v ! 11 = 0 \<and> v ! 13 = 0 \<and> v ! 15 = 0"

section \<open>Lemmas\<close>

lemma training_row_length: "length (training_row c) = 16"
  by (simp add: training_row_def)

lemma sql_round_of_nat [simp]: "sql_round (real k) 0 = real k"
  by (cases "k = 0") (simp_all add: sql_round_def)

lemma count_label_pm1:
  "set predict \<subseteq> {1, -1} \<Longrightarrow> count_label predict 1 + count_label predict (-1) = length predict"
  by (induction predict) (auto simp: count_label_def)

lemma model_rates_sum:
  assumes "set predict \<subseteq> {1, -1}" and "predict \<noteq> []"
  shows "\<exists>acc fpr. model_rates predict = Inr (acc, fpr) \<and> acc + fpr = 100"
proof -
  have n: "real (length predict) \<noteq> 0" using assms(2) by simp
  have "real (count_label predict 1) + real (count_label predict (-1)) = real (length predict)"
    using count_label_pm1 [OF assms(1)] by (metis of_nat_add)
  then have "real (count_label predict 1) / real (length predict) * 100 +
      real (count_label predict (-1)) / real (length predict) * 100 = 100"
    using n by (simp add: add_divide_distrib [symmetric] distrib_right [symmetric])
  then show ?thesis using n by (simp add: model_rates_def)
qed

lemma model_rates_empty: "model_rates [] = Inl ZeroDivisionError"
  by (simp add: model_rates_def)

lemma script_rates_sum:
  "set predict \<subseteq> {1, -1} \<Longrightarrow> fst (script_rates predict) + snd (script_rates predict) = real (length predict) / 5"
  using count_label_pm1 [of predict] by (simp add: script_rates_def field_simps)

lemma take_butlast_drop: "i < length xs \<Longrightarrow> take i xs @ butlast (drop i xs) = butlast xs"
  by (metis append_take_drop_id butlast_append drop_eq_Nil not_le)

lemma get_mean_and_variance_single [simp]: "get_mean_and_variance [x] = (x, 0)"
  by (simp add: get_mean_and_variance_def)

lemma parse_loop_single:
  assumes "parse_loop [c] a = Inr a'" and "pa_lines a = []" and "pa_msgs a = []" and "pa_times a = []"
    and "pa_added a = []" and "pa_modified a = []" and "pa_removed a = []"
  shows "pa_lines a' = [gh_total c] \<and> pa_times a' = [gh_date c] \<and> pa_msgs a' = [length (gh_message c)] \<and>
    length (pa_added a') = 1 \<and> length (pa_modified a') = 1 \<and> length (pa_removed a') = 1"
  using assms by (auto simp: bindr_eq_Inr_iff case_prod_unfold)

lemma parse_commits_single:
  assumes "parse_commits [c] = Inr v"
  shows "single_commit_vector v"
proof -
  obtain a where a: "parse_loop [c] \<lparr>pa_chars = [], pa_lines = [], pa_msgs = [], pa_times = [],
                                pa_added = [], pa_modified = [], pa_removed = []\<rparr> = Inr a"
    and v: "v = [fst (get_mean_and_variance (map real_of_int (time_intervals (pa_times a)))), real (length [c]),
              fst (get_mean_and_variance (map real (pa_chars a))), snd (get_mean_and_variance (map real (pa_chars a))),
              fst (get_mean_and_variance (map real (pa_lines a))), snd (get_mean_and_variance (map real (pa_lines a))),
              real (Min (set (pa_lines a))), real (Max (set (pa_lines a))),
              fst (get_mean_and_variance (map real (pa_msgs a))), snd (get_mean_and_variance (map real (pa_msgs a))),
              fst (get_mean_and_variance (map real (pa_added a))), snd (get_mean_and_variance (map real (pa_added a))),
              fst (get_mean_and_variance (map real (pa_modified a))), snd (get_mean_and_variance (map real (pa_modified a))),
              fst (get_mean_and_variance (map real (pa_removed a))), snd (get_mean_and_variance (map real (pa_removed a)))]"
    by (rule parse_commits_Inr [OF assms])
  have l: "pa_lines a = [gh_total c] \<and> pa_times a = [gh_date c] \<and> pa_msgs a = [length (gh_message c)] \<and>
    length (pa_added a) = 1 \<and> length (pa_modified a) = 1 \<and> length (pa_removed a) = 1"
    using parse_loop_single [OF a] by simp
  then obtain x y z where "pa_added a = [x]" "pa_modified a = [y]" "pa_removed a = [z]"
    by (metis length_0_conv length_Suc_conv One_nat_def)
  then show ?thesis using l
    by (simp add: v single_commit_vector_def time_intervals_def get_mean_and_variance_def)
qed

lemma predict_forged_Inr:
  "predict_forged clf cs = Inr ps \<Longrightarrow>
   \<exists>vs. ps = map clf vs \<and> length vs = length cs \<and> (\<forall>v\<in>set vs. single_commit_vector v)"
proof (induction cs arbitrary: ps)
  case (Cons c cs)
  then obtain v ps' where "parse_commits [c] = Inr v" and "predict_forged clf cs = Inr ps'"
    and "ps = clf v # ps'"
    by (auto simp: bindr_eq_Inr_iff)
  then show ?case using Cons.IH parse_commits_single by (metis length_Cons list.map(2) set_ConsD)
qed simp

lemma predict_forged_Inl:
  "predict_forged clf cs = Inl e \<longleftrightarrow> has_empty_patch_line cs \<and> e = IndexError"
proof (induction cs)
  case Nil
  then show ?case by (simp add: has_empty_patch_line_def)
next
  case (Cons c cs)
  have p: "parse_commits [c] = Inl e' \<longleftrightarrow> has_empty_patch_line [c] \<and> e' = IndexError" for e'
    using parse_commits_errors_iff [of "[c]" e'] by (simp add: has_empty_patch_line_def)
  show ?case
  proof (cases "parse_commits [c]")
    case (Inl e')
    then show ?thesis using p [of e'] by (auto simp: has_empty_patch_line_def)
  next
    case (Inr v)
    then have "\<not> has_empty_patch_line [c]" using p by auto
    then show ?thesis using Inr Cons.IH by (auto simp: has_empty_patch_line_def bindr_eq_Inl_iff)
  qed
qed

section \<open>Properties\<close>

text \<open>
  C17: \<open>split_array\<close> always returns two halves of equal length. Above three rows
  they are the rows in order, except that for an odd number of rows the last row
  (the most recent day) is in neither; up to three rows the model is evaluated on the
  very rows it was trained on.
\<close>

theorem split_array_halves:
  "\<exists>tr te. split_array data = Inr [tr, te] \<and> length tr = length te \<and>
     (if 3 < length data then tr @ te = (if even (length data) then data else butlast data)
      else tr = data \<and> te = data)"
proof (cases "3 < length data")
  case True
  show ?thesis
  proof (cases "even (length data)")
    case True
    then show ?thesis using \<open>3 < length data\<close>
      by (auto simp: split_array_def np_split2_def elim!: evenE)
  next
    case False
    then obtain i where n: "length data = 2 * i + 1" by (metis oddE)
    then have "take (length data div 2) data @ butlast (drop (length data div 2) data) = butlast data"
      by (intro take_butlast_drop) simp
    then show ?thesis using False \<open>3 < length data\<close> n
      by (simp add: split_array_def np_split2_def Let_def)
  qed
qed (simp add: split_array_def)


text \<open>
  C29: the experiment script classifies every forged commit as a one-commit feature
  vector (one commit, no time interval, every variance but the characters' 0, min =
  max = mean of the changed lines), unlike the per-day rows the SVM was trained on;
  and a single forged commit with an empty patch line aborts the whole experiment
  with \<open>IndexError\<close>.
\<close>

theorem experiment_rates_forged:
  "(experiment_rates clf forged = Inl e \<longleftrightarrow> has_empty_patch_line forged \<and> e = IndexError) \<and>
   (\<forall>r. experiment_rates clf forged = Inr r \<longrightarrow>
      (\<exists>vs. length vs = length forged \<and> (\<forall>v\<in>set vs. single_commit_vector v) \<and>
           r = script_rates (map clf vs)))"
proof (cases "predict_forged clf forged")
  case (Inl e')
  then have "has_empty_patch_line forged" and "e' = IndexError"
    using predict_forged_Inl [of clf forged e'] by simp_all
  moreover have "experiment_rates clf forged = Inl e'" using Inl by (simp add: experiment_rates_def)
  ultimately show ?thesis by auto
next
  case (Inr ps)
  have "\<not> has_empty_patch_line forged" using Inr predict_forged_Inl [of clf forged IndexError] by simp
  moreover have "experiment_rates clf forged = Inr (script_rates ps)" using Inr by (simp add: experiment_rates_def)
  moreover obtain vs where "ps = map clf vs" and "length vs = length forged"
    and "\<forall>v\<in>set vs. single_commit_vector v"
    using predict_forged_Inr [OF Inr] by blast
  ultimately show ?thesis by auto
qed

theorem experiment_rates_forged_witness:
  "experiment_rates (\<lambda>v. 1) [ex_patch_commit] = Inr (0, 1/5) \<and>
   \<not> has_empty_patch_line [ex_patch_commit] \<and>
   single_commit_vector [0, 1, 5/2, 1/2, 2, 0, 2, 2, 0, 0, 0, 0, 1, 0, 0, 0]"
proof -
  have r: "experiment_rates (\<lambda>v. 1) [ex_patch_commit] = Inr (0, 1/5)"
    by (simp add: experiment_rates_def parse_ex_patch_commit script_rates_def count_label_def)
  then have "\<not> has_empty_patch_line [ex_patch_commit]"
    using experiment_rates_forged [of "\<lambda>v. 1" "[ex_patch_commit]"] by auto
  moreover have "single_commit_vector [0, 1, 5/2, 1/2, 2, 0, 2, 2, 0, 0, 0, 0, 1, 0, 0, 0]"
    using parse_commits_single [OF parse_ex_patch_commit] .
  ultimately show ?thesis using r by blast
qed

end
