(* ===== verification/Baseline.thy ===== *)
theory Baseline
  imports Stats Schema
begin

text \<open>
  The behavioural baseline store of \<open>src/app/utils.py\<close>: the SQL variance queries
  (\<open>calculate_lines_variance_dev\<close>, \<open>calculate_files_variance_dev\<close> and their
  \<open>_repo\<close> twins), and the batch jobs \<open>calculate_global_dev_stats\<close> and
  \<open>calculate_repo_stats\<close>, which append one \<open>DeveloperStats\<close> or \<open>RepoStats\<close>
  row. SQLite semantics: \<open>AVG\<close> and \<open>SUM\<close> over no rows are \<open>NULL\<close>, and a
  division by zero (\<open>COUNT - 1 = 0\<close> for one row) is \<open>NULL\<close>; \<open>NULL\<close> is
  \<open>None\<close>. \<open>math.sqrt(None)\<close> raises \<open>TypeError\<close>, \<open>math.sqrt\<close> of a
  negative number \<open>ValueError\<close>. A second \<open>DeveloperStats\<close> row for the same
  developer violates the primary key (\<open>IntegrityError\<close> at \<open>session.commit()\<close>);
  \<open>RepoStats\<close> rows get a fresh \<open>id\<close>, one more than the largest.
\<close>

section \<open>Definitions\<close>

definition sql_avg :: "real list \<Rightarrow> real option" where
  "sql_avg xs = (if xs = [] then None else Some (sum_list xs / real (length xs)))"

text \<open>\<open>SUM((x - AVG(x)) * (x - AVG(x))) / (COUNT(x) - 1)\<close>.\<close>

definition sql_variance :: "real list \<Rightarrow> real option" where
  "sql_variance xs =
     (if xs = [] then None
      else if length xs = 1 then None
      else (let m = sum_list xs / real (length xs)
            in Some (sum_list (map (\<lambda>x. (x - m) * (x - m)) xs) / real (length xs - 1))))"

text \<open>\<open>FROM commits JOIN developer ON developer_id = developer.id WHERE developer_id = dev\<close>.\<close>

definition dev_commit_rows :: "db \<Rightarrow> nat \<Rightarrow> commit list" where
  "dev_commit_rows s dv =
     [c. c \<leftarrow> commits_table s, d \<leftarrow> developer_table s, c_developer_id c = dev_id d,
         c_developer_id c = dv]"

definition calculate_lines_variance_dev :: "db \<Rightarrow> (commit \<Rightarrow> nat) \<Rightarrow> nat \<Rightarrow> real option" where
  "calculate_lines_variance_dev s attr dv = sql_variance (map (real \<circ> attr) (dev_commit_rows s dv))"

definition calculate_lines_variance_repo :: "db \<Rightarrow> (commit \<Rightarrow> nat) \<Rightarrow> real option" where
  "calculate_lines_variance_repo s attr = sql_variance (map (real \<circ> attr) (commits_table s))"

definition calculate_files_variance_dev :: "db \<Rightarrow> (commit \<Rightarrow> nat) \<Rightarrow> nat \<Rightarrow> real option" where
  "calculate_files_variance_dev s attr dv = sql_variance (map (real \<circ> attr) (dev_commit_rows s dv))"

definition calculate_files_variance_repo :: "db \<Rightarrow> (commit \<Rightarrow> nat) \<Rightarrow> real option" where
  "calculate_files_variance_repo s attr = sql_variance (map (real \<circ> attr) (commits_table s))"

text \<open>\<open>math.sqrt\<close> on a value that may be \<open>None\<close>.\<close>

definition py_sqrt :: "real option \<Rightarrow> real res" where
  "py_sqrt v = (case v of None \<Rightarrow> Inl TypeError
                         | Some x \<Rightarrow> if x < 0 then Inl ValueError else Inr (sqrt x))"

text \<open>\<open>new_lines_var if new_lines_var else 0\<close>: \<open>None\<close> (and \<open>0.0\<close>) become 0.\<close>

definition or_zero :: "real option \<Rightarrow> real" where
  "or_zero v = (case v of None \<Rightarrow> 0 | Some x \<Rightarrow> x)"

definition calculate_global_dev_stats :: "db \<Rightarrow> nat \<Rightarrow> db res" where
  "calculate_global_dev_stats s dv =
     (let new_lines_v = or_zero (calculate_lines_variance_dev s new_lines dv);
          removed_lines_v = or_zero (calculate_lines_variance_dev s removed_lines dv);
          added_files_v = or_zero (calculate_files_variance_dev s added_files dv);
          modified_files_v = or_zero (calculate_files_variance_dev s modified_files dv);
          removed_files_v = or_zero (calculate_files_variance_dev s removed_files dv);
          avg = (\<lambda>attr. sql_avg (map (real \<circ> attr) (dev_commit_rows s dv)))
      in bindr (py_sqrt (Some new_lines_v)) (\<lambda>nl_std.
         bindr (py_sqrt (Some removed_lines_v)) (\<lambda>rl_std.
         bindr (py_sqrt (Some added_files_v)) (\<lambda>af_std.
         bindr (py_sqrt (Some modified_files_v)) (\<lambda>mf_std.
         bindr (py_sqrt (Some removed_files_v)) (\<lambda>rf_std.
           (let row = \<lparr>new_lines_avg = avg new_lines, new_lines_std = nl_std,
                       new_lines_var = new_lines_v,
                       removed_lines_avg = avg removed_lines, removed_lines_std = rl_std,
                       removed_lines_var = removed_lines_v,
                       added_files_avg = avg added_files, added_files_std = af_std,
                       added_files_var = added_files_v,
                       modified_files_avg = avg modified_files, modified_files_std = mf_std,
                       modified_files_var = modified_files_v,
                       removed_files_avg = avg removed_files, removed_files_std = rf_std,
                       removed_files_var = removed_files_v, ds_developer_id = dv\<rparr>
            in if dv \<in> set (map ds_developer_id (developer_stats_table s)) then Inl IntegrityError
               else Inr (s\<lparr>developer_stats_table := developer_stats_table s @ [row]\<rparr>))))))))"

definition next_repo_stats_id :: "db \<Rightarrow> nat" where
  "next_repo_stats_id s = Suc (fold max (map rs_id (repo_stats_table s)) 0)"

definition calculate_repo_stats :: "db \<Rightarrow> db res" where
  "calculate_repo_stats s =
     (let new_lines_v = calculate_lines_variance_repo s new_lines;
          removed_lines_v = calculate_lines_variance_repo s removed_lines;
          added_files_v = calculate_files_variance_repo s added_files;
          modified_files_v = calculate_files_variance_repo s modified_files;
          removed_files_v = calculate_files_variance_repo s removed_files;
          avg = (\<lambda>attr. sql_avg (map (real \<circ> attr) (commits_table s)))
      in bindr (py_sqrt new_lines_v) (\<lambda>nl_std.
         bindr (py_sqrt removed_lines_v) (\<lambda>rl_std.
         bindr (py_sqrt added_files_v) (\<lambda>af_std.
         bindr (py_sqrt modified_files_v) (\<lambda>mf_std.
         bindr (py_sqrt removed_files_v) (\<lambda>rf_std.
           Inr (s\<lparr>repo_stats_table := repo_stats_table s @
             [\<lparr>new_lines_avg = avg new_lines, new_lines_std = nl_std,
               new_lines_var = the new_lines_v,
               removed_lines_avg = avg removed_lines, removed_lines_std = rl_std,
               removed_lines_var = the removed_lines_v,
               added_files_avg = avg added_files, added_files_std = af_std,
               added_files_var = the added_files_v,
               modified_files_avg = avg modified_files, modified_files_std = mf_std,
               modified_files_var = the modified_files_v,
               removed_files_avg = avg removed_files, removed_files_std = rf_std,
               removed_files_var = the removed_files_v,
               rs_id = next_repo_stats_id s\<rparr>]\<rparr>)))))))"

text \<open>
  A baseline row is well formed when every variance is non-negative and every
  standard deviation is its square root; the store is well formed when all its rows
  are.
\<close>

definition stats_wf :: "'a stats_scheme \<Rightarrow> bool" where
  "stats_wf st \<longleftrightarrow>
     0 \<le> new_lines_var st \<and> new_lines_std st = sqrt (new_lines_var st) \<and>
     0 \<le> removed_lines_var st \<and> removed_lines_std st = sqrt (removed_lines_var st) \<and>
     0 \<le> added_files_var st \<and> added_files_std st = sqrt (added_files_var st) \<and>
     0 \<le> modified_files_var st \<and> modified_files_std st = sqrt (modified_files_var st) \<and>
     0 \<le> removed_files_var st \<and> removed_files_std st = sqrt (removed_files_var st)"

definition baselines_wf :: "db \<Rightarrow> bool" where
  "baselines_wf s \<longleftrightarrow>
     list_all stats_wf (developer_stats_table s) \<and> list_all stats_wf (repo_stats_table s)"

definition dev_row_of :: "db \<Rightarrow> nat \<Rightarrow> developer_stats" where
  "dev_row_of s dv =
     \<lparr>new_lines_avg = sql_avg (map (real \<circ> new_lines) (dev_commit_rows s dv)),
      new_lines_std = sqrt (or_zero (calculate_lines_variance_dev s new_lines dv)),
      new_lines_var = or_zero (calculate_lines_variance_dev s new_lines dv),
      removed_lines_avg = sql_avg (map (real \<circ> removed_lines) (dev_commit_rows s dv)),
      removed_lines_std = sqrt (or_zero (calculate_lines_variance_dev s removed_lines dv)),
      removed_lines_var = or_zero (calculate_lines_variance_dev s removed_lines dv),
      added_files_avg = sql_avg (map (real \<circ> added_files) (dev_commit_rows s dv)),
      added_files_std = sqrt (or_zero (calculate_files_variance_dev s added_files dv)),
      added_files_var = or_zero (calculate_files_variance_dev s added_files dv),
      modified_files_avg = sql_avg (map (real \<circ> modified_files) (dev_commit_rows s dv)),
      modified_files_std = sqrt (or_zero (calculate_files_variance_dev s modified_files dv)),
      modified_files_var = or_zero (calculate_files_variance_dev s modified_files dv),
      removed_files_avg = sql_avg (map (real \<circ> removed_files) (dev_commit_rows s dv)),
      removed_files_std = sqrt (or_zero (calculate_files_variance_dev s removed_files dv)),
      removed_files_var = or_zero (calculate_files_variance_dev s removed_files dv),
      ds_developer_id = dv\<rparr>"

definition repo_row_of :: "db \<Rightarrow> repo_stats" where
  "repo_row_of s =
     (let v = (\<lambda>attr. sample_variance (map (real \<circ> attr) (commits_table s)));
          avg = (\<lambda>attr. sql_avg (map (real \<circ> attr) (commits_table s)))
      in \<lparr>new_lines_avg = avg new_lines, new_lines_std = sqrt (v new_lines),
          new_lines_var = v new_lines,
          removed_lines_avg = avg removed_lines, removed_lines_std = sqrt (v removed_lines),
          removed_lines_var = v removed_lines,
          added_files_avg = avg added_files, added_files_std = sqrt (v added_files),
          added_files_var = v added_files,
          modified_files_avg = avg modified_files, modified_files_std = sqrt (v modified_files),
          modified_files_var = v modified_files,
          removed_files_avg = avg removed_files, removed_files_std = sqrt (v removed_files),
          removed_files_var = v removed_files,
          rs_id = next_repo_stats_id s\<rparr>)"

text \<open>A repository with one developer (id 7) and two commits by that developer.\<close>

definition ex_base_db :: db where
  "ex_base_db = empty_db\<lparr>developer_table := [ex_dev 7 ''alice''],
     commits_table := [ex_commit 1 7 10 2, ex_commit 2 7 4 0]\<rparr>"

section \<open>Lemmas\<close>

lemma sql_variance_sample:
  "sql_variance xs = (if length xs < 2 then None else Some (sample_variance xs))"
  by (cases xs rule: one.cases) (auto simp: sql_variance_def sample_variance_def Let_def power2_eq_square)

lemma sql_variance_nonneg: "sql_variance xs = Some v \<Longrightarrow> 0 \<le> v"
  using sample_variance_nonneg by (auto simp: sql_variance_sample split: if_splits)

lemma or_zero_nonneg: "(\<And>v. x = Some v \<Longrightarrow> 0 \<le> v) \<Longrightarrow> 0 \<le> or_zero x"
  by (cases x) (simp_all add: or_zero_def)

lemma py_sqrt_nonneg [simp]: "0 \<le> x \<Longrightarrow> py_sqrt (Some x) = Inr (sqrt x)"
  by (simp add: py_sqrt_def)

lemma or_zero_variance_nonneg: "0 \<le> or_zero (sql_variance xs)"
  by (rule or_zero_nonneg) (rule sql_variance_nonneg)

lemmas calculate_global_dev_stats_unfold =
  calculate_global_dev_stats_def dev_row_of_def Let_def calculate_lines_variance_dev_def
  calculate_files_variance_dev_def or_zero_variance_nonneg

lemma calculate_global_dev_stats_new:
  "dv \<notin> set (map ds_developer_id (developer_stats_table s)) \<Longrightarrow>
   calculate_global_dev_stats s dv =
     Inr (s\<lparr>developer_stats_table := developer_stats_table s @ [dev_row_of s dv]\<rparr>)"
  by (simp add: calculate_global_dev_stats_unfold)

lemma calculate_global_dev_stats_Inr:
  "calculate_global_dev_stats s dv = Inr s' \<Longrightarrow>
   s' = s\<lparr>developer_stats_table := developer_stats_table s @ [dev_row_of s dv]\<rparr>"
  by (simp add: calculate_global_dev_stats_unfold split: if_splits)

lemma calculate_repo_stats_eq:
  "calculate_repo_stats s =
     (if length (commits_table s) < 2 then Inl TypeError
      else Inr (s\<lparr>repo_stats_table := repo_stats_table s @ [repo_row_of s]\<rparr>))"
proof (cases "length (commits_table s) < 2")
  case True
  then show ?thesis
    by (simp add: calculate_repo_stats_def Let_def calculate_lines_variance_repo_def
        sql_variance_sample py_sqrt_def)
next
  case False
  then show ?thesis
    using sample_variance_nonneg
    by (simp add: calculate_repo_stats_def repo_row_of_def Let_def calculate_lines_variance_repo_def
        calculate_files_variance_repo_def sql_variance_sample)
qed

lemma dev_row_of_wf: "stats_wf (dev_row_of s dv)"
  by (simp add: stats_wf_def dev_row_of_def calculate_lines_variance_dev_def
      calculate_files_variance_dev_def or_zero_variance_nonneg)

lemma repo_row_of_wf: "stats_wf (repo_row_of s)"
  by (simp add: stats_wf_def repo_row_of_def Let_def sample_variance_nonneg)

lemma dev_row_of_avg_None:
  "new_lines_avg (dev_row_of s dv) = None \<longleftrightarrow> dev_commit_rows s dv = []"
  by (simp add: dev_row_of_def sql_avg_def)

section \<open>Properties\<close>

text \<open>
  C22: the SQL variance query computes the spec's sample variance, the second
  component of \<open>get_mean_and_variance\<close>, on two or more rows, and \<open>NULL\<close> on
  fewer.
\<close>

theorem sql_variance_is_sample_variance:
  "sql_variance xs = (if length xs < 2 then None else Some (snd (get_mean_and_variance xs)))"
  by (simp add: sql_variance_sample get_mean_and_variance_def)

text \<open>
  C23: \<open>calculate_global_dev_stats\<close> raises only \<open>IntegrityError\<close>, exactly when the
  developer already has a baseline row; otherwise it appends one well-formed row for
  the developer, whose mean is \<open>NULL\<close> exactly when the developer has no commits and
  whose variance is the sample variance of the developer's commits (0 for fewer than
  two).
\<close>

theorem calculate_global_dev_stats_appends:
  "(dv \<in> set (map ds_developer_id (developer_stats_table s)) \<longrightarrow>
      calculate_global_dev_stats s dv = Inl IntegrityError) \<and>
   (dv \<notin> set (map ds_developer_id (developer_stats_table s)) \<longrightarrow>
     (\<exists>r. calculate_global_dev_stats s dv =
            Inr (s\<lparr>developer_stats_table := developer_stats_table s @ [r]\<rparr>) \<and>
          ds_developer_id r = dv \<and> stats_wf r \<and>
          (new_lines_avg r = None \<longleftrightarrow> dev_commit_rows s dv = []) \<and>
          new_lines_var r =
            (if length (dev_commit_rows s dv) < 2 then 0
             else snd (get_mean_and_variance (map (real \<circ> new_lines) (dev_commit_rows s dv))))))"
proof -
  have var: "new_lines_var (dev_row_of s dv) =
      (if length (dev_commit_rows s dv) < 2 then 0
       else snd (get_mean_and_variance (map (real \<circ> new_lines) (dev_commit_rows s dv))))"
    by (simp add: dev_row_of_def calculate_lines_variance_dev_def sql_variance_sample or_zero_def
        get_mean_and_variance_def)
  have dup: "dv \<in> set (map ds_developer_id (developer_stats_table s)) \<Longrightarrow>
      calculate_global_dev_stats s dv = Inl IntegrityError"
    by (simp add: calculate_global_dev_stats_unfold)
  show ?thesis
    using var dev_row_of_wf [of s dv] dev_row_of_avg_None [of s dv] dup
      calculate_global_dev_stats_new [of dv s]
    by (auto simp: dev_row_of_def)
qed

theorem calculate_global_dev_stats_appends_witness:
  "7 \<notin> set (map ds_developer_id (developer_stats_table ex_base_db)) \<and>
   (\<exists>r. calculate_global_dev_stats ex_base_db 7 =
          Inr (ex_base_db\<lparr>developer_stats_table := developer_stats_table ex_base_db @ [r]\<rparr>) \<and>
        ds_developer_id r = 7 \<and> stats_wf r \<and> new_lines_avg r \<noteq> None \<and> new_lines_var r = 18)"
proof -
  have h: "7 \<notin> set (map ds_developer_id (developer_stats_table ex_base_db))"
    by (simp add: ex_base_db_def empty_db_def)
  have rows: "dev_commit_rows ex_base_db 7 = [ex_commit 1 7 10 2, ex_commit 2 7 4 0]"
    by (simp add: dev_commit_rows_def ex_base_db_def empty_db_def ex_dev_def ex_commit_def)
  have var: "snd (get_mean_and_variance [real (new_lines (ex_commit 1 7 10 2)),
      real (new_lines (ex_commit 2 7 4 0))]) = 18"
    by (simp add: get_mean_and_variance_def sample_variance_def ex_commit_def power2_eq_square)
  show ?thesis
    using calculate_global_dev_stats_appends [of 7 ex_base_db] h rows var by auto
qed

text \<open>
  C24: \<open>calculate_repo_stats\<close> raises (\<open>TypeError\<close>, from \<open>math.sqrt(None)\<close>)
  exactly when the repository has fewer than two commits, where the spec asks for
  \<open>InsufficientData\<close> only with no commits.
\<close>

theorem calculate_repo_stats_error:
  "calculate_repo_stats s = Inl e \<longleftrightarrow> length (commits_table s) < 2 \<and> e = TypeError"
proof (cases "length (commits_table s) < 2")
  case True
  then show ?thesis
    by (auto simp: calculate_repo_stats_def Let_def calculate_lines_variance_repo_def
        sql_variance_sample py_sqrt_def)
next
  case False
  then show ?thesis
    using sample_variance_nonneg
    by (simp add: calculate_repo_stats_def Let_def calculate_lines_variance_repo_def
        calculate_files_variance_repo_def sql_variance_sample)
qed

text \<open>
  C25: both batch jobs keep the baseline store well formed: every stored variance
  is non-negative and every stored standard deviation is its square root.
\<close>

theorem baseline_jobs_preserve_wf:
  assumes "baselines_wf s"
  shows "(calculate_global_dev_stats s dv = Inr s' \<longrightarrow> baselines_wf s') \<and>
         (calculate_repo_stats s = Inr s'' \<longrightarrow> baselines_wf s'')"
  using assms dev_row_of_wf [of s dv] repo_row_of_wf [of s] calculate_global_dev_stats_Inr [of s dv s']
  by (auto simp: baselines_wf_def calculate_repo_stats_eq split: if_splits)

theorem baseline_jobs_preserve_wf_witness:
  "baselines_wf ex_base_db \<and>
   (\<exists>s'. calculate_global_dev_stats ex_base_db 7 = Inr s' \<and> baselines_wf s')"
proof -
  have h: "baselines_wf ex_base_db"
    by (simp add: baselines_wf_def stats_wf_def ex_base_db_def empty_db_def)
  have "calculate_global_dev_stats ex_base_db 7 =
          Inr (ex_base_db\<lparr>developer_stats_table := [dev_row_of ex_base_db 7]\<rparr>)"
    using calculate_global_dev_stats_new [of 7 ex_base_db] by (simp add: ex_base_db_def empty_db_def)
  then show ?thesis
    using baseline_jobs_preserve_wf [OF h, of 7] h by blast
qed

end
