(* ===== verification/Driver.thy ===== *)
theory Driver
  imports Baseline
begin

text \<open>
  The batch driver \<open>get_repository_info\<close> of \<open>src/app/run.py\<close>: fetch the
  contributors when there are no developers yet, then for every developer fetch
  its commits and compute its baseline (\<open>calculate_global_dev_stats\<close>), and
  finally compute the repository baseline (\<open>calculate_repo_stats\<close>). The two
  ingestion calls \<open>get_contributors\<close> and \<open>get_commits\<close> talk to the GitHub API;
  they are parameters of the model (\<open>get_contributors\<close> and \<open>ingest\<close>), the
  lemmas state what they must preserve (\<open>ingest_ok\<close>), and theory \<open>Ingest\<close>
  supplies the implementations. Both are loops over pages of the API that need not
  end, so they return \<open>db res option\<close>, \<open>None\<close> being a run that never returns. \<open>session.flush()\<close> and
  \<open>session.commit()\<close> write nothing the model does not already hold.
\<close>

section \<open>Definitions\<close>

type_synonym ingest = "db \<Rightarrow> developer \<Rightarrow> db res option"

text \<open>\<open>for dev in devs: get_commits(...); session.flush(); calculate_global_dev_stats(...)\<close>.\<close>

fun repo_info_devs :: "ingest \<Rightarrow> developer list \<Rightarrow> db \<Rightarrow> db res option" where
  "repo_info_devs get_commits [] s = Some (Inr s)"
| "repo_info_devs get_commits (dev # devs) s =
     bindo (get_commits s dev) (\<lambda>s1.
     bindo (Some (calculate_global_dev_stats s1 (dev_id dev))) (\<lambda>s2.
       repo_info_devs get_commits devs s2))"

definition get_repository_info :: "(db \<Rightarrow> db res option) \<Rightarrow> ingest \<Rightarrow> db \<Rightarrow> db res option" where
  "get_repository_info get_contributors get_commits s =
     bindo (if developer_table s = [] then get_contributors s else Some (Inr s)) (\<lambda>s0.
     bindo (repo_info_devs get_commits (developer_table s0) s0) (\<lambda>s1.
       Some (calculate_repo_stats s1)))"

text \<open>
  The contract of the commit ingestion: it stores commits and files only, and leaves
  the developers and both baseline tables as they were.
\<close>

definition ingest_ok :: "ingest \<Rightarrow> bool" where
  "ingest_ok get_commits \<longleftrightarrow>
     (\<forall>s d s'. get_commits s d = Some (Inr s') \<longrightarrow>
        developer_table s' = developer_table s \<and>
        developer_stats_table s' = developer_stats_table s \<and> repo_stats_table s' = repo_stats_table s)"

text \<open>An ingestion that finds nothing new: the database is unchanged.\<close>

definition no_new_commits :: ingest where
  "no_new_commits s d = Some (Inr s)"

section \<open>Lemmas\<close>

lemma dev_row_of_id [simp]: "ds_developer_id (dev_row_of s dv) = dv"
  by (simp add: dev_row_of_def)

lemma repo_info_devs_Inr:
  assumes "ingest_ok gc" and "repo_info_devs gc devs s = Some (Inr s')"
  shows "map ds_developer_id (developer_stats_table s') =
           map ds_developer_id (developer_stats_table s) @ map dev_id devs \<and>
         (baselines_wf s \<longrightarrow> baselines_wf s') \<and>
         repo_stats_table s' = repo_stats_table s \<and> developer_table s' = developer_table s"
  using assms(2)
proof (induction devs arbitrary: s)
  case (Cons dev devs)
  then obtain s1 s2 where g: "gc s dev = Some (Inr s1)"
    and c: "calculate_global_dev_stats s1 (dev_id dev) = Inr s2"
    and r: "repo_info_devs gc devs s2 = Some (Inr s')"
    by (auto simp: bindo_eq_Some_Inr_iff)
  have k: "developer_table s1 = developer_table s \<and> developer_stats_table s1 = developer_stats_table s \<and>
      repo_stats_table s1 = repo_stats_table s"
    using assms(1) g unfolding ingest_ok_def by blast
  have s2: "s2 = s1\<lparr>developer_stats_table := developer_stats_table s1 @ [dev_row_of s1 (dev_id dev)]\<rparr>"
    using calculate_global_dev_stats_Inr [OF c] .
  have "baselines_wf s \<longrightarrow> baselines_wf s2"
    using k dev_row_of_wf [of s1 "dev_id dev"] by (simp add: s2 baselines_wf_def)
  then show ?case using Cons.IH [OF r] k by (simp add: s2)
qed simp

text \<open>The loop over the developers returns when the ingestion returns for each of them.\<close>

lemma repo_info_devs_Some:
  "\<forall>s. \<forall>d\<in>set devs. \<exists>r. gc s d = Some r \<Longrightarrow> \<exists>r. repo_info_devs gc devs s = Some r"
proof (induction devs arbitrary: s)
  case (Cons dev devs)
  then obtain r where g: "gc s dev = Some r" by (meson list.set_intros(1))
  show ?case
  proof (cases r)
    case (Inr s1)
    then show ?thesis using g Cons
      by (cases "calculate_global_dev_stats s1 (dev_id dev)") auto
  qed (simp add: g)
qed simp

section \<open>Properties\<close>

text \<open>
  C39: for any commit ingestion that respects its contract, a successful run of
  \<open>get_repository_info\<close> on a database with developers and no baselines stores
  exactly one well-formed \<open>DeveloperStats\<close> row per developer, in the order of
  the developers, and one more \<open>RepoStats\<close> row.
\<close>

theorem get_repository_info_baselines:
  assumes "ingest_ok gc" and "developer_table s \<noteq> []" and "developer_stats_table s = []"
    and "baselines_wf s" and "get_repository_info gcon gc s = Some (Inr s')"
  shows "map ds_developer_id (developer_stats_table s') = map dev_id (developer_table s) \<and>
         baselines_wf s' \<and> length (repo_stats_table s') = Suc (length (repo_stats_table s))"
proof -
  obtain s1 where r: "repo_info_devs gc (developer_table s) s = Some (Inr s1)"
    and c: "calculate_repo_stats s1 = Inr s'"
    using assms(2,5) by (auto simp: get_repository_info_def bindo_eq_Some_Inr_iff)
  have i: "map ds_developer_id (developer_stats_table s1) = map dev_id (developer_table s) \<and>
      baselines_wf s1 \<and> repo_stats_table s1 = repo_stats_table s"
    using repo_info_devs_Inr [OF assms(1) r] assms(3,4) by simp
  have "s' = s1\<lparr>repo_stats_table := repo_stats_table s1 @ [repo_row_of s1]\<rparr>"
    using c by (simp add: calculate_repo_stats_eq split: if_splits)
  moreover have "list_all stats_wf (developer_stats_table s1) \<and> list_all stats_wf (repo_stats_table s1)"
    using i unfolding baselines_wf_def by blast
  ultimately show ?thesis using i repo_row_of_wf [of s1] by (simp add: baselines_wf_def)
qed

theorem get_repository_info_baselines_witness:
  "ingest_ok no_new_commits \<and> developer_table ex_base_db \<noteq> [] \<and>
   developer_stats_table ex_base_db = [] \<and> baselines_wf ex_base_db \<and>
   (\<exists>s'. get_repository_info (\<lambda>s. Some (Inr s)) no_new_commits ex_base_db = Some (Inr s') \<and>
      map ds_developer_id (developer_stats_table s') = [7] \<and> length (repo_stats_table s') = 1)"
proof -
  have h1: "ingest_ok no_new_commits" by (simp add: ingest_ok_def no_new_commits_def)
  have h2: "developer_table ex_base_db \<noteq> []" by (simp add: ex_base_db_def)
  have h3: "developer_stats_table ex_base_db = []" by (simp add: ex_base_db_def empty_db_def)
  have h4: "baselines_wf ex_base_db" by (simp add: baselines_wf_def ex_base_db_def empty_db_def)
  have e: "\<exists>s'. get_repository_info (\<lambda>s. Some (Inr s)) no_new_commits ex_base_db = Some (Inr s')"
    using calculate_global_dev_stats_new [of 7 ex_base_db]
    by (simp add: get_repository_info_def no_new_commits_def ex_base_db_def empty_db_def ex_dev_def
        calculate_repo_stats_eq)
  then obtain s' where "get_repository_info (\<lambda>s. Some (Inr s)) no_new_commits ex_base_db = Some (Inr s')" by blast
  moreover note get_repository_info_baselines [OF h1 h2 h3 h4 this]
  ultimately show ?thesis using h1 h2 h3 h4 by (simp add: ex_base_db_def ex_dev_def empty_db_def)
qed

text \<open>
  C40: \<open>get_repository_info\<close> cannot be run again: once the first developer has a
  baseline row, the next run raises \<open>IntegrityError\<close> (the \<open>DeveloperStats\<close>
  primary key) for any ingestion that respects its contract and returns.
\<close>

theorem get_repository_info_rerun:
  assumes "ingest_ok gc" and "\<forall>s d. \<exists>s'. gc s d = Some (Inr s')"
    and "developer_table s = d # ds"
    and "dev_id d \<in> set (map ds_developer_id (developer_stats_table s))"
  shows "get_repository_info gcon gc s = Some (Inl IntegrityError)"
proof -
  obtain s1 where g: "gc s d = Some (Inr s1)" using assms(2) by blast
  have "developer_stats_table s1 = developer_stats_table s"
    using assms(1) g unfolding ingest_ok_def by blast
  then have "calculate_global_dev_stats s1 (dev_id d) = Inl IntegrityError"
    using assms(4) by (simp add: calculate_global_dev_stats_unfold)
  then show ?thesis using assms(3) g by (simp add: get_repository_info_def)
qed

theorem get_repository_info_rerun_witness:
  "ingest_ok no_new_commits \<and> (\<forall>s d. \<exists>s'. no_new_commits s d = Some (Inr s')) \<and>
   developer_table (ex_base_db\<lparr>developer_stats_table := [dev_row_of ex_base_db 7]\<rparr>) = ex_dev 7 ''alice'' # [] \<and>
   dev_id (ex_dev 7 ''alice'') \<in> set (map ds_developer_id
     (developer_stats_table (ex_base_db\<lparr>developer_stats_table := [dev_row_of ex_base_db 7]\<rparr>))) \<and>
   get_repository_info (\<lambda>s. Some (Inr s)) no_new_commits (ex_base_db\<lparr>developer_stats_table := [dev_row_of ex_base_db 7]\<rparr>)
     = Some (Inl IntegrityError)"
proof -
  let ?s = "ex_base_db\<lparr>developer_stats_table := [dev_row_of ex_base_db 7]\<rparr>"
  have h1: "ingest_ok no_new_commits" by (simp add: ingest_ok_def no_new_commits_def)
  have h2: "\<forall>s d. \<exists>s'. no_new_commits s d = Some (Inr s')" by (simp add: no_new_commits_def)
  have h3: "developer_table ?s = ex_dev 7 ''alice'' # []" by (simp add: ex_base_db_def)
  have h4: "dev_id (ex_dev 7 ''alice'') \<in> set (map ds_developer_id (developer_stats_table ?s))"
    by (simp add: ex_dev_def)
  show ?thesis using get_repository_info_rerun [OF h1 h2 h3 h4] h1 h2 h3 h4 by blast
qed

end
