(* ===== verification/Ingest.thy ===== *)
theory Ingest
  imports Features Driver
begin

text \<open>
  The ingestion from the GitHub REST API (\<open>src/app/utils.py\<close>): \<open>create_user\<close>,
  \<open>get_contributors\<close>, \<open>get_pulls\<close> and \<open>get_commits\<close>. The API is a record of
  functions (\<open>gh_api\<close>) from the URL's parameters (a page number, a user, a commit
  URL) to the decoded JSON, so that the model is a function of the responses. The
  three loops \<open>while True: ... page += 1 ... if len(data) < 100: break\<close> are one
  \<open>partial_function (option)\<close>, \<open>page_loop\<close>, over a page source and a body;
  it returns \<open>None\<close> when every page is full, and the lemmas show that it returns as
  soon as some page is short. \<open>get_commits\<close> keeps the function-scope variables
  \<open>commit_data\<close>, \<open>dev_tmp\<close> and \<open>developer_id\<close> of the Python loop in its state
  (\<open>gcs_state\<close>): they survive from one commit entry to the next. \<open>dev_tmp\<close> and
  \<open>developer_id\<close> are always assigned together, \<open>developer_id = dev_tmp.id\<close>, and
  are one field. The reads \<open>user_contributions\<close> and \<open>get_commit_info\<close> close
  the theory, with Python's \<open>int()\<close> of a string (\<open>py_int\<close>).
\<close>

section \<open>Responses of the API\<close>

text \<open>\<open>users/<name>\<close>: \<open>None\<close> is a reply without \<open>login\<close> (an unknown user).\<close>

record gh_user =
  gu_login :: string
  gu_created_at :: int
  gu_followers :: int

text \<open>An entry of \<open>repos/<o>/<r>/contributors\<close>.\<close>

record gh_contributor =
  ct_login :: string
  ct_contributions :: int

text \<open>An entry of \<open>repos/<o>/<r>/commits?author=...\<close>: its URL and its parents' URLs.\<close>

record gh_item =
  gi_url :: string
  gi_parents :: "string list"

text \<open>An entry of \<open>repos/<o>/<r>/pulls\<close> and the pull request behind its URL.\<close>

record gh_pull_item =
  pi_url :: string
  pi_login :: string

record gh_pull =
  gp_merged :: bool
  gp_state :: string

text \<open>
  The API of one repository: \<open>api_commits u n\<close> is page \<open>n\<close> of the commits of
  author \<open>u\<close>, \<open>api_commit url\<close> the commit JSON at \<open>url\<close> and \<open>api_author url\<close>
  its \<open>commit_data['author']['login']\<close> (\<open>None\<close> when \<open>author\<close> is null);
  \<open>api_search u\<close> is the \<open>total_count\<close> of \<open>search/commits?q=author:u\<close>,
  \<open>None\<close> for a reply without that key (an error reply).
\<close>

record gh_api =
  api_user :: "string \<Rightarrow> gh_user option"
  api_contributors :: "nat \<Rightarrow> gh_contributor list"
  api_commits :: "string \<Rightarrow> nat \<Rightarrow> gh_item list"
  api_commit :: "string \<Rightarrow> gh_commit"
  api_author :: "string \<Rightarrow> string option"
  api_pulls :: "nat \<Rightarrow> gh_pull_item list"
  api_pull :: "string \<Rightarrow> gh_pull"
  api_search :: "string \<Rightarrow> int option"

section \<open>Loops\<close>

text \<open>\<open>for x in data: body(x)\<close>, stopping at the first exception.\<close>

fun fold_res :: "('s \<Rightarrow> 'a \<Rightarrow> 's res) \<Rightarrow> 'a list \<Rightarrow> 's \<Rightarrow> 's res" where
  "fold_res f [] s = Inr s"
| "fold_res f (x # xs) s = bindr (f s x) (fold_res f xs)"

text \<open>
  \<open>page = 1; while True: data = fetch(page); page += 1; body(data);
  if len(data) < 100: break\<close>.
\<close>

partial_function (option) page_loop ::
  "(nat \<Rightarrow> 'i list) \<Rightarrow> ('i list \<Rightarrow> 's \<Rightarrow> 's res) \<Rightarrow> nat \<Rightarrow> 's \<Rightarrow> 's res option" where
  "page_loop fetch body page s =
     (let data = fetch page in
      case body data s of
        Inl e \<Rightarrow> Some (Inl e)
      | Inr s' \<Rightarrow> if length data < 100 then Some (Inr s') else page_loop fetch body (Suc page) s')"

section \<open>Reads of the API\<close>

text \<open>A Python value that is an \<open>int\<close> or a \<open>str\<close>.\<close>

datatype py_num = PyInt int | PyStr string

text \<open>
  \<open>user_contributions(username)\<close>: the \<open>total_count\<close>, or the string \<open>'0'\<close>.
  (The name of the environment input of the rule evaluator is taken.)
\<close>

definition user_contributions_api :: "gh_api \<Rightarrow> string \<Rightarrow> py_num" where
  "user_contributions_api api u = (case api_search api u of Some t \<Rightarrow> PyInt t | None \<Rightarrow> PyStr ''0'')"

definition get_commit_info :: "gh_api \<Rightarrow> string \<Rightarrow> gh_commit" where
  "get_commit_info api url = api_commit api url"

text \<open>
  \<open>int(x)\<close> of an \<open>int\<close> or of a string of decimal digits with an optional sign;
  any other string raises \<open>ValueError\<close>.
\<close>

definition digit_value :: "char \<Rightarrow> int" where
  "digit_value c = int (of_char c) - 48"

definition is_digit :: "char \<Rightarrow> bool" where
  "is_digit c \<longleftrightarrow> (48::nat) \<le> of_char c \<and> of_char c \<le> (57::nat)"

definition digits_value :: "string \<Rightarrow> int" where
  "digits_value ds = foldl (\<lambda>n c. 10 * n + digit_value c) 0 ds"

definition py_int :: "py_num \<Rightarrow> int res" where
  "py_int x =
     (case x of
        PyInt i \<Rightarrow> Inr i
      | PyStr str \<Rightarrow>
          (let (sg, ds) = (case str of c # cs \<Rightarrow> if c = CHR ''-'' then (-1, cs)
                                               else if c = CHR ''+'' then (1, cs) else (1, str)
                                 | [] \<Rightarrow> (1, []))
           in if ds \<noteq> [] \<and> list_all is_digit ds then Inr (sg * digits_value ds) else Inl ValueError))"

section \<open>Users\<close>

definition get_developer :: "db \<Rightarrow> string \<Rightarrow> developer option res" where
  "get_developer s u = one_or_none (devs_named s u)"

text \<open>The id SQLite gives the next \<open>Developer\<close> row (\<open>max(id) + 1\<close>).\<close>

definition next_developer_id :: "db \<Rightarrow> nat" where
  "next_developer_id s = Suc (fold max (map dev_id (developer_table s)) 0)"

text \<open>The row stores the \<open>login\<close> of the reply, not the name it was asked for.\<close>

definition create_user :: "gh_api \<Rightarrow> string \<Rightarrow> int \<Rightarrow> db \<Rightarrow> db res" where
  "create_user api u contribs s =
     (case api_user api u of
        None \<Rightarrow> Inl KeyError
      | Some r \<Rightarrow> Inr (s\<lparr>developer_table := developer_table s @
          [\<lparr>dev_id = next_developer_id s, username = gu_login r, contributions = contribs,
            account_creation = gu_created_at r, follower_number = gu_followers r\<rparr>]\<rparr>))"

definition create_users :: "gh_api \<Rightarrow> gh_contributor list \<Rightarrow> db \<Rightarrow> db res" where
  "create_users api = fold_res (\<lambda>s c. create_user api (ct_login c) (ct_contributions c) s)"

definition get_contributors :: "gh_api \<Rightarrow> db \<Rightarrow> db res option" where
  "get_contributors api s = page_loop (api_contributors api) (create_users api) 1 s"

section \<open>Pull requests\<close>

definition next_pull_id :: "db \<Rightarrow> nat" where
  "next_pull_id s = Suc (fold max (map pull_id (pull_table s)) 0)"

text \<open>\<open>Pull(merged=..., state=..., author=get_developer(pull['user']['login']))\<close>.\<close>

definition save_pull :: "gh_api \<Rightarrow> db \<Rightarrow> gh_pull_item \<Rightarrow> db res" where
  "save_pull api s p =
     (let tp = api_pull api (pi_url p) in
      bindr (get_developer s (pi_login p)) (\<lambda>dev.
        Inr (s\<lparr>pull_table := pull_table s @
          [\<lparr>pull_id = next_pull_id s, merged = gp_merged tp, state = gp_state tp,
            p_developer_id = map_option dev_id dev\<rparr>]\<rparr>)))"

definition get_pulls :: "gh_api \<Rightarrow> db \<Rightarrow> db res option" where
  "get_pulls api s = page_loop (api_pulls api) (fold_res (save_pull api)) 1 s"

section \<open>Commits\<close>

record gcs_state =
  gcs_db :: db
  gcs_data :: "gh_commit option"
  gcs_dev :: "developer option"

text \<open>
  \<open>for parent in tmp['parents']\<close> of a merge: \<open>commit_data\<close> becomes each parent's
  JSON in turn, the developer the last parent whose author has a \<open>Developer\<close> row.
\<close>

fun merge_parents ::
  "gh_api \<Rightarrow> db \<Rightarrow> string list \<Rightarrow> gh_commit option \<times> developer option \<Rightarrow>
   (gh_commit option \<times> developer option) res" where
  "merge_parents api s [] v = Inr v"
| "merge_parents api s (p # ps) (cd, dt) =
     (let cd' = api_commit api p in
      case api_author api p of
        None \<Rightarrow> merge_parents api s ps (Some cd', dt)
      | Some u \<Rightarrow> bindr (get_developer s u) (\<lambda>d.
          merge_parents api s ps (Some cd', case d of None \<Rightarrow> dt | Some x \<Rightarrow> Some x)))"

definition new_commit_id :: "db \<Rightarrow> nat" where
  "new_commit_id s = Suc (fold max (map commit_id (commits_table s)) 0)"

text \<open>
  \<open>commit = Commits(...); add; flush; commit.changed_chars, ... = save_file_changes(...)\<close>;
  the day is \<open>commit_timestamp.date()\<close>, the floor of the seconds by a day.
\<close>

definition store_commit :: "db \<Rightarrow> gh_commit \<Rightarrow> developer \<Rightarrow> db res" where
  "store_commit s cd dt =
     (let cid = new_commit_id s;
          row = \<lparr>commit_id = cid, day = py_date (gh_date cd), timestamp = gh_date cd, languages = [],
                 message = gh_message cd, new_lines = gh_additions cd, removed_lines = gh_deletions cd,
                 changed_chars = 0, added_files = 0, modified_files = 0, removed_files = 0,
                 renamed_files = 0, c_developer_id = dev_id dt\<rparr>
      in bindr (save_file_changes cd cid (s\<lparr>commits_table := commits_table s @ [row]\<rparr>) (dev_id dt))
           (\<lambda>(s', ch, a, m, r, rn).
              Inr (s'\<lparr>commits_table := map (\<lambda>c. if commit_id c = cid
                  then c\<lparr>changed_chars := ch, added_files := a, modified_files := m,
                         removed_files := r, renamed_files := rn\<rparr> else c) (commits_table s')\<rparr>)))"

text \<open>
  One entry \<open>tmp\<close> of a page; an unbound \<open>commit_data\<close> or \<open>developer_id\<close> is
  Python's \<open>UnboundLocalError\<close>, a \<open>NameError\<close>.
\<close>

definition commit_entry :: "gh_api \<Rightarrow> developer \<Rightarrow> gcs_state \<Rightarrow> gh_item \<Rightarrow> gcs_state res" where
  "commit_entry api dev st it =
     bindr (if 1 < length (gi_parents it)
            then merge_parents api (gcs_db st) (gi_parents it) (gcs_data st, gcs_dev st)
            else Inr (Some (api_commit api (gi_url it)), Some dev)) (\<lambda>(cdo, dto).
     case (cdo, dto) of
       (Some cd, Some dt) \<Rightarrow>
         bindr (store_commit (gcs_db st) cd dt) (\<lambda>s'. Inr \<lparr>gcs_db = s', gcs_data = cdo, gcs_dev = dto\<rparr>)
     | _ \<Rightarrow> Inl NameError)"

definition commits_body :: "gh_api \<Rightarrow> developer \<Rightarrow> gh_item list \<Rightarrow> gcs_state \<Rightarrow> gcs_state res" where
  "commits_body api dev data st = (if data = [] then Inr st else fold_res (commit_entry api dev) data st)"

definition get_commits :: "gh_api \<Rightarrow> db \<Rightarrow> developer \<Rightarrow> db res option" where
  "get_commits api s dev =
     map_option (\<lambda>r. bindr r (\<lambda>st. Inr (gcs_db st)))
       (page_loop (api_commits api (username dev)) (commits_body api dev) 1
          \<lparr>gcs_db = s, gcs_data = None, gcs_dev = None\<rparr>)"

text \<open>The tables the commit ingestion must leave alone (\<open>Driver.ingest_ok\<close>).\<close>

definition kept_tables :: "db \<Rightarrow> developer list \<times> developer_stats list \<times> repo_stats list" where
  "kept_tables s = (developer_table s, developer_stats_table s, repo_stats_table s)"

text \<open>
  An API with one contributor \<open>alice\<close>, one pull request by \<open>bob\<close>, and one page
  holding one ordinary commit (one parent) for every author.
\<close>

definition ex_api :: gh_api where
  "ex_api = \<lparr>api_user = (\<lambda>u. Some \<lparr>gu_login = u, gu_created_at = 0, gu_followers = 0\<rparr>),
     api_contributors = (\<lambda>n. if n = 1 then [\<lparr>ct_login = ''alice'', ct_contributions = 3\<rparr>] else []),
     api_commits = (\<lambda>u n. if n = 1 then [\<lparr>gi_url = ''c1'', gi_parents = [''p0'']\<rparr>] else []),
     api_commit = (\<lambda>url. ex_gh_commit), api_author = (\<lambda>url. None),
     api_pulls = (\<lambda>n. if n = 1 then [\<lparr>pi_url = ''pr1'', pi_login = ''bob''\<rparr>] else []),
     api_pull = (\<lambda>url. \<lparr>gp_merged = False, gp_state = ''closed''\<rparr>), api_search = (\<lambda>u. Some 1)\<rparr>"

section \<open>Lemmas\<close>

subsection \<open>The page loop\<close>

lemma fold_res_append: "fold_res f (xs @ ys) s = bindr (fold_res f xs s) (fold_res f ys)"
  by (induction xs arbitrary: s) (simp_all add: bindr_def split: sum.split)

lemma fold_res_inv:
  "(\<And>s x s'. f s x = Inr s' \<Longrightarrow> P s \<Longrightarrow> P s') \<Longrightarrow> fold_res f xs s = Inr s' \<Longrightarrow> P s \<Longrightarrow> P s'"
  by (induction xs arbitrary: s) (auto simp: bindr_eq_Inr_iff)

text \<open>The loop returns when some page at or after the current one is short.\<close>

lemma page_loop_returns:
  "length (fetch (page + k)) < 100 \<Longrightarrow> \<exists>r. page_loop fetch body page s = Some r"
proof (induction k arbitrary: page s)
  case 0
  then show ?case by (subst page_loop.simps) (simp add: Let_def split: sum.split)
next
  case (Suc k)
  then have "\<And>s. \<exists>r. page_loop fetch body (Suc page) s = Some r" by simp
  then show ?case by (subst page_loop.simps) (simp add: Let_def split: sum.split)
qed

text \<open>What the loop computes when page \<open>p + k\<close> is the first short one.\<close>

lemma page_loop_pages:
  "\<forall>i<k. 100 \<le> length (fetch (p + i)) \<Longrightarrow> length (fetch (p + k)) < 100 \<Longrightarrow>
   page_loop fetch (fold_res f) p s = Some (fold_res f (concat (map fetch [p..<p + Suc k])) s)"
proof (induction k arbitrary: p s)
  case 0
  then show ?case by (subst page_loop.simps) (simp add: Let_def split: sum.split)
next
  case (Suc k)
  have full: "\<not> length (fetch p) < 100" using Suc.prems(1) by (metis add_0_right not_le zero_less_Suc)
  have ih: "page_loop fetch (fold_res f) (Suc p) s' =
      Some (fold_res f (concat (map fetch [Suc p..<Suc p + Suc k])) s')" for s'
    using Suc.prems by (intro Suc.IH) (auto simp: add_Suc_shift)
  have "[p..<p + Suc (Suc k)] = p # [Suc p..<Suc p + Suc k]" by (simp add: upt_conv_Cons)
  then show ?case using full ih
    by (subst page_loop.simps) (simp add: Let_def fold_res_append bindr_def split: sum.split)
qed

lemma page_loop_from_1:
  assumes "1 \<le> n" and "\<forall>i\<in>{1..<n}. 100 \<le> length (fetch i)" and "length (fetch n) < 100"
  shows "page_loop fetch (fold_res f) 1 s = Some (fold_res f (concat (map fetch [1..<Suc n])) s)"
proof -
  have "\<forall>i<n - 1. 100 \<le> length (fetch (1 + i))" using assms(2) by auto
  moreover have "length (fetch (1 + (n - 1))) < 100" using assms(1,3) by simp
  ultimately show ?thesis using page_loop_pages [of "n - 1" fetch 1 f s] assms(1) by simp
qed

text \<open>Partial correctness: a property every body run keeps holds of the result.\<close>

lemma page_loop_inv_raw:
  "page_loop fetch body page s = Some r \<Longrightarrow>
   (\<forall>d s s'. body d s = Inr s' \<longrightarrow> P s \<longrightarrow> P s') \<longrightarrow> P s \<longrightarrow> (\<forall>s'. r = Inr s' \<longrightarrow> P s')"
proof (induction rule: page_loop.raw_induct [rotated 1, consumes 1])
  case (1 loop fetch body page s r)
  show ?case
  proof (intro impI)
    assume b: "\<forall>d s s'. body d s = Inr s' \<longrightarrow> P s \<longrightarrow> P s'" and p: "P s"
    show "\<forall>s'. r = Inr s' \<longrightarrow> P s'"
    proof (cases "body (fetch page) s")
      case (Inl e)
      then show ?thesis using 1(2) by (auto simp: Let_def)
    next
      case (Inr s1)
      then have p1: "P s1" using b p by blast
      show ?thesis
      proof (cases "length (fetch page) < 100")
        case True
        then show ?thesis using 1(2) Inr p1 by (auto simp: Let_def)
      next
        case False
        then have "loop fetch body (Suc page) s1 = Some r" using 1(2) Inr by (simp add: Let_def)
        then show ?thesis using 1(1) b p1 by blast
      qed
    qed
  qed
qed

lemma page_loop_inv:
  "page_loop fetch body page s = Some (Inr s') \<Longrightarrow> (\<And>d s s'. body d s = Inr s' \<Longrightarrow> P s \<Longrightarrow> P s') \<Longrightarrow>
   P s \<Longrightarrow> P s'"
  using page_loop_inv_raw [of fetch body page s "Inr s'" P] by blast

lemma fold_max_fresh: "Suc (fold max xs (0::nat)) \<notin> set xs"
proof
  assume "Suc (fold max xs 0) \<in> set xs"
  then have "Suc (fold max xs 0) \<le> Max (set (0 # xs))" by simp
  moreover have "fold max xs 0 = Max (set (0 # xs))" by (rule Max.set_eq_fold [symmetric])
  ultimately show False by simp
qed

text \<open>
  \<open>int(user_contributions(u))\<close>, as \<open>is_contributor\<close> computes it, never raises: it
  is the \<open>total_count\<close>, or 0 for a reply without one. This is the integer the rule
  evaluator reads as \<open>user_contributions\<close> of its environment.
\<close>

lemma py_int_user_contributions:
  "py_int (user_contributions_api api u) = Inr (case api_search api u of Some t \<Rightarrow> t | None \<Rightarrow> 0)"
  by (simp add: py_int_def user_contributions_api_def is_digit_def digits_value_def digit_value_def
      split: option.split)

lemma one_or_none_filter_find:
  "length (filter P xs) \<le> 1 \<Longrightarrow> one_or_none (filter P xs) = Inr (find P xs)"
  by (induction xs) (auto simp: filter_empty_conv)

subsection \<open>Users\<close>

lemma create_user_Inr:
  "api_user api u = Some r \<Longrightarrow>
   create_user api u k s = Inr (s\<lparr>developer_table := developer_table s @
     [\<lparr>dev_id = next_developer_id s, username = gu_login r, contributions = k,
       account_creation = gu_created_at r, follower_number = gu_followers r\<rparr>]\<rparr>)"
  by (simp add: create_user_def)

lemma create_users_Inr:
  "\<forall>c\<in>set cs. api_user api (ct_login c) \<noteq> None \<Longrightarrow>
   \<exists>s'. create_users api cs s = Inr s' \<and> s'\<lparr>developer_table := developer_table s\<rparr> = s \<and>
     map username (developer_table s') =
       map username (developer_table s) @ map (\<lambda>c. gu_login (the (api_user api (ct_login c)))) cs \<and>
     (distinct (map dev_id (developer_table s)) \<longrightarrow> distinct (map dev_id (developer_table s')))"
proof (induction cs arbitrary: s)
  case Nil
  then show ?case by (simp add: create_users_def)
next
  case (Cons c cs)
  then obtain r where r: "api_user api (ct_login c) = Some r" by auto
  define s1 where "s1 = s\<lparr>developer_table := developer_table s @
     [\<lparr>dev_id = next_developer_id s, username = gu_login r, contributions = ct_contributions c,
       account_creation = gu_created_at r, follower_number = gu_followers r\<rparr>]\<rparr>"
  have d1: "distinct (map dev_id (developer_table s)) \<longrightarrow> distinct (map dev_id (developer_table s1))"
    using fold_max_fresh [of "map dev_id (developer_table s)"] by (simp add: s1_def next_developer_id_def)
  obtain s' where c: "create_users api cs s1 = Inr s'" and h: "s'\<lparr>developer_table := developer_table s1\<rparr> = s1"
    and n: "map username (developer_table s') =
       map username (developer_table s1) @ map (\<lambda>c. gu_login (the (api_user api (ct_login c)))) cs"
    and d: "distinct (map dev_id (developer_table s1)) \<longrightarrow> distinct (map dev_id (developer_table s'))"
    using Cons by auto
  have "create_users api (c # cs) s = create_users api cs s1"
    using r by (simp add: create_users_def create_user_Inr s1_def)
  moreover have "s'\<lparr>developer_table := developer_table s\<rparr> = s1\<lparr>developer_table := developer_table s\<rparr>"
    by (subst h [symmetric]) simp
  moreover have "s1\<lparr>developer_table := developer_table s\<rparr> = s" by (simp add: s1_def)
  ultimately show ?case using c n d d1 r by (simp add: s1_def)
qed

subsection \<open>Pull requests\<close>

lemma save_pulls_Inr:
  "unique_usernames s \<Longrightarrow>
   \<exists>s'. fold_res (save_pull api) ps s = Inr s' \<and> developer_table s' = developer_table s \<and>
     map p_developer_id (pull_table s') = map p_developer_id (pull_table s) @
       map (\<lambda>p. map_option dev_id (find (\<lambda>d. username d = pi_login p) (developer_table s))) ps \<and>
     (distinct (map pull_id (pull_table s)) \<longrightarrow> distinct (map pull_id (pull_table s')))"
proof (induction ps arbitrary: s)
  case Nil
  then show ?case by simp
next
  case (Cons p ps)
  have u: "length (devs_named s (pi_login p)) \<le> 1" using Cons.prems by (rule devs_named_unique)
  have g: "get_developer s (pi_login p) = Inr (find (\<lambda>d. username d = pi_login p) (developer_table s))"
    using one_or_none_filter_find u unfolding get_developer_def devs_named_def by blast
  define s1 where "s1 = s\<lparr>pull_table := pull_table s @
      [\<lparr>pull_id = next_pull_id s, merged = gp_merged (api_pull api (pi_url p)),
        state = gp_state (api_pull api (pi_url p)),
        p_developer_id = map_option dev_id (find (\<lambda>d. username d = pi_login p) (developer_table s))\<rparr>]\<rparr>"
  have e: "save_pull api s p = Inr s1" using g by (simp add: save_pull_def s1_def Let_def)
  have "unique_usernames s1" using Cons.prems by (simp add: s1_def unique_usernames_def)
  then obtain s' where "fold_res (save_pull api) ps s1 = Inr s'" and "developer_table s' = developer_table s1"
    and "map p_developer_id (pull_table s') = map p_developer_id (pull_table s1) @
       map (\<lambda>p. map_option dev_id (find (\<lambda>d. username d = pi_login p) (developer_table s1))) ps"
    and "distinct (map pull_id (pull_table s1)) \<longrightarrow> distinct (map pull_id (pull_table s'))"
    using Cons.IH by blast
  moreover have "distinct (map pull_id (pull_table s)) \<longrightarrow> distinct (map pull_id (pull_table s1))"
    using fold_max_fresh [of "map pull_id (pull_table s)"] by (simp add: s1_def next_pull_id_def)
  ultimately show ?case using e by (simp add: s1_def)
qed

subsection \<open>Commits\<close>

lemma kept_tables_simps [simp]:
  "kept_tables (update_file s i g) = kept_tables s"
  "kept_tables (s\<lparr>file_table := ft\<rparr>) = kept_tables s"
  "kept_tables (s\<lparr>commits_table := ct\<rparr>) = kept_tables s"
  "kept_tables (s\<lparr>commits_files_table := cft\<rparr>) = kept_tables s"
  "kept_tables (set_owner s fid st dv) = kept_tables s"
  "kept_tables (link_file s cid fid fn st) = kept_tables s"
  "kept_tables (fst (open_file s n fo)) = kept_tables s"
  by (simp_all add: kept_tables_def update_file_def set_owner_def link_file_def open_file_def Let_def
      split: option.splits)

lemma rename_file_kept: "rename_file s fid f = Inr s' \<Longrightarrow> kept_tables s' = kept_tables s"
  by (auto simp: rename_file_def bindr_eq_Inr_iff split: option.splits)

lemma save_file_step_kept:
  "save_file_step cid dv acc f = Inr acc' \<Longrightarrow> kept_tables (sfc_db acc') = kept_tables (sfc_db acc)"
proof (erule save_file_step_db)
  fix fo s1 fid fname s2
  assume "open_file (sfc_db acc) (gh_filename f) fo = (s1, fid, fname)"
    and "(if gh_status f = ''renamed'' then rename_file s1 fid f else Inr s1) = Inr s2"
    and "sfc_db acc' = link_file (set_owner s2 fid (gh_status f) dv) cid fid fname (gh_status f)"
  moreover have "kept_tables s1 = kept_tables (sfc_db acc)"
    using kept_tables_simps(7) [of "sfc_db acc" "gh_filename f" fo] calculation(1) by simp
  ultimately show ?thesis by (auto dest: rename_file_kept split: if_splits)
qed

lemma save_files_kept:
  "save_files cid dv fs acc = Inr acc' \<Longrightarrow> kept_tables (sfc_db acc') = kept_tables (sfc_db acc)"
  by (induction fs arbitrary: acc) (auto simp: bindr_eq_Inr_iff dest!: save_file_step_kept)

lemma store_commit_kept: "store_commit s cd dt = Inr s' \<Longrightarrow> kept_tables s' = kept_tables s"
  by (auto simp: store_commit_def save_file_changes_def Let_def bindr_eq_Inr_iff dest!: save_files_kept)

lemma commit_entry_Inr:
  assumes "commit_entry api dev st it = Inr st'"
  obtains cd dt where "store_commit (gcs_db st) cd dt = Inr (gcs_db st')"
proof -
  obtain v where "(if 1 < length (gi_parents it)
            then merge_parents api (gcs_db st) (gi_parents it) (gcs_data st, gcs_dev st)
            else Inr (Some (api_commit api (gi_url it)), Some dev)) = Inr v"
    and "(case v of (cdo, dto) \<Rightarrow> case (cdo, dto) of
       (Some cd, Some dt) \<Rightarrow>
         bindr (store_commit (gcs_db st) cd dt) (\<lambda>s'. Inr \<lparr>gcs_db = s', gcs_data = cdo, gcs_dev = dto\<rparr>)
     | _ \<Rightarrow> Inl NameError) = Inr st'"
    using assms unfolding commit_entry_def bindr_eq_Inr_iff by blast
  then show ?thesis using that by (auto simp: bindr_eq_Inr_iff split: prod.splits option.splits)
qed

lemma commit_entry_kept:
  "commit_entry api dev st it = Inr st' \<Longrightarrow> kept_tables (gcs_db st') = kept_tables (gcs_db st)"
  by (erule commit_entry_Inr) (rule store_commit_kept)

lemma commit_entries_kept:
  assumes "fold_res (commit_entry api dev) d st = Inr st'"
  shows "kept_tables (gcs_db st') = kept_tables (gcs_db st)"
proof -
  have "\<And>t x t'. commit_entry api dev t x = Inr t' \<Longrightarrow> kept_tables (gcs_db t) = kept_tables (gcs_db st) \<Longrightarrow>
      kept_tables (gcs_db t') = kept_tables (gcs_db st)"
    by (drule commit_entry_kept) simp
  from fold_res_inv [where P = "\<lambda>t. kept_tables (gcs_db t) = kept_tables (gcs_db st)", OF this assms]
  show ?thesis by simp
qed

lemma commits_body_kept:
  "commits_body api dev d st = Inr st' \<Longrightarrow> kept_tables (gcs_db st') = kept_tables (gcs_db st)"
  unfolding commits_body_def by (auto split: if_splits dest: commit_entries_kept)

lemma get_commits_kept:
  "get_commits api s dev = Some (Inr s') \<Longrightarrow> kept_tables s' = kept_tables s"
proof -
  assume "get_commits api s dev = Some (Inr s')"
  then obtain st' where l: "page_loop (api_commits api (username dev)) (commits_body api dev) 1
      \<lparr>gcs_db = s, gcs_data = None, gcs_dev = None\<rparr> = Some (Inr st')" and "s' = gcs_db st'"
    by (auto simp: get_commits_def bindr_eq_Inr_iff)
  moreover have "kept_tables (gcs_db st') = kept_tables s"
    using page_loop_inv [OF l, where P = "\<lambda>t. kept_tables (gcs_db t) = kept_tables s"]
    by (simp add: commits_body_kept)
  ultimately show ?thesis by simp
qed

lemma commits_body_fold: "commits_body api dev = fold_res (commit_entry api dev)"
  by (simp add: commits_body_def fun_eq_iff)

lemma get_commits_returns_from:
  "1 \<le> n \<Longrightarrow> length (api_commits api (username dev) n) < 100 \<Longrightarrow> \<exists>r. get_commits api s dev = Some r"
  using page_loop_returns [of "api_commits api (username dev)" 1 "n - 1" "commits_body api dev"
      "\<lparr>gcs_db = s, gcs_data = None, gcs_dev = None\<rparr>"]
  by (auto simp: get_commits_def)

text \<open>A merge whose parents have no author with a \<open>Developer\<close> row leaves the developer as it was.\<close>

lemma merge_parents_unknown:
  "\<forall>p\<in>set ps. \<forall>u. api_author api p = Some u \<longrightarrow> devs_named s u = [] \<Longrightarrow>
   merge_parents api s ps (cd, dt) = Inr (if ps = [] then cd else Some (api_commit api (last ps)), dt)"
  by (induction ps arbitrary: cd) (auto simp: get_developer_def Let_def split: option.split)

section \<open>Properties\<close>

text \<open>
  C11: the commit ingestion \<open>get_commits\<close> meets the contract the driver
  \<open>get_repository_info\<close> relies on: whenever it returns, the developers and both
  baseline tables are as they were.
\<close>

theorem get_commits_ingest_ok: "Driver.ingest_ok (get_commits api)"
  unfolding ingest_ok_def using get_commits_kept by (simp add: kept_tables_def)

theorem get_commits_ingest_ok_witness:
  "Driver.ingest_ok (get_commits ex_api) \<and>
   (\<exists>s'. get_commits ex_api ex_base_db (ex_dev 7 ''alice'') = Some (Inr s') \<and>
      developer_table s' = [ex_dev 7 ''alice''] \<and> length (commits_table s') = 3)"
proof -
  have h: "length (api_commits ex_api (username (ex_dev 7 ''alice'')) 1) < 100" by (simp add: ex_api_def)
  have "get_commits ex_api ex_base_db (ex_dev 7 ''alice'') =
     Some (bindr (fold_res (commit_entry ex_api (ex_dev 7 ''alice''))
        (concat (map (api_commits ex_api (username (ex_dev 7 ''alice''))) [1..<Suc 1]))
        \<lparr>gcs_db = ex_base_db, gcs_data = None, gcs_dev = None\<rparr>) (\<lambda>st. Inr (gcs_db st)))"
    unfolding get_commits_def commits_body_fold by (subst page_loop_from_1) (use h in auto)
  then obtain s' where e: "get_commits ex_api ex_base_db (ex_dev 7 ''alice'') = Some (Inr s')"
    and l: "length (commits_table s') = 3"
    by (simp add: ex_api_def ex_dev_def commit_entry_def store_commit_def save_file_changes_def
        ex_gh_commit_def new_commit_id_def ex_base_db_def ex_commit_def Let_def)
  have "developer_table s' = developer_table ex_base_db"
    using get_commits_ingest_ok [of ex_api] e unfolding ingest_ok_def by blast
  then show ?thesis using get_commits_ingest_ok [of ex_api] e l by (simp add: ex_base_db_def)
qed

text \<open>
  C12: \<open>get_commits\<close> returns as soon as a page of the author's commits is short, and
  it has then processed exactly the entries of pages \<open>1\<close> to that page, in order.
\<close>

theorem get_commits_pages:
  assumes "1 \<le> n" and "\<forall>i\<in>{1..<n}. 100 \<le> length (api_commits api (username dev) i)"
    and "length (api_commits api (username dev) n) < 100"
  shows "get_commits api s dev =
     Some (bindr (fold_res (commit_entry api dev) (concat (map (api_commits api (username dev)) [1..<Suc n]))
                    \<lparr>gcs_db = s, gcs_data = None, gcs_dev = None\<rparr>) (\<lambda>st. Inr (gcs_db st)))"
  unfolding get_commits_def commits_body_fold page_loop_from_1 [OF assms] by simp

theorem get_commits_pages_witness:
  "length (api_commits ex_api ''bob'' 1) < 100 \<and>
   (\<exists>s'. get_commits ex_api empty_db (ex_dev 8 ''bob'') = Some (Inr s') \<and>
      map c_developer_id (commits_table s') = [8])"
proof -
  have h: "length (api_commits ex_api (username (ex_dev 8 ''bob'')) 1) < 100" by (simp add: ex_api_def)
  have "get_commits ex_api empty_db (ex_dev 8 ''bob'') =
     Some (bindr (fold_res (commit_entry ex_api (ex_dev 8 ''bob''))
        (concat (map (api_commits ex_api (username (ex_dev 8 ''bob''))) [1..<Suc 1]))
        \<lparr>gcs_db = empty_db, gcs_data = None, gcs_dev = None\<rparr>) (\<lambda>st. Inr (gcs_db st)))"
    by (rule get_commits_pages) (use h in auto)
  then show ?thesis
    by (simp add: ex_api_def ex_dev_def commit_entry_def store_commit_def save_file_changes_def
        ex_gh_commit_def new_commit_id_def empty_db_def)
qed

text \<open>
  C13: round trip of \<open>create_user\<close> and \<open>get_developer\<close>: the developer created
  from the reply is found again under its \<open>login\<close>, with its contributions, creation
  date and followers, when no row had that name; when one had, the lookup of that
  name raises \<open>MultipleResultsFound\<close> from then on, since \<open>create_user\<close> does not check.
\<close>

theorem create_user_get_developer:
  assumes "api_user api u = Some r"
  shows "\<exists>s'. create_user api u k s = Inr s' \<and>
     get_developer s' (gu_login r) =
       (if devs_named s (gu_login r) = []
        then Inr (Some \<lparr>dev_id = next_developer_id s, username = gu_login r, contributions = k,
                       account_creation = gu_created_at r, follower_number = gu_followers r\<rparr>)
        else Inl MultipleResultsFound)"
proof -
  let ?d = "\<lparr>dev_id = next_developer_id s, username = gu_login r, contributions = k,
             account_creation = gu_created_at r, follower_number = gu_followers r\<rparr>"
  let ?s' = "s\<lparr>developer_table := developer_table s @ [?d]\<rparr>"
  have "devs_named ?s' (gu_login r) = devs_named s (gu_login r) @ [?d]"
    by (simp add: devs_named_def)
  then have "get_developer ?s' (gu_login r) =
      (if devs_named s (gu_login r) = [] then Inr (Some ?d) else Inl MultipleResultsFound)"
    by (simp add: get_developer_def)
  then show ?thesis using create_user_Inr [OF assms] by blast
qed

theorem create_user_get_developer_witness:
  "api_user ex_api ''alice'' = Some \<lparr>gu_login = ''alice'', gu_created_at = 0, gu_followers = 0\<rparr> \<and>
   (\<exists>s'. create_user ex_api ''alice'' 3 empty_db = Inr s' \<and>
      get_developer s' ''alice'' = Inr (Some \<lparr>dev_id = 1, username = ''alice'', contributions = 3,
        account_creation = 0, follower_number = 0\<rparr>))"
proof -
  have h: "api_user ex_api ''alice'' = Some \<lparr>gu_login = ''alice'', gu_created_at = 0, gu_followers = 0\<rparr>"
    by (simp add: ex_api_def)
  show ?thesis using create_user_get_developer [OF h, of 3 empty_db] h
    by (simp add: empty_db_def devs_named_def next_developer_id_def)
qed

text \<open>
  C14: when page \<open>n\<close> of the contributors is the first short one and every contributor
  is a GitHub user, \<open>get_contributors\<close> returns, having appended one \<open>Developer\<close>
  per contributor of pages \<open>1..n\<close>, in order, named by the reply's \<open>login\<close>,
  with fresh ids, and nothing else changed.
\<close>

theorem get_contributors_pages:
  assumes "1 \<le> n" and "\<forall>i\<in>{1..<n}. 100 \<le> length (api_contributors api i)"
    and "length (api_contributors api n) < 100"
    and "\<forall>c\<in>set (concat (map (api_contributors api) [1..<Suc n])). api_user api (ct_login c) \<noteq> None"
  shows "\<exists>s'. get_contributors api s = Some (Inr s') \<and> s'\<lparr>developer_table := developer_table s\<rparr> = s \<and>
     map username (developer_table s') = map username (developer_table s) @
       map (\<lambda>c. gu_login (the (api_user api (ct_login c)))) (concat (map (api_contributors api) [1..<Suc n])) \<and>
     (distinct (map dev_id (developer_table s)) \<longrightarrow> distinct (map dev_id (developer_table s')))"
  using create_users_Inr [OF assms(4), of s]
  unfolding get_contributors_def create_users_def page_loop_from_1 [OF assms(1-3)] by simp

theorem get_contributors_pages_witness:
  "length (api_contributors ex_api 1) < 100 \<and>
   (\<exists>s'. get_contributors ex_api empty_db = Some (Inr s') \<and> map username (developer_table s') = [''alice''])"
proof -
  have h3: "length (api_contributors ex_api 1) < 100" by (simp add: ex_api_def)
  have h4: "\<forall>c\<in>set (concat (map (api_contributors ex_api) [1..<Suc 1])). api_user ex_api (ct_login c) \<noteq> None"
    by (simp add: ex_api_def)
  obtain s' where "get_contributors ex_api empty_db = Some (Inr s')"
    and "map username (developer_table s') = map username (developer_table empty_db) @
       map (\<lambda>c. gu_login (the (api_user ex_api (ct_login c)))) (concat (map (api_contributors ex_api) [1..<Suc 1]))"
    using get_contributors_pages [of 1 ex_api, OF _ _ h3 h4] by auto
  then show ?thesis using h3 h4 by (auto simp: ex_api_def empty_db_def)
qed

text \<open>
  C15: the commit stored for a merge entry is the JSON of its last parent, credited to
  the developer of the last parent whose author has a \<open>Developer\<close> row. When no parent
  has one, it is credited to whichever developer the previous entry left in
  \<open>dev_tmp\<close> (the author being ingested or not), and if there was none the entry raises
  \<open>NameError\<close>.
\<close>

theorem merge_commit_attribution:
  assumes "1 < length (gi_parents it)"
    and "\<forall>p\<in>set (gi_parents it). \<forall>u. api_author api p = Some u \<longrightarrow> devs_named (gcs_db st) u = []"
  shows "commit_entry api dev st it =
     (case gcs_dev st of
        None \<Rightarrow> Inl NameError
      | Some d \<Rightarrow> bindr (store_commit (gcs_db st) (api_commit api (last (gi_parents it))) d) (\<lambda>s'.
          Inr \<lparr>gcs_db = s', gcs_data = Some (api_commit api (last (gi_parents it))), gcs_dev = Some d\<rparr>))"
proof -
  have "gi_parents it \<noteq> []" using assms(1) by auto
  then show ?thesis using merge_parents_unknown [OF assms(2), of "gcs_data st" "gcs_dev st"] assms(1)
    by (simp add: commit_entry_def split: option.split)
qed

theorem merge_commit_attribution_witness:
  "1 < length (gi_parents \<lparr>gi_url = ''m'', gi_parents = [''p1'', ''p2'']\<rparr>) \<and>
   api_author ex_api ''p1'' = None \<and> api_author ex_api ''p2'' = None \<and>
   (\<exists>st'. commit_entry ex_api (ex_dev 8 ''bob'')
            \<lparr>gcs_db = empty_db, gcs_data = None, gcs_dev = Some (ex_dev 7 ''alice'')\<rparr>
            \<lparr>gi_url = ''m'', gi_parents = [''p1'', ''p2'']\<rparr> = Inr st' \<and>
      map c_developer_id (commits_table (gcs_db st')) = [7]) \<and>
   commit_entry ex_api (ex_dev 8 ''bob'') \<lparr>gcs_db = empty_db, gcs_data = None, gcs_dev = None\<rparr>
     \<lparr>gi_url = ''m'', gi_parents = [''p1'', ''p2'']\<rparr> = Inl NameError"
proof -
  have h1: "1 < length (gi_parents \<lparr>gi_url = ''m'', gi_parents = [''p1'', ''p2'']\<rparr>)" by simp
  have h2: "\<forall>p\<in>set (gi_parents \<lparr>gi_url = ''m'', gi_parents = [''p1'', ''p2'']\<rparr>). \<forall>u.
      api_author ex_api p = Some u \<longrightarrow> devs_named (gcs_db st) u = []" for st :: "unit gcs_state_scheme"
    by (simp add: ex_api_def)
  note a = merge_commit_attribution [OF h1 h2]
  have "commit_entry ex_api (ex_dev 8 ''bob'')
            \<lparr>gcs_db = empty_db, gcs_data = None, gcs_dev = Some (ex_dev 7 ''alice'')\<rparr>
            \<lparr>gi_url = ''m'', gi_parents = [''p1'', ''p2'']\<rparr> =
      Inr \<lparr>gcs_db = empty_db\<lparr>commits_table := [(ex_commit 1 7 0 0)\<lparr>languages := []\<rparr>]\<rparr>,
           gcs_data = Some ex_gh_commit, gcs_dev = Some (ex_dev 7 ''alice'')\<rparr>"
    unfolding a by (simp add: ex_api_def ex_dev_def store_commit_def save_file_changes_def ex_gh_commit_def
        new_commit_id_def empty_db_def ex_commit_def py_date_def)
  moreover have "commit_entry ex_api (ex_dev 8 ''bob'') \<lparr>gcs_db = empty_db, gcs_data = None, gcs_dev = None\<rparr>
     \<lparr>gi_url = ''m'', gi_parents = [''p1'', ''p2'']\<rparr> = Inl NameError"
    unfolding a by simp
  ultimately show ?thesis using h1 by (simp add: ex_commit_def ex_api_def)
qed

text \<open>
  C16: when page \<open>n\<close> of the pull requests is the first short one and usernames are
  unique, \<open>get_pulls\<close> returns without error and appends one \<open>Pull\<close> per pull
  request of pages \<open>1..n\<close>, with fresh ids; its author is the \<open>Developer\<close> with the
  login of the pull request's user, and \<open>NULL\<close> when there is none.
\<close>

theorem get_pulls_pages:
  assumes "unique_usernames s" and "distinct (map pull_id (pull_table s))"
    and "1 \<le> n" and "\<forall>i\<in>{1..<n}. 100 \<le> length (api_pulls api i)" and "length (api_pulls api n) < 100"
  shows "\<exists>s'. get_pulls api s = Some (Inr s') \<and> developer_table s' = developer_table s \<and>
     map p_developer_id (pull_table s') = map p_developer_id (pull_table s) @
       map (\<lambda>p. map_option dev_id (find (\<lambda>d. username d = pi_login p) (developer_table s)))
         (concat (map (api_pulls api) [1..<Suc n])) \<and>
     distinct (map pull_id (pull_table s'))"
  using save_pulls_Inr [OF assms(1), of api "concat (map (api_pulls api) [1..<Suc n])"] assms(2)
  unfolding get_pulls_def page_loop_from_1 [OF assms(3-5)] by auto

theorem get_pulls_pages_witness:
  "unique_usernames empty_db \<and> distinct (map pull_id (pull_table empty_db)) \<and>
   length (api_pulls ex_api 1) < 100 \<and>
   (\<exists>s'. get_pulls ex_api empty_db = Some (Inr s') \<and> map p_developer_id (pull_table s') = [None])"
proof -
  have h1: "unique_usernames empty_db" by (simp add: unique_usernames_def empty_db_def)
  have h2: "distinct (map pull_id (pull_table empty_db))" by (simp add: empty_db_def)
  have h5: "length (api_pulls ex_api 1) < 100" by (simp add: ex_api_def)
  obtain s' where "get_pulls ex_api empty_db = Some (Inr s')"
    and "map p_developer_id (pull_table s') = map p_developer_id (pull_table empty_db) @
       map (\<lambda>p. map_option dev_id (find (\<lambda>d. username d = pi_login p) (developer_table empty_db)))
         (concat (map (api_pulls ex_api) [1..<Suc 1]))"
    using get_pulls_pages [OF h1 h2, of 1, OF _ _ h5] by auto
  then show ?thesis using h1 h2 h5 by (auto simp: ex_api_def empty_db_def)
qed

end
