(* ===== verification/Reports.thy ===== *)
theory Reports
  imports Ingest
begin

text \<open>
  The console reports of \<open>src/app/run.py\<close> and the \<open>__repr__\<close> methods of
  \<open>src/app/models.py\<close> they print: \<open>get_dev_commits\<close> (a developer and its
  commits), \<open>get_all_dev_daily_stats\<close> (every developer's \<open>CommitsStats\<close> rows),
  and the debugging entry point \<open>get_commits_user\<close>. A report is the list of the
  lines it prints, each line a list of chunks (\<open>out_text\<close>). The report reads the
  database and writes nothing.
\<close>

section \<open>Definitions\<close>

definition dev_repr :: "developer \<Rightarrow> out_text" where
  "dev_repr d =
     [Txt (''Developer account: '' @ username d @ '' | created_at ''), TimeV (account_creation d),
      Txt '' | '', IntV (follower_number d), Txt '' followers | contributions: '', IntV (contributions d),
      Txt '' '']"

definition commit_repr :: "commit \<Rightarrow> out_text" where
  "commit_repr c =
     [Txt ''Id '', IntV (int (commit_id c)), Txt '' | Timestamp '', TimeV (timestamp c),
      Txt '' | New lines '', IntV (int (new_lines c)), Txt '' | Removed lines '', IntV (int (removed_lines c)),
      Txt '' | Languages '', LangsV (languages c)]"

definition file_repr :: "file_rec \<Rightarrow> out_text" where
  "file_repr f =
     [Txt ''Id '', IntV (int (file_id f)), Txt '' | Filename '', StrV (Some (filename f)),
      Txt '' | Previous filename '', StrV (previous_filename f)]"

definition separator :: out_text where
  "separator = [Txt (replicate 81 (CHR ''#''))]"

text \<open>
  \<open>[tmp.filename for tmp in commit.files]\<close>: \<open>commit.files\<close> are
  \<open>CommitsFiles\<close> rows, which have no attribute \<open>filename\<close>; the list is empty
  (\<open>[]\<close>) or the first element raises \<open>AttributeError\<close>.
\<close>

definition commit_filenames :: "db \<Rightarrow> commit \<Rightarrow> out_text res" where
  "commit_filenames s c =
     (if list_ex (\<lambda>cf. cf_commit_id cf = commit_id c) (commits_files_table s) then Inl AttributeError
      else Inr [Txt ''[]''])"

fun commit_lines :: "db \<Rightarrow> commit list \<Rightarrow> out_text list res" where
  "commit_lines s [] = Inr []"
| "commit_lines s (c # cs) =
     bindr (commit_filenames s c) (\<lambda>names.
     bindr (commit_lines s cs) (\<lambda>rest. Inr ([commit_repr c, names, separator] @ rest)))"

definition get_dev_commits :: "db \<Rightarrow> string \<Rightarrow> out_text list res" where
  "get_dev_commits s u =
     bindr (one_or_none (devs_named s u)) (\<lambda>dev.
       case dev of
         None \<Rightarrow> Inr []
       | Some d \<Rightarrow> bindr (commit_lines s (filter (\<lambda>c. c_developer_id c = dev_id d) (commits_table s)))
                    (\<lambda>ls. Inr ([dev_repr d, separator] @ ls)))"

text \<open>The sixteen lines printed for one \<open>CommitsStats\<close> row, and the empty \<open>print()\<close>.\<close>

definition stat_lines :: "commits_stats \<Rightarrow> out_text list" where
  "stat_lines st =
     [[Txt ''Day: '', DateV (date st)],
      [Txt ''Time interval from '', TimeV (time_intervals_min st), Txt '' to '', TimeV (time_intervals_max st)],
      [Txt ''Number of commits: '', IntV (int (number_commits st))],
      [Txt ''Time mean(s): '', FltV (time_intervals_mean st)],
      [Txt ''Time variance(s): '', FltV (time_intervals_var st)],
      [Txt ''Changed lines min: '', IntV (int (changed_lines_min st))],
      [Txt ''Changed lines max: '', IntV (int (changed_lines_max st))],
      [Txt ''Changed lines mean: '', FltV (changed_lines_mean st)],
      [Txt ''Changed lines variance: '', FltV (changed_lines_mean st)],
      [Txt ''Changed chars min: '', IntV (int (changed_chars_min st))],
      [Txt ''Changed chars max: '', IntV (int (changed_chars_max st))],
      [Txt ''Changed chars mean: '', FltV (changed_chars_mean st)],
      [Txt ''Changed chars variance: '', FltV (changed_chars_var st)],
      [Txt ''Commit messages min size: '', IntV (int (comments_size_min st))],
      [Txt ''Commit messages max size: '', IntV (int (comments_size_max st))],
      [Txt ''Commit messages mean: '', FltV (comments_size_mean st)],
      [Txt ''Commit messages variance: '', FltV (comments_size_var st)],
      []]"

definition dev_daily_lines :: "db \<Rightarrow> developer \<Rightarrow> out_text list" where
  "dev_daily_lines s d =
     [separator, dev_repr d] @
     concat (map stat_lines (filter (\<lambda>st. cs_developer_id st = dev_id d) (commits_stats_table s))) @
     [separator]"

definition get_all_dev_daily_stats :: "db \<Rightarrow> out_text list" where
  "get_all_dev_daily_stats s = concat (map (dev_daily_lines s) (developer_table s))"

text \<open>
  \<open>get_commits_user()\<close>: the commits of the hard-coded user
  \<open>tofu-rocketry\<close>; without that \<open>Developer\<close> row, \<open>get_commits\<close> reads
  \<open>None.username\<close>. Only whether it returns, and with which exception, is
  modelled: the session is closed without \<open>commit()\<close>.
\<close>

definition get_commits_user :: "gh_api \<Rightarrow> db \<Rightarrow> unit res option" where
  "get_commits_user api s =
     (case get_developer s ''tofu-rocketry'' of
        Inl e \<Rightarrow> Some (Inl e)
      | Inr None \<Rightarrow> Some (Inl AttributeError)
      | Inr (Some d) \<Rightarrow> map_option (\<lambda>r. bindr r (\<lambda>_. Inr ())) (get_commits api s d))"

text \<open>A developer with one \<open>CommitsStats\<close> row whose changed-lines mean and variance differ.\<close>

definition ex_stats_row :: commits_stats where
  "ex_stats_row = \<lparr>cs_id = 1, date = Some 0, number_commits = 2, time_intervals_min = 0,
     time_intervals_max = 60, time_intervals_mean = 60, time_intervals_var = 0,
     changed_lines_min = 2, changed_lines_max = 4, changed_lines_mean = 3, changed_lines_var = 2,
     changed_chars_min = 0, changed_chars_max = 0, changed_chars_mean = 0, changed_chars_var = 0,
     comments_size_min = 0, comments_size_max = 0, comments_size_mean = 0, comments_size_var = 0,
     added_files_mean = 0, added_files_var = 0, modified_files_mean = 0, modified_files_var = 0,
     removed_files_mean = 0, removed_files_var = 0, cs_developer_id = 7\<rparr>"

definition ex_report_db :: db where
  "ex_report_db = empty_db\<lparr>developer_table := [ex_dev 7 ''alice''], commits_table := [ex_commit 1 7 3 1],
     commits_files_table := [\<lparr>cf_commit_id = 1, cf_file_id = 1, cf_status = ''added''\<rparr>],
     commits_stats_table := [ex_stats_row]\<rparr>"

section \<open>Lemmas\<close>

lemma commit_lines_Inl:
  "commit_lines s cs = Inl e \<longleftrightarrow>
     e = AttributeError \<and> (\<exists>c\<in>set cs. list_ex (\<lambda>cf. cf_commit_id cf = commit_id c) (commits_files_table s))"
  by (induction cs) (auto simp: commit_filenames_def bindr_eq_Inl_iff bindr_eq_Inr_iff)

lemma stat_lines_variance:
  "l \<in> set (stat_lines st) \<Longrightarrow> l \<noteq> [] \<Longrightarrow> hd l = Txt ''Changed lines variance: '' \<Longrightarrow>
   l = [Txt ''Changed lines variance: '', FltV (changed_lines_mean st)]"
  by (auto simp: stat_lines_def)

lemma separator_text: "replicate 81 (CHR ''#'') \<noteq> ''Changed lines variance: ''"
proof
  assume "replicate 81 (CHR ''#'') = ''Changed lines variance: ''"
  then have "length (replicate 81 (CHR ''#'')) = length ''Changed lines variance: ''" by simp
  then show False by simp
qed

lemma dev_daily_lines_variance:
  "l \<in> set (dev_daily_lines s d) \<Longrightarrow> l \<noteq> [] \<Longrightarrow> hd l = Txt ''Changed lines variance: '' \<Longrightarrow>
   \<exists>st\<in>set (commits_stats_table s). cs_developer_id st = dev_id d \<and>
     l = [Txt ''Changed lines variance: '', FltV (changed_lines_mean st)]"
  using separator_text by (auto simp: dev_daily_lines_def separator_def dev_repr_def dest: stat_lines_variance)


lemma dev_daily_lines_has_variance:
  "st \<in> set (commits_stats_table s) \<Longrightarrow> cs_developer_id st = dev_id d \<Longrightarrow>
   [Txt ''Changed lines variance: '', FltV (changed_lines_mean st)] \<in> set (dev_daily_lines s d)"
  by (auto simp: dev_daily_lines_def stat_lines_def)

section \<open>Properties\<close>

text \<open>
  C18: \<open>get_all_dev_daily_stats\<close> prints, under the label
  \<open>Changed lines variance\<close>, the changed-lines mean of the row: every such line
  carries the mean of some \<open>CommitsStats\<close> row, one is printed for every row of
  every developer, and the stored variance is never shown.
\<close>

theorem get_all_dev_daily_stats_variance_line:
  "(\<forall>l\<in>set (get_all_dev_daily_stats s). l \<noteq> [] \<and> hd l = Txt ''Changed lines variance: '' \<longrightarrow>
      (\<exists>st\<in>set (commits_stats_table s). l = [Txt ''Changed lines variance: '', FltV (changed_lines_mean st)])) \<and>
   (\<forall>st\<in>set (commits_stats_table s). \<forall>d\<in>set (developer_table s). cs_developer_id st = dev_id d \<longrightarrow>
      [Txt ''Changed lines variance: '', FltV (changed_lines_mean st)] \<in> set (get_all_dev_daily_stats s))"
proof (intro conjI ballI impI)
  fix l assume "l \<in> set (get_all_dev_daily_stats s)" and "l \<noteq> [] \<and> hd l = Txt ''Changed lines variance: ''"
  then show "\<exists>st\<in>set (commits_stats_table s). l = [Txt ''Changed lines variance: '', FltV (changed_lines_mean st)]"
    by (auto simp: get_all_dev_daily_stats_def dest: dev_daily_lines_variance)
next
  fix st d assume "st \<in> set (commits_stats_table s)" "d \<in> set (developer_table s)" "cs_developer_id st = dev_id d"
  then show "[Txt ''Changed lines variance: '', FltV (changed_lines_mean st)] \<in> set (get_all_dev_daily_stats s)"
    unfolding get_all_dev_daily_stats_def using dev_daily_lines_has_variance by fastforce
qed

theorem get_all_dev_daily_stats_variance_line_witness:
  "[Txt ''Changed lines variance: '', FltV 3] \<in> set (get_all_dev_daily_stats ex_report_db) \<and>
   [Txt ''Changed lines variance: '', FltV 2] \<notin> set (get_all_dev_daily_stats ex_report_db)"
proof -
  note c = get_all_dev_daily_stats_variance_line [of ex_report_db]
  have "[Txt ''Changed lines variance: '', FltV 3] \<in> set (get_all_dev_daily_stats ex_report_db)"
    using c by (simp add: ex_report_db_def ex_stats_row_def ex_dev_def)
  moreover have "[Txt ''Changed lines variance: '', FltV 2] \<notin> set (get_all_dev_daily_stats ex_report_db)"
  proof
    assume "[Txt ''Changed lines variance: '', FltV 2] \<in> set (get_all_dev_daily_stats ex_report_db)"
    then show False using c by (auto simp: ex_report_db_def ex_stats_row_def)
  qed
  ultimately show ?thesis by blast
qed

text \<open>
  C19: \<open>get_dev_commits\<close> of an existing developer raises \<open>AttributeError\<close>
  exactly when one of its commits has a \<open>CommitsFiles\<close> row (every commit that
  \<open>get_commits\<close> stored with a file); otherwise it prints the developer, a
  separator, and three lines per commit.
\<close>

theorem get_dev_commits_errors:
  assumes "devs_named s u = [d]"
  shows "(get_dev_commits s u = Inl AttributeError \<longleftrightarrow>
            (\<exists>c\<in>set (commits_table s). c_developer_id c = dev_id d \<and>
               list_ex (\<lambda>cf. cf_commit_id cf = commit_id c) (commits_files_table s))) \<and>
         (\<forall>e. get_dev_commits s u \<noteq> Inl e \<or> e = AttributeError) \<and>
         (\<forall>ls. get_dev_commits s u = Inr ls \<longrightarrow>
            length ls = 2 + 3 * length (filter (\<lambda>c. c_developer_id c = dev_id d) (commits_table s)))"
proof -
  have len: "commit_lines s cs = Inr ls \<Longrightarrow> length ls = 3 * length cs" for cs ls
    by (induction cs arbitrary: ls) (auto simp: commit_filenames_def bindr_eq_Inr_iff split: if_splits)
  define cs where "cs = filter (\<lambda>c. c_developer_id c = dev_id d) (commits_table s)"
  have g: "get_dev_commits s u = bindr (commit_lines s cs) (\<lambda>ls. Inr ([dev_repr d, separator] @ ls))"
    using assms by (simp add: get_dev_commits_def cs_def)
  have ex: "(\<exists>c\<in>set cs. list_ex (\<lambda>cf. cf_commit_id cf = commit_id c) (commits_files_table s)) \<longleftrightarrow>
      (\<exists>c\<in>set (commits_table s). c_developer_id c = dev_id d \<and>
               list_ex (\<lambda>cf. cf_commit_id cf = commit_id c) (commits_files_table s))"
    by (auto simp: cs_def)
  show ?thesis
  proof (cases "commit_lines s cs")
    case (Inl e)
    then show ?thesis using g ex commit_lines_Inl [of s cs e] by auto
  next
    case (Inr ls)
    then have "\<not> (\<exists>c\<in>set cs. list_ex (\<lambda>cf. cf_commit_id cf = commit_id c) (commits_files_table s))"
      using commit_lines_Inl [of s cs] by auto
    then show ?thesis using g ex Inr len [OF Inr] by (auto simp: cs_def)
  qed
qed

theorem get_dev_commits_errors_witness:
  "devs_named ex_report_db ''alice'' = [ex_dev 7 ''alice''] \<and>
   get_dev_commits ex_report_db ''alice'' = Inl AttributeError"
proof -
  have h: "devs_named ex_report_db ''alice'' = [ex_dev 7 ''alice'']"
    by (simp add: devs_named_def ex_report_db_def ex_dev_def)
  have "\<exists>c\<in>set (commits_table ex_report_db). c_developer_id c = dev_id (ex_dev 7 ''alice'') \<and>
      list_ex (\<lambda>cf. cf_commit_id cf = commit_id c) (commits_files_table ex_report_db)"
    by (simp add: ex_report_db_def ex_commit_def ex_dev_def)
  then show ?thesis using get_dev_commits_errors [OF h] h by blast
qed

end
