(* ===== verification/Spec2Isabelle.thy ===== *)
theory Spec2Isabelle
  imports Webhook Daily Classifier Reports
begin

text \<open>
  \<^bold>\<open>Commit trust and anomaly scoring (mlpcorreia/anomaluser), verified model.\<close>

  \<^bold>\<open>The program.\<close> A push to the repository reaches the Flask endpoint
  \<open>push_payload\<close> (\<open>src/app/webhook_handler.py\<close>), which calls
  \<open>rules_violated\<close> (\<open>src/app/rule_check.py\<close>). That function evaluates six boolean
  predicates over the commit and the author's history in the SQLite database
  (\<open>src/app/models.py\<close>): sensitive file extensions, stale familiarity, majority
  ownership, adding files outside one's own territory, the statistical outlier check
  against per-developer and per-repository baselines (\<open>outlier_check\<close>), and the
  trust verdict \<open>is_trusted\<close>, itself six predicates about the author. The
  baselines (\<open>DeveloperStats\<close>, \<open>RepoStats\<close>) and the per-day statistics
  (\<open>CommitsStats\<close>) are computed in batch by \<open>src/app/utils.py\<close> from the commits
  that the ingestion code fetched from the GitHub API; \<open>src/app/anomaly_detection.py\<close>
  turns commits into 16-number feature vectors and trains a one-class SVM on them.

  \<^bold>\<open>Theories.\<close>
  \<^item> \<open>Prelude\<close>: Python's exceptions as the datatype \<open>py_error\<close>, results
    \<open>'a res = py_error + 'a\<close> with \<open>bindr\<close> (an exception ends the computation,
    as in Python), \<open>bindo\<close> for calls that may also run forever
    (\<open>'a res option\<close>), Python division \<open>py_div\<close> and \<open>round\<close> (\<open>py_round\<close>,
    \<open>py_round_digits\<close>: half to even), SQLAlchemy's \<open>one()\<close> and
    \<open>one_or_none()\<close>, \<open>min\<close>/\<open>max\<close>, \<open>str.split\<close>, \<open>str.rfind\<close>; shared
    lemmas on rounding ratios, sets as duplicate-free lists, and strings.
  \<^item> \<open>Stats\<close>: \<open>get_mean_and_variance\<close> (utils.py, anomaly_detection.py), the
    sample variance of Python's \<open>statistics.variance\<close>, and the loop over
    consecutive timestamps (\<open>time_intervals\<close>, a \<open>function\<close> with a measure).
  \<^item> \<open>Schema\<close>: the tables of models.py as records and the database \<open>db\<close> as a
    record of row lists; the GitHub commit JSON; the \<open>rules.ini\<close> configuration
    (\<open>config\<close>) and the environment (\<open>env\<close>: today's date, the GitHub contribution
    count, the commit JSON behind a URL); the queries \<open>devs_named\<close>,
    \<open>commits_of\<close> and \<open>first_commit\<close>. Nullable columns the code can leave
    \<open>NULL\<close> are options (the baseline means, \<open>CommitsStats.date\<close>).
  \<^item> \<open>Outlier\<close>: \<open>count_files_by_status\<close>, \<open>outlier_stats_check\<close>,
    \<open>outlier_check\<close>.
  \<^item> \<open>Trust\<close>: \<open>is_trusted\<close> and its predicates.
  \<^item> \<open>Rules\<close>: the rule predicates and \<open>rules_violated\<close>, and the unused query
    helpers \<open>files_already_touched\<close> and \<open>owned_files\<close>.
  \<^item> \<open>Webhook\<close>: the endpoints of webhook_handler.py: \<open>push_payload\<close>
    (the evaluation of a push), \<open>write_file\<close> appending the report to the
    directory \<open>reports/\<close> (a map from file names to the printed text,
    \<open>out_text\<close>: literal text and the values \<open>str\<close> renders), the whole
    handler \<open>push_handler\<close> with its \<open>201\<close>, \<open>pull_payload\<close> and
    \<open>get_commit\<close> (the \<open>forged_commits\<close> table as a list of rows).
  \<^item> \<open>Baseline\<close>: the batch jobs of utils.py that fill the baseline tables,
    \<open>calculate_global_dev_stats\<close> and \<open>calculate_repo_stats\<close>, with the raw SQL
    variance queries (\<open>sql_variance\<close>: SQLite's \<open>NULL\<close> for an empty sum and a
    division by zero) and \<open>math.sqrt\<close> (\<open>py_sqrt\<close>); each job returns the
    database with one row appended, or the exception it raises.
  \<^item> \<open>Features\<close>: \<open>save_file_changes\<close> of utils.py, run by the ingestion on
    every commit: one step per file of the commit (\<open>save_file_step\<close>, composed of
    \<open>get_file\<close>/\<open>open_file\<close>, \<open>rename_file\<close>, \<open>set_owner\<close> and
    \<open>link_file\<close> in the order of the loop body), threading the database and the
    loop's counters (\<open>sfc_acc\<close>); a \<open>File\<close> created for an unknown name gets the
    next free id at once, which is what the autoflush of the next query does.
  \<^item> \<open>Daily\<close>: \<open>daily_commit_stats\<close> and \<open>calculate_daily_stats\<close> of utils.py.
    The loop variables (\<open>day\<close> and seven lists) are one record
    (\<open>daily_state\<close>) threaded through the loop over developers
    (\<open>daily_devs\<close>) and the loop over a developer's commits (\<open>daily_commits\<close>,
    body \<open>daily_step\<close>), exactly as the code shares them. The reference
    \<open>day_groups\<close> cuts a commit list into runs of one day (a \<open>function\<close> with a
    measure), and the loop is proved to emit one row per run.
  \<^item> \<open>Anomaly\<close>: \<open>parse_commits\<close> of anomaly_detection.py, the 16-entry
    feature vector of the one-class SVM: the loop over commits
    (\<open>parse_loop\<close>), over a commit's files (\<open>parse_files\<close>, with
    \<open>status_step\<close> and the per-line \<open>line_lens\<close>), then the statistics.
  \<^item> \<open>Classifier\<close>: the program code around the one-class SVM in
    anomaly_detection.py: the training rows read by \<open>get_dev_commits_stats\<close>
    (\<open>training_row\<close>, with SQLite's \<open>round\<close>, in \<open>ORDER BY date\<close>), the
    train/prediction split \<open>split_array\<close> (\<open>np.split\<close> and its
    \<open>except ValueError\<close> fallback), \<open>divide_train_predict\<close> with its eight
    SVM runs, the series of \<open>create_graph_commits\<close>, the experiment script's
    loop over forged commits (\<open>predict_forged\<close>), and the rates printed by
    \<open>model\<close> and by the script. The fitted SVM and the scaler are parameters.
  \<^item> \<open>Reports\<close>: the console reports of run.py, \<open>get_dev_commits\<close> and
    \<open>get_all_dev_daily_stats\<close>, as the lines they print (with the
    \<open>__repr__\<close> methods of models.py), and \<open>get_commits_user\<close>.
  \<^item> \<open>Driver\<close>: \<open>get_repository_info\<close> of run.py over an interface: the
    ingestion calls \<open>get_contributors\<close> and \<open>get_commits\<close> are parameters
    (\<open>ingest\<close>, returning \<open>db res option\<close>, \<open>None\<close> for a run that
    never returns), and \<open>ingest_ok\<close> is the contract the lemmas assume of
    \<open>get_commits\<close>: it leaves developers and baselines alone.
  \<^item> \<open>Ingest\<close>: the GitHub ingestion of utils.py, \<open>create_user\<close>,
    \<open>get_contributors\<close>, \<open>get_pulls\<close> and \<open>get_commits\<close>, which
    implement that interface. The API's replies are a record of functions
    (\<open>gh_api\<close>: a page of contributors, of pull requests, of an author's commits;
    a user; a commit's JSON and author), so the model is a function of what the API
    answers. The three \<open>while True\<close> page loops are one
    \<open>partial_function (option)\<close>, \<open>page_loop\<close>, over a page source and a
    loop body (\<open>fold_res\<close> of the per-entry step, which stops at the first
    exception). \<open>get_commits\<close> threads the function-scope variables
    \<open>commit_data\<close> and \<open>dev_tmp\<close>/\<open>developer_id\<close> through its entries
    (\<open>gcs_state\<close>), because a merge entry reads them from the entry before;
    \<open>merge_parents\<close> is the loop over a merge's parents and \<open>store_commit\<close>
    the \<open>Commits\<close> row with \<open>save_file_changes\<close>. New rows get
    \<open>max(id) + 1\<close>, SQLite's choice for an integer primary key. The reads
    \<open>user_contributions\<close> (an \<open>int\<close> or the \<open>str\<close> \<open>'0'\<close>, then \<open>int()\<close>)
    and \<open>get_commit_info\<close> are the inputs the rule evaluator takes as \<open>env\<close>.
  Every function that reads the database takes the state \<open>s :: db\<close>; every function
  that can raise returns \<open>'a res\<close> and is composed with \<open>bindr\<close> in the order of
  the source, so which exception a call raises, and whether it raises at all, is
  part of the model. Python floats are \<open>real\<close> (exact); the rounding ties that a
  float decides on its binary value are decided here on the real value. Every loop
  over a list of the program is a structural \<open>fun\<close> or a \<open>function\<close> with
  a measure. The only loops that need not end are the page loops of the ingestion,
  which stop at the first page with fewer than 100 entries: \<open>page_loop\<close> is a
  \<open>partial_function (option)\<close>, with no fuel and no bound on the number of
  pages, and the lemmas prove that it returns (\<open>Some\<close>) as soon as some page is
  short, which is the only condition under which the Python loop ends.

  \<^bold>\<open>What is proved.\<close> The score is always \<open>k / 7 * 100\<close> for \<open>k \<le> 6\<close>, never
  100; a push is scored as its last commit; the outlier check is the glossary's
  \<open>mean \<plusminus> std\<close> band test and composes the developer and repository checks; a
  first-time committer never trips the familiarity and ownership rules and gets two
  trust points for free; the familiarity rule is constant; an existing author who
  only adds files, and a repository without commits, make the evaluation raise
  \<open>ZeroDivisionError\<close>; the trust verdict is a table of the number of predicates;
  the interval loop computes adjacent differences; the per-file accumulation of
  \<open>is_major_contributor_to_files\<close> sums lines per file. The SQL variance query
  is the sample variance; the baseline jobs keep every stored std the square root of
  a non-negative variance; the repository job raises below two commits; running it
  twice, or storing a baseline for a developer without commits, makes the later
  outlier check raise (\<open>MultipleResultsFound\<close>, \<open>TypeError\<close>). The file
  counts stored by \<open>save_file_changes\<close> agree with \<open>count_files_by_status\<close>, its
  \<open>languages\<close> dict counts file types, a patch with an empty line aborts it with
  \<open>IndexError\<close>, and it keeps the \<open>File\<close>/\<open>CommitsFiles\<close> tables well formed
  (fresh ids, links to stored files, no duplicate link). For one developer,
  \<open>calculate_daily_stats\<close> refines the per-day count (one row per day with that
  day's number of commits); with several developers the loop state leaks from one
  developer to the next, and a first developer without commits makes it raise
  \<open>ValueError\<close>. \<open>parse_commits\<close> returns 16 features, raises exactly on an
  empty patch line (\<open>IndexError\<close>) or an empty commit list (\<open>ValueError\<close>),
  keeps the changed-lines mean between its min and max and every variance
  non-negative, and measures changed characters per line where the daily
  statistics measure them per commit. Over any contract-respecting ingestion,
  \<open>get_repository_info\<close> stores one well-formed baseline per developer, and a
  second run raises \<open>IntegrityError\<close>. The GitHub \<open>get_commits\<close> meets that
  contract (a refinement of the interface); it returns once a page is short, having
  processed exactly the entries of the pages before; a merge entry is stored as its
  last parent and, when no parent's author is a known developer, credited to the
  developer of an earlier entry (or raises \<open>NameError\<close>). \<open>create_user\<close>
  and \<open>get_developer\<close> round-trip, and a second \<open>create_user\<close> of a name
  breaks every later lookup of it; \<open>get_contributors\<close> and \<open>get_pulls\<close>
  append one row per entry of the pages read, with fresh ids, a pull request of an
  unknown user getting a \<open>NULL\<close> author; and the batch run with the GitHub
  ingestion returns whenever the API's pages end (liveness). Besides, the mean and
  variance are non-negative, order-independent, shift-invariant and equal to the
  one-pass formula, and rejected pull requests round half to even. The classifier's
  \<open>split_array\<close> returns halves of equal length that drop the last row when the
  row count is odd and reuse the training rows for prediction up to three rows; the
  rates of \<open>model\<close> sum to 100 over inlier/outlier labels and raise on an empty
  prediction set, while the script divides by a fixed 500; the script classifies
  every forged commit as a one-commit vector (no interval, zero variances) and
  aborts on the first patch with an empty line. A push that is evaluated appends
  exactly one report, for its last commit, ending with a score below 100%;
  \<open>get_all_dev_daily_stats\<close> prints the changed-lines mean as the variance; and
  \<open>get_dev_commits\<close> raises \<open>AttributeError\<close> for every developer with a commit
  that has files.

  \<^bold>\<open>Not modelled.\<close> The HTTP transport (the replies are the inputs
  \<open>gh_api\<close> and \<open>env\<close>) and \<open>get_languages\<close> (prints only); SQLAlchemy's
  transactions (a run that raises is an \<open>Inl\<close> result; which pages were
  committed before is not tracked, and \<open>get_commits_user\<close> is modelled only by
  whether it returns); the rendering of \<open>str\<close> for floats, datetimes and dates
  (kept as values in \<open>out_text\<close>); \<open>MinMaxScaler\<close>, \<open>OneClassSVM\<close>,
  \<open>f1_score\<close> and matplotlib (library code: the fitted model and the scaler are
  parameters, so \<open>analyze_user_behaviour\<close>, which only calls them, and the
  plotting half of \<open>create_graph_commits\<close> are left out);
  \<open>predict_over_rules\<close> (it calls \<open>clever_commit\<close> of \<open>rule_simulation\<close>,
  which is not in the repository); and the module-level set-up of the scripts
  (configuration files, \<open>input()\<close>, the Flask app and database engines).
\<close>

section \<open>Properties across components\<close>

text \<open>
  C21: a push whose commits modify and remove no file, with an existing developer as
  the author of its last commit, is not scored: \<open>push_payload\<close> raises
  \<open>ZeroDivisionError\<close> (the touched set is empty and
  \<open>not_first_never_touched\<close> divides by its size).
\<close>

theorem push_only_added_files_raises:
  assumes "cs \<noteq> []"
    and "first_commit s (pc_username (last cs)) = Inr False"
    and "\<forall>c \<in> set cs. pc_removed c = [] \<and> pc_modified c = []"
  shows "push_payload cfg e s (Some cs) = Inl ZeroDivisionError"
proof -
  have "push_touched cs [] = []"
    using assms(3) push_touched_eq [of "[]" cs] by simp
  moreover have "pc_removed (last cs) = [] \<and> pc_modified (last cs) = []"
    using assms(1,3) by simp
  ultimately show ?thesis
    using assms(1,2)
    by (simp add: push_payload_def rules_violated_def not_first_never_touched_def Let_def)
qed

theorem push_only_added_files_raises_witness:
  "[ex_push_commit ''alice'' [''new.py''] []] \<noteq> [] \<and>
   first_commit ex_repo_alice (pc_username (last [ex_push_commit ''alice'' [''new.py''] []])) = Inr False \<and>
   pc_removed (ex_push_commit ''alice'' [''new.py''] []) = [] \<and>
   pc_modified (ex_push_commit ''alice'' [''new.py''] []) = [] \<and>
   push_payload ex_config ex_env ex_repo_alice (Some [ex_push_commit ''alice'' [''new.py''] []])
     = Inl ZeroDivisionError"
proof -
  let ?cs = "[ex_push_commit ''alice'' [''new.py''] []]"
  have h1: "?cs \<noteq> []" by simp
  have h2: "first_commit ex_repo_alice (pc_username (last ?cs)) = Inr False"
    by (simp add: ex_push_commit_def first_commit_def devs_named_def ex_repo_alice_def ex_repo_def
        empty_db_def ex_dev_def)
  have h3: "\<forall>c \<in> set ?cs. pc_removed c = [] \<and> pc_modified c = []"
    by (simp add: ex_push_commit_def)
  show ?thesis using push_only_added_files_raises [OF h1 h2 h3] h1 h2
    by (simp add: ex_push_commit_def)
qed

text \<open>
  C26: running the repository batch job \<open>calculate_repo_stats\<close> twice leaves two
  \<open>RepoStats\<close> rows, and from then on \<open>outlier_check\<close> raises
  \<open>MultipleResultsFound\<close> (from \<open>Query.one()\<close>) for every first-time
  committer: the job appends a row instead of replacing the baseline.
\<close>

theorem repo_stats_twice_breaks_outlier_check:
  assumes "devs_named s u = []"
    and "calculate_repo_stats s = Inr s1" and "calculate_repo_stats s1 = Inr s2"
  shows "outlier_check s2 u cd = Inl MultipleResultsFound"
proof -
  have s1: "s1 = s\<lparr>repo_stats_table := repo_stats_table s @ [repo_row_of s]\<rparr>"
    using assms(2) by (simp add: calculate_repo_stats_eq split: if_splits)
  have s2: "s2 = s1\<lparr>repo_stats_table := repo_stats_table s1 @ [repo_row_of s1]\<rparr>"
    using assms(3) by (simp add: calculate_repo_stats_eq split: if_splits)
  have "devs_named s2 u = []" using assms(1) by (simp add: s1 s2 devs_named_def)
  then have "first_commit s2 u = Inr True" by (simp add: first_commit_def)
  moreover have "1 < length (repo_stats_table s2)" by (simp add: s1 s2)
  ultimately show ?thesis by (simp add: outlier_check_def Let_def)
qed

theorem repo_stats_twice_breaks_outlier_check_witness:
  "devs_named ex_base_db ''mallory'' = [] \<and>
   (\<exists>s1 s2. calculate_repo_stats ex_base_db = Inr s1 \<and> calculate_repo_stats s1 = Inr s2 \<and>
      outlier_check s2 ''mallory'' ex_gh_commit = Inl MultipleResultsFound)"
proof -
  have h: "devs_named ex_base_db ''mallory'' = []"
    by (simp add: devs_named_def ex_base_db_def empty_db_def ex_dev_def)
  define s1 where "s1 = ex_base_db\<lparr>repo_stats_table := [repo_row_of ex_base_db]\<rparr>"
  define s2 where "s2 = s1\<lparr>repo_stats_table := repo_stats_table s1 @ [repo_row_of s1]\<rparr>"
  have e1: "calculate_repo_stats ex_base_db = Inr s1"
    by (simp add: calculate_repo_stats_eq s1_def ex_base_db_def empty_db_def)
  have e2: "calculate_repo_stats s1 = Inr s2"
    by (simp add: calculate_repo_stats_eq s2_def s1_def ex_base_db_def empty_db_def)
  show ?thesis using repo_stats_twice_breaks_outlier_check [OF h e1 e2] h e1 e2 by blast
qed

text \<open>
  C27: a developer who has no commits still gets a \<open>DeveloperStats\<close> row from
  \<open>calculate_global_dev_stats\<close>, with \<open>NULL\<close> means; every later
  \<open>outlier_check\<close> of a commit by that developer raises \<open>TypeError\<close>.
\<close>

theorem dev_without_commits_breaks_outlier_check:
  assumes "devs_named s u = [d]" and "dev_commit_rows s (dev_id d) = []"
    and "dev_id d \<notin> set (map ds_developer_id (developer_stats_table s))"
  shows "\<exists>s'. calculate_global_dev_stats s (dev_id d) = Inr s' \<and>
              outlier_check s' u cd = Inl TypeError"
proof -
  let ?r = "dev_row_of s (dev_id d)"
  let ?s' = "s\<lparr>developer_stats_table := developer_stats_table s @ [?r]\<rparr>"
  have e: "calculate_global_dev_stats s (dev_id d) = Inr ?s'"
    using assms(3) by (rule calculate_global_dev_stats_new)
  have "filter (\<lambda>r. ds_developer_id r = dev_id d) (developer_stats_table s) = []"
    using assms(3) by (auto simp: filter_empty_conv image_iff)
  then have "filter (\<lambda>r. ds_developer_id r = dev_id d) (developer_stats_table ?s') = [?r]"
    by (simp add: dev_row_of_def)
  moreover have "devs_named ?s' u = [d]" using assms(1) by (simp add: devs_named_def)
  moreover have "new_lines_avg ?r = None" using assms(2) by (simp add: dev_row_of_avg_None)
  ultimately have "outlier_check ?s' u cd = Inl TypeError"
    by (simp add: outlier_check_def first_commit_def outlier_stats_check_def Let_def)
  then show ?thesis using e by blast
qed

theorem dev_without_commits_breaks_outlier_check_witness:
  "devs_named (ex_base_db\<lparr>developer_table := [ex_dev 8 ''bob'']\<rparr>) ''bob'' = [ex_dev 8 ''bob''] \<and>
   dev_commit_rows (ex_base_db\<lparr>developer_table := [ex_dev 8 ''bob'']\<rparr>) 8 = [] \<and>
   (\<exists>s'. calculate_global_dev_stats (ex_base_db\<lparr>developer_table := [ex_dev 8 ''bob'']\<rparr>) 8 = Inr s' \<and>
         outlier_check s' ''bob'' ex_gh_commit = Inl TypeError)"
proof -
  let ?s = "ex_base_db\<lparr>developer_table := [ex_dev 8 ''bob'']\<rparr>"
  have h1: "devs_named ?s ''bob'' = [ex_dev 8 ''bob'']"
    by (simp add: devs_named_def ex_dev_def)
  have h2: "dev_commit_rows ?s (dev_id (ex_dev 8 ''bob'')) = []"
    by (simp add: dev_commit_rows_def ex_base_db_def ex_dev_def ex_commit_def)
  have h3: "dev_id (ex_dev 8 ''bob'') \<notin> set (map ds_developer_id (developer_stats_table ?s))"
    by (simp add: ex_base_db_def empty_db_def)
  have d: "dev_id (ex_dev 8 ''bob'') = 8" by (simp add: ex_dev_def)
  show ?thesis
    using dev_without_commits_breaks_outlier_check [OF h1 h2 h3, of ex_gh_commit] h1 h2 d by simp
qed

text \<open>
  C20: the batch run \<open>get_repository_info\<close>, with the GitHub ingestion of theory
  \<open>Ingest\<close>, returns (with a result or an exception) whenever the API's contributor
  pages and each author's commit pages end with a short page; without that, a
  \<open>while True\<close> loop of the ingestion may run forever.
\<close>

theorem get_repository_info_returns:
  assumes "1 \<le> n" and "length (api_contributors api n) < 100"
    and "\<forall>u. \<exists>m. 1 \<le> m \<and> length (api_commits api u m) < 100"
  shows "\<exists>r. get_repository_info (Ingest.get_contributors api) (Ingest.get_commits api) s = Some r"
proof -
  have c: "\<exists>r. Ingest.get_contributors api t = Some r" for t
    using page_loop_returns [of "api_contributors api" 1 "n - 1" "create_users api" t] assms(1,2)
    by (simp add: get_contributors_def)
  have g: "\<forall>t. \<forall>d\<in>set ds. \<exists>r. Ingest.get_commits api t d = Some r" for ds
    using assms(3) get_commits_returns_from by blast
  show ?thesis
    unfolding get_repository_info_def bindo_Some_iff
    using c g repo_info_devs_Some by (simp add: bindo_Some_iff)
qed

theorem get_repository_info_returns_witness:
  "1 \<le> (1::nat) \<and> length (api_contributors ex_api 1) < 100 \<and>
   (\<forall>u. \<exists>m. 1 \<le> m \<and> length (api_commits ex_api u m) < 100) \<and>
   (\<exists>r. get_repository_info (Ingest.get_contributors ex_api) (Ingest.get_commits ex_api) empty_db = Some r)"
proof -
  have h2: "length (api_contributors ex_api 1) < 100" by (simp add: ex_api_def)
  have h3: "\<forall>u. \<exists>m. 1 \<le> m \<and> length (api_commits ex_api u m) < 100" by (auto simp: ex_api_def)
  show ?thesis using get_repository_info_returns [of 1 ex_api, OF _ h2 h3] h2 h3 by simp
qed

end
